theory Spec2Isabelle
  imports Complex_Main
begin

section \<open>Python values, exceptions and files\<close>

text \<open>
  The hedging engine is two Python scripts (\<open>cnx_trade.py\<close>, the derivatives-venue
  hedger, and \<open>nbtx_trade.py\<close>, the spot-venue maker) over one position cache
  (\<open>pos_store.py\<close>). Floats, ints and \<open>Decimal\<close>s are modelled as reals: the
  rounding of binary floating point is not part of the model. Every exception is a
  value of \<open>exn\<close>, and a function that can raise returns \<open>exn + 'a\<close> with \<open>Inl\<close>
  for the exception. All constructors of \<open>exn\<close> are subclasses of Python's
  \<open>Exception\<close>, so \<open>except Exception\<close> catches each of them; asynchronous
  interrupts are outside the model.
\<close>

datatype exn =
    FileNotFoundError
  | OSError
  | JSONDecodeError
  | AttributeError
  | TypeError
  | ValueError
  | KeyError
  | IndexError
  | InvalidOperation
  | VenueError

text \<open>
  A value decoded from JSON (a venue response or the position file). A dict is an
  association list in insertion order.
\<close>

datatype pyval =
    PNone
  | PBool bool
  | PNum real
  | PStr string
  | PList "pyval list"
  | PDict "(string \<times> pyval) list"

text \<open>Python truthiness, as \<open>or\<close> and \<open>if\<close> test it.\<close>

fun truthy :: "pyval \<Rightarrow> bool" where
  "truthy PNone = False"
| "truthy (PBool b) = b"
| "truthy (PNum r) = (r \<noteq> 0)"
| "truthy (PStr s) = (s \<noteq> [])"
| "truthy (PList xs) = (xs \<noteq> [])"
| "truthy (PDict d) = (d \<noteq> [])"

text \<open>\<open>a or b\<close>: the first operand if it is truthy, else the second.\<close>

definition py_or :: "exn + pyval \<Rightarrow> exn + pyval \<Rightarrow> exn + pyval" where
  "py_or a b = (case a of Inl e \<Rightarrow> Inl e | Inr v \<Rightarrow> if truthy v then Inr v else b)"

text \<open>\<open>v.get(k, dflt)\<close>: only a dict has the method.\<close>

fun py_get :: "pyval \<Rightarrow> string \<Rightarrow> pyval \<Rightarrow> exn + pyval" where
  "py_get (PDict d) k dflt = (case map_of d k of None \<Rightarrow> Inr dflt | Some v \<Rightarrow> Inr v)"
| "py_get _ k dflt = Inl AttributeError"

text \<open>\<open>d[k] = v\<close> on a dict: an existing key keeps its place, a new one goes last.\<close>

fun dict_set :: "string \<Rightarrow> pyval \<Rightarrow> (string \<times> pyval) list \<Rightarrow> (string \<times> pyval) list" where
  "dict_set k v [] = [(k, v)]"
| "dict_set k v ((k', v') # d) = (if k' = k then (k, v) # d else (k', v') # dict_set k v d)"

text \<open>
  \<open>float(v)\<close>. How Python reads a string as a float is library code: it is the
  parameter \<open>fl\<close> (\<open>None\<close> where \<open>float\<close> raises ValueError).
\<close>

fun py_float :: "(string \<Rightarrow> real option) \<Rightarrow> pyval \<Rightarrow> exn + real" where
  "py_float fl (PNum r) = Inr r"
| "py_float fl (PBool b) = Inr (if b then 1 else 0)"
| "py_float fl (PStr s) = (case fl s of None \<Rightarrow> Inl ValueError | Some r \<Rightarrow> Inr r)"
| "py_float fl _ = Inl TypeError"

text \<open>\<open>str.upper()\<close> and \<open>str.lower()\<close> on ASCII text (market symbols are ASCII).\<close>

definition upper_char :: "char \<Rightarrow> char" where
  "upper_char c =
     (case map_of (zip ''abcdefghijklmnopqrstuvwxyz'' ''ABCDEFGHIJKLMNOPQRSTUVWXYZ'') c of
        None \<Rightarrow> c
      | Some C \<Rightarrow> C)"

definition lower_char :: "char \<Rightarrow> char" where
  "lower_char c =
     (case map_of (zip ''ABCDEFGHIJKLMNOPQRSTUVWXYZ'' ''abcdefghijklmnopqrstuvwxyz'') c of
        None \<Rightarrow> c
      | Some C \<Rightarrow> C)"

definition str_upper :: "string \<Rightarrow> string" where
  "str_upper s = map upper_char s"

definition str_lower :: "string \<Rightarrow> string" where
  "str_lower s = map lower_char s"

text \<open>
  A file as \<open>open\<close> and \<open>json.load\<close> see it: it cannot be opened although it
  exists, its text is not JSON, or it decodes to a value. A path outside the domain of
  the file system does not exist.
\<close>

datatype file_state = Denied | Malformed | Json pyval

type_synonym fsys = "string \<Rightarrow> file_state option"

section \<open>pos\_store.py\<close>

text \<open>The body of the \<open>try\<close> in \<open>read_pos\<close>.\<close>

definition read_pos_try :: "fsys \<Rightarrow> string \<Rightarrow> string \<Rightarrow> exn + pyval" where
  "read_pos_try fs path symbol =
     (case fs path of
        None \<Rightarrow> Inl FileNotFoundError
      | Some Denied \<Rightarrow> Inl OSError
      | Some Malformed \<Rightarrow> Inl JSONDecodeError
      | Some (Json data) \<Rightarrow> py_get data (str_upper symbol) PNone)"

text \<open>\<open>read_pos\<close>: both handlers return \<open>None\<close>.\<close>

definition read_pos :: "fsys \<Rightarrow> string \<Rightarrow> string \<Rightarrow> exn + pyval" where
  "read_pos fs path symbol =
     (case read_pos_try fs path symbol of
        Inl FileNotFoundError \<Rightarrow> Inr PNone
      | Inl e \<Rightarrow> Inr PNone
      | Inr v \<Rightarrow> Inr v)"

text \<open>The \<open>side\<close> that \<open>write_pos\<close> derives from the sign of the quantity.\<close>

definition side_of_qty :: "real \<Rightarrow> string" where
  "side_of_qty qty = (if qty > 0 then ''buy'' else if qty < 0 then ''sell'' else ''flat'')"

text \<open>
  The dict \<open>write_pos\<close> starts from: the decoded file if the path exists and decodes,
  \<open>{}\<close> otherwise.
\<close>

definition load_data :: "fsys \<Rightarrow> string \<Rightarrow> pyval" where
  "load_data fs path =
     (case fs path of
        None \<Rightarrow> PDict []
      | Some Denied \<Rightarrow> PDict []
      | Some Malformed \<Rightarrow> PDict []
      | Some (Json data) \<Rightarrow> data)"

text \<open>
  \<open>write_pos\<close>. \<open>now\<close> is the text of the clock reading
  \<open>datetime.utcnow().isoformat(timespec="seconds")\<close>. Item assignment on decoded
  data that is not a dict raises TypeError; opening the temporary file for writing
  fails where that path cannot be opened. On success the temporary file replaces the
  position file.
\<close>

definition write_pos :: "fsys \<Rightarrow> string \<Rightarrow> string \<Rightarrow> real \<Rightarrow> string \<Rightarrow> exn + fsys" where
  "write_pos fs path symbol qty now =
     (let sym = str_upper symbol;
          side = side_of_qty qty;
          entry = PDict [(''q'', PNum qty), (''side'', PStr side), (''time'', PStr now)];
          tmp = path @ ''.tmp''
      in case load_data fs path of
           PDict d \<Rightarrow>
             (if fs tmp = Some Denied then Inl OSError
              else Inr ((fs(tmp := None))(path \<mapsto> Json (PDict (dict_set sym entry d)))))
         | _ \<Rightarrow> Inl TypeError)"

section \<open>cnx\_trade.py: the current position\<close>

text \<open>A number as Python arithmetic and comparison read it (\<open>bool\<close> is an \<open>int\<close>).\<close>

fun num_of :: "pyval \<Rightarrow> real option" where
  "num_of (PNum r) = Some r"
| "num_of (PBool b) = Some (if b then 1 else 0)"
| "num_of _ = None"

text \<open>
  \<open>a == b\<close>: numbers by value, everything else by structure (the dicts compared in
  this program are decoded from the same file, so they agree in order too).
\<close>

definition py_eq :: "pyval \<Rightarrow> pyval \<Rightarrow> bool" where
  "py_eq a b = (case (num_of a, num_of b) of (Some x, Some y) \<Rightarrow> x = y | _ \<Rightarrow> a = b)"

text \<open>
  \<open>for p in v\<close>: a list yields its elements, a dict its keys, a string its
  characters; nothing else is iterable.
\<close>

fun py_iter :: "pyval \<Rightarrow> exn + pyval list" where
  "py_iter (PList xs) = Inr xs"
| "py_iter (PDict d) = Inr (map (\<lambda>kv. PStr (fst kv)) d)"
| "py_iter (PStr s) = Inr (map (\<lambda>c. PStr [c]) s)"
| "py_iter _ = Inl TypeError"

text \<open>\<open>(v or "").lower()\<close>: only a string has the method.\<close>

fun or_empty_lower :: "pyval \<Rightarrow> exn + string" where
  "or_empty_lower (PStr s) = Inr (str_lower s)"
| "or_empty_lower v = (if truthy v then Inl AttributeError else Inr [])"

text \<open>The \<open>for\<close> loop of \<open>get_coinex_pos\<close>, with the running sum \<open>pos\<close>.\<close>

fun sum_positions :: "(string \<Rightarrow> real option) \<Rightarrow> string \<Rightarrow> pyval list \<Rightarrow> real \<Rightarrow> exn + real" where
  "sum_positions fl symbol [] pos = Inr pos"
| "sum_positions fl symbol (p # ps) pos =
     (case py_get p ''market'' PNone of
        Inl e \<Rightarrow> Inl e
      | Inr m \<Rightarrow>
          if m = PStr symbol then
            (case py_get p ''size'' (PNum 0) of
               Inl e \<Rightarrow> Inl e
             | Inr sz \<Rightarrow>
                 (case py_float fl sz of
                    Inl e \<Rightarrow> Inl e
                  | Inr psize \<Rightarrow>
                      (case py_get p ''side'' PNone of
                         Inl e \<Rightarrow> Inl e
                       | Inr sd \<Rightarrow>
                           (case or_empty_lower sd of
                              Inl e \<Rightarrow> Inl e
                            | Inr side \<Rightarrow>
                                sum_positions fl symbol ps
                                  (pos + (if side = ''long'' then psize else - psize))))))
          else sum_positions fl symbol ps pos)"

text \<open>
  The body of the \<open>try\<close> in \<open>get_coinex_pos\<close>; \<open>api\<close> is what the signed request
  \<open>GET /futures/position\<close> returned or raised. \<open>Inr None\<close>: the \<open>if\<close> did not
  hold and control falls through to the fallback.
\<close>

definition get_coinex_pos_try :: "(string \<Rightarrow> real option) \<Rightarrow> exn + pyval \<Rightarrow> string \<Rightarrow> exn + real option" where
  "get_coinex_pos_try fl api symbol =
     (case api of
        Inl e \<Rightarrow> Inl e
      | Inr (PDict d) \<Rightarrow>
          (case map_of d ''positions'' of
             None \<Rightarrow> Inr None
           | Some ps \<Rightarrow>
               if truthy ps then
                 (case py_iter ps of
                    Inl e \<Rightarrow> Inl e
                  | Inr xs \<Rightarrow>
                      (case sum_positions fl symbol xs 0 of
                         Inl e \<Rightarrow> Inl e
                       | Inr pos \<Rightarrow> Inr (Some pos)))
               else Inr None)
      | Inr _ \<Rightarrow> Inr None)"

text \<open>
  \<open>get_coinex_pos\<close>: the position summed from the venue's answer, or, after any
  exception or an answer without positions, whatever \<open>read_pos\<close> returns.
\<close>

definition get_coinex_pos :: "(string \<Rightarrow> real option) \<Rightarrow> exn + pyval \<Rightarrow> fsys \<Rightarrow> string \<Rightarrow> string \<Rightarrow> exn + pyval" where
  "get_coinex_pos fl api fs store_path symbol =
     (case get_coinex_pos_try fl api symbol of
        Inr (Some pos) \<Rightarrow> Inr (PNum pos)
      | _ \<Rightarrow> read_pos fs store_path symbol)"

text \<open>
  The end of a cycle of \<open>main\<close> in \<open>cnx_trade.py\<close> (the lines after
  \<open>ok = fok_taker(...)\<close>): the position written back to the store. \<open>api\<close> is the
  venue's answer to the position request made after the fill.
\<close>

definition store_after_attempt ::
  "(string \<Rightarrow> real option) \<Rightarrow> exn + pyval \<Rightarrow> fsys \<Rightarrow> string \<Rightarrow> string \<Rightarrow> bool \<Rightarrow> real \<Rightarrow> real \<Rightarrow> string \<Rightarrow> string \<Rightarrow> exn + fsys" where
  "store_after_attempt fl api fs pos_store symb ok cur need side now =
     (if ok then
        (case get_coinex_pos fl api fs pos_store symb of
           Inl e \<Rightarrow> Inl e
         | Inr new_pos \<Rightarrow>
             (case read_pos fs pos_store symb of
                Inl e \<Rightarrow> Inl e
              | Inr cached \<Rightarrow>
                  if py_eq new_pos cached then
                    write_pos fs pos_store symb (cur + (if side = ''buy'' then need else - need)) now
                  else
                    (case num_of new_pos of
                       None \<Rightarrow> Inl TypeError
                     | Some q \<Rightarrow> write_pos fs pos_store symb q now)))
      else write_pos fs pos_store symb cur now)"

section \<open>Market data: live\_diff and window\_stats\<close>

text \<open>\<open>v[k]\<close> for a string key and \<open>v[0]\<close>.\<close>

fun py_key :: "pyval \<Rightarrow> string \<Rightarrow> exn + pyval" where
  "py_key (PDict d) k = (case map_of d k of None \<Rightarrow> Inl KeyError | Some v \<Rightarrow> Inr v)"
| "py_key _ k = Inl TypeError"

fun py_first :: "pyval \<Rightarrow> exn + pyval" where
  "py_first (PList []) = Inl IndexError"
| "py_first (PList (x # xs)) = Inr x"
| "py_first (PStr []) = Inl IndexError"
| "py_first (PStr (c # cs)) = Inr (PStr [c])"
| "py_first (PDict d) = Inl KeyError"
| "py_first _ = Inl TypeError"

text \<open>
  \<open>(a + b) / 2\<close> on two decoded values: the sum of two strings or two lists is not a
  number, so the division raises as the sum of unlike operands does.
\<close>

definition py_mid :: "pyval \<Rightarrow> pyval \<Rightarrow> exn + real" where
  "py_mid a b =
     (case (num_of a, num_of b) of (Some x, Some y) \<Rightarrow> Inr ((x + y) / 2) | _ \<Rightarrow> Inl TypeError)"

text \<open>
  What the three market-data sources answer at one instant, by market name:
  \<open>get_nobitex_orderbook\<close>, \<open>cx.future_order_book\<close> and the Binance book that
  \<open>ccxt\<close> fetches.
\<close>

record feeds =
  nobitex_ob :: "string \<Rightarrow> exn + pyval"
  coinex_ob :: "string \<Rightarrow> exn + pyval"
  binance_ob :: "string \<Rightarrow> exn + pyval"

text \<open>\<open>ob[side][0]["price"]\<close> of a Nobitex book and \<open>ob[side][0][0]\<close> of the others.\<close>

definition top_price :: "pyval \<Rightarrow> string \<Rightarrow> exn + pyval" where
  "top_price ob sd =
     (case py_key ob sd of
        Inl e \<Rightarrow> Inl e
      | Inr levels \<Rightarrow> (case py_first levels of Inl e \<Rightarrow> Inl e | Inr lv \<Rightarrow> py_key lv ''price''))"

definition top_entry :: "pyval \<Rightarrow> string \<Rightarrow> exn + pyval" where
  "top_entry ob sd =
     (case py_key ob sd of
        Inl e \<Rightarrow> Inl e
      | Inr levels \<Rightarrow> (case py_first levels of Inl e \<Rightarrow> Inl e | Inr lv \<Rightarrow> py_first lv))"

text \<open>The mid price of a Nobitex market, as both \<open>live_diff\<close>s compute it.\<close>

definition nobitex_mid :: "feeds \<Rightarrow> string \<Rightarrow> exn + real" where
  "nobitex_mid F market =
     (case nobitex_ob F market of
        Inl e \<Rightarrow> Inl e
      | Inr ob \<Rightarrow>
          (case top_price ob ''bids'' of
             Inl e \<Rightarrow> Inl e
           | Inr b \<Rightarrow> (case top_price ob ''asks'' of Inl e \<Rightarrow> Inl e | Inr a \<Rightarrow> py_mid b a)))"

text \<open>\<open>coinex_best\<close> of \<open>cnx_trade.py\<close>: both sides are looked up before either is read.\<close>

definition coinex_best :: "(string \<Rightarrow> real option) \<Rightarrow> feeds \<Rightarrow> string \<Rightarrow> exn + (real \<times> real)" where
  "coinex_best fl F symbol =
     (case coinex_ob F symbol of
        Inl e \<Rightarrow> Inl e
      | Inr ob \<Rightarrow>
          (case py_key ob ''bids'' of
             Inl e \<Rightarrow> Inl e
           | Inr bids \<Rightarrow>
               (case py_key ob ''asks'' of
                  Inl e \<Rightarrow> Inl e
                | Inr asks \<Rightarrow>
                    (case py_first bids of
                       Inl e \<Rightarrow> Inl e
                     | Inr b \<Rightarrow>
                         (case py_first b of
                            Inl e \<Rightarrow> Inl e
                          | Inr b0 \<Rightarrow>
                              (case py_float fl b0 of
                                 Inl e \<Rightarrow> Inl e
                               | Inr best_bid \<Rightarrow>
                                   (case py_first asks of
                                      Inl e \<Rightarrow> Inl e
                                    | Inr a \<Rightarrow>
                                        (case py_first a of
                                           Inl e \<Rightarrow> Inl e
                                         | Inr a0 \<Rightarrow>
                                             (case py_float fl a0 of
                                                Inl e \<Rightarrow> Inl e
                                              | Inr best_ask \<Rightarrow> Inr (best_bid, best_ask))))))))))"

text \<open>\<open>live_diff\<close> of \<open>cnx_trade.py\<close>.\<close>

definition live_diff_cx :: "(string \<Rightarrow> real option) \<Rightarrow> feeds \<Rightarrow> string \<Rightarrow> exn + (real \<times> real \<times> real)" where
  "live_diff_cx fl F coin =
     (case nobitex_mid F ''USDTIRT'' of
        Inl e \<Rightarrow> Inl e
      | Inr usdt_mid \<Rightarrow>
          (case nobitex_mid F (coin @ ''IRT'') of
             Inl e \<Rightarrow> Inl e
           | Inr coin_irt_mid \<Rightarrow>
               (case coinex_best fl F (coin @ ''USDT'') of
                  Inl e \<Rightarrow> Inl e
                | Inr (best_bid, best_ask) \<Rightarrow>
                    (let coin_usdt_mid = (best_bid + best_ask) / 2;
                         x = coin_usdt_mid * usdt_mid;
                         y = coin_irt_mid
                     in Inr (x, y, x - y)))))"

text \<open>
  The \<open>try\<close> of \<open>live_diff\<close> in \<open>nbtx_trade.py\<close> (the CoinEx futures mid) and its
  handler (the Binance mid).
\<close>

definition coinex_mid_try :: "(string \<Rightarrow> real option) \<Rightarrow> feeds \<Rightarrow> string \<Rightarrow> exn + real" where
  "coinex_mid_try fl F coin =
     (case coinex_ob F (coin @ ''USDT'') of
        Inl e \<Rightarrow> Inl e
      | Inr ob_f \<Rightarrow>
          (case top_entry ob_f ''bids'' of
             Inl e \<Rightarrow> Inl e
           | Inr b0 \<Rightarrow>
               (case py_float fl b0 of
                  Inl e \<Rightarrow> Inl e
                | Inr bb \<Rightarrow>
                    (case top_entry ob_f ''asks'' of
                       Inl e \<Rightarrow> Inl e
                     | Inr a0 \<Rightarrow>
                         (case py_float fl a0 of
                            Inl e \<Rightarrow> Inl e
                          | Inr ba \<Rightarrow> Inr ((bb + ba) / 2))))))"

definition binance_mid :: "feeds \<Rightarrow> string \<Rightarrow> exn + real" where
  "binance_mid F coin =
     (case binance_ob F (coin @ ''/USDT'') of
        Inl e \<Rightarrow> Inl e
      | Inr ob2 \<Rightarrow>
          (case top_entry ob2 ''bids'' of
             Inl e \<Rightarrow> Inl e
           | Inr b \<Rightarrow> (case top_entry ob2 ''asks'' of Inl e \<Rightarrow> Inl e | Inr a \<Rightarrow> py_mid b a)))"

text \<open>\<open>live_diff\<close> of \<open>nbtx_trade.py\<close>.\<close>

definition live_diff_nb :: "(string \<Rightarrow> real option) \<Rightarrow> feeds \<Rightarrow> string \<Rightarrow> exn + (real \<times> real \<times> real)" where
  "live_diff_nb fl F coin =
     (case nobitex_mid F ''USDTIRT'' of
        Inl e \<Rightarrow> Inl e
      | Inr usdt_mid \<Rightarrow>
          (case nobitex_mid F (coin @ ''IRT'') of
             Inl e \<Rightarrow> Inl e
           | Inr coin_irt_mid \<Rightarrow>
               (case (case coinex_mid_try fl F coin of
                        Inl e \<Rightarrow> binance_mid F coin
                      | Inr m \<Rightarrow> Inr m) of
                  Inl e \<Rightarrow> Inl e
                | Inr coin_usdt_mid \<Rightarrow>
                    (let x = coin_usdt_mid * usdt_mid;
                         y = coin_irt_mid
                     in Inr (x, y, x - y)))))"

text \<open>
  The row that the aggregate query over the observation store returned:
  \<open>(avg(diff), avg(diff*diff), count(*))\<close>, each possibly NULL. From it, the part of
  \<open>window_stats\<close> that both scripts share: \<open>Some\<close> of the returned triple when
  \<open>n >= 2\<close> and both averages are present, \<open>None\<close> when the \<open>if\<close> fails.
\<close>

type_synonym obs_row = "real option \<times> real option \<times> int option"

definition stats_of_row :: "obs_row option \<Rightarrow> (real \<times> real \<times> int) option" where
  "stats_of_row fetched =
     (let row = (case fetched of None \<Rightarrow> (None, None, Some 0) | Some r \<Rightarrow> r);
          n = (case snd (snd row) of None \<Rightarrow> 0 | Some c \<Rightarrow> c)
      in case (fst row, fst (snd row)) of
           (Some mean, Some mean_sq) \<Rightarrow>
             if n \<ge> 2 then
               (let var = max 0 (mean_sq - mean * mean);
                    std = (if n > 1 then sqrt (var * real_of_int n / real_of_int (n - 1)) else 0)
                in Some (mean, std, n))
             else None
         | _ \<Rightarrow> None)"

text \<open>
  \<open>window_stats\<close> of \<open>nbtx_trade.py\<close>; \<open>query\<close> is what connecting to the store and
  running the query returned or raised.
\<close>

definition window_stats_nb :: "exn + obs_row option \<Rightarrow> exn + (real \<times> real \<times> int)" where
  "window_stats_nb query =
     (case query of
        Inl e \<Rightarrow> Inl e
      | Inr fetched \<Rightarrow>
          (case stats_of_row fetched of Some r \<Rightarrow> Inr r | None \<Rightarrow> Inr (0, 0, 0)))"

text \<open>\<open>statistics.fmean\<close>, \<open>pstdev\<close> and \<open>stdev\<close> where they are defined.\<close>

definition fmean :: "real list \<Rightarrow> real" where
  "fmean vals = sum_list vals / real (length vals)"

definition pstdev :: "real list \<Rightarrow> real" where
  "pstdev vals = sqrt (sum_list (map (\<lambda>v. (v - fmean vals)\<^sup>2) vals) / real (length vals))"

definition stdev :: "real list \<Rightarrow> real" where
  "stdev vals = sqrt (sum_list (map (\<lambda>v. (v - fmean vals)\<^sup>2) vals) / real (length vals - 1))"

text \<open>
  The first \<open>k\<close> rounds of the sampling loop of \<open>window_stats\<close> in \<open>cnx_trade.py\<close>:
  \<open>cfg_coin\<close> is \<open>CFG["coin"]\<close> (\<open>None\<close>: no such key), \<open>Fs i\<close> the market data at
  round \<open>i\<close>.
\<close>

primrec live_samples :: "(string \<Rightarrow> real option) \<Rightarrow> string option \<Rightarrow> (nat \<Rightarrow> feeds) \<Rightarrow> nat \<Rightarrow> exn + real list" where
  "live_samples fl cfg_coin Fs 0 = Inr []"
| "live_samples fl cfg_coin Fs (Suc k) =
     (case live_samples fl cfg_coin Fs k of
        Inl e \<Rightarrow> Inl e
      | Inr vals \<Rightarrow>
          (case cfg_coin of
             None \<Rightarrow> Inl KeyError
           | Some coin \<Rightarrow>
               (case live_diff_cx fl (Fs k) coin of
                  Inl e \<Rightarrow> Inl e
                | Inr (x, y, z) \<Rightarrow> Inr (vals @ [z]))))"

text \<open>\<open>window_stats\<close> of \<open>cnx_trade.py\<close>.\<close>

definition window_stats_cx ::
  "(string \<Rightarrow> real option) \<Rightarrow> exn + obs_row option \<Rightarrow> string option \<Rightarrow> (nat \<Rightarrow> feeds) \<Rightarrow> exn + (real \<times> real \<times> int)" where
  "window_stats_cx fl query cfg_coin Fs =
     (case (case query of Inl e \<Rightarrow> None | Inr fetched \<Rightarrow> stats_of_row fetched) of
        Some r \<Rightarrow> Inr r
      | None \<Rightarrow>
          (case live_samples fl cfg_coin Fs 10 of
             Inl e \<Rightarrow> Inl e
           | Inr vals \<Rightarrow>
               if length vals \<ge> 2 then
                 Inr (fmean vals,
                      (if length vals < 3 then pstdev vals else stdev vals),
                      int (length vals))
               else Inr (0, 0, 0)))"

section \<open>cnx\_trade.py: the taker fill-or-kill emulation\<close>

text \<open>\<open>10.0 ** prec\<close> for an integer \<open>prec\<close>.\<close>

definition pow10 :: "int \<Rightarrow> real" where
  "pow10 prec = (if 0 \<le> prec then 10 ^ nat prec else 1 / 10 ^ nat (- prec))"

definition round_qty :: "real \<Rightarrow> int \<Rightarrow> real" where
  "round_qty q prec =
     (if prec \<le> 0 then real_of_int \<lfloor>q\<rfloor>
      else real_of_int \<lfloor>q * pow10 prec\<rfloor> / pow10 prec)"

definition round_price :: "real \<Rightarrow> int \<Rightarrow> real" where
  "round_price p prec = real_of_int \<lfloor>p * pow10 prec\<rfloor> / pow10 prec"

text \<open>
  \<open>int(v)\<close>: a float is truncated toward zero; how a string is read as an int is the
  parameter \<open>il\<close> (\<open>None\<close> where \<open>int\<close> raises ValueError).
\<close>

fun py_int :: "(string \<Rightarrow> int option) \<Rightarrow> pyval \<Rightarrow> exn + int" where
  "py_int il (PNum r) = Inr (if 0 \<le> r then \<lfloor>r\<rfloor> else \<lceil>r\<rceil>)"
| "py_int il (PBool b) = Inr (if b then 1 else 0)"
| "py_int il (PStr s) = (case il s of None \<Rightarrow> Inl ValueError | Some i \<Rightarrow> Inr i)"
| "py_int il _ = Inl TypeError"

text \<open>
  An order as \<open>cx.open_order\<close> receives it (\<open>is_futures\<close> is always true; the amount
  and the price are passed as the text of the number, the leverage as the text of
  \<open>CFG.get("leverage", 1)\<close>), and the calls a script makes to a venue about orders.
\<close>

record order_req =
  o_market :: string
  o_side :: string
  o_type :: string
  o_amount :: real
  o_price :: "real option"
  o_leverage :: string

datatype call =
    OpenOrder order_req
  | CheckOrder string int
  | CancelOrder string int
  | NbNewOrder string real string real
  | NbCheckOrder pyval
  | NbCancelOrder pyval

text \<open>What the derivatives venue answers to each order call.\<close>

record venue =
  cx_open_order :: "order_req \<Rightarrow> exn + pyval"
  cx_check_order :: "string \<Rightarrow> int \<Rightarrow> exn + pyval"
  cx_cancel_order :: "string \<Rightarrow> int \<Rightarrow> exn + pyval"

text \<open>\<open>int(resp.get("order_id") or resp.get("order", {}).get("id") or 0)\<close>.\<close>

definition order_id_of :: "(string \<Rightarrow> int option) \<Rightarrow> pyval \<Rightarrow> exn + int" where
  "order_id_of il resp =
     (case py_or (py_or (py_get resp ''order_id'' PNone)
                        (case py_get resp ''order'' (PDict []) of
                           Inl e \<Rightarrow> Inl e
                         | Inr ord \<Rightarrow> py_get ord ''id'' PNone))
                 (Inr (PNum 0)) of
        Inl e \<Rightarrow> Inl e
      | Inr v \<Rightarrow> py_int il v)"

text \<open>
  The parsing of the order status in \<open>fok_taker\<close>: \<open>od = st.get("order") or st\<close>,
  then \<open>matched\<close> and \<open>requested\<close>.
\<close>

definition check_amounts :: "(string \<Rightarrow> real option) \<Rightarrow> pyval \<Rightarrow> real \<Rightarrow> exn + (real \<times> real)" where
  "check_amounts fl st q =
     (case py_or (py_get st ''order'' PNone) (Inr st) of
        Inl e \<Rightarrow> Inl e
      | Inr od \<Rightarrow>
          (case py_or (py_or (py_get od ''amount_filled'' PNone)
                             (py_get od ''matched_amount'' PNone))
                      (Inr (PNum 0)) of
             Inl e \<Rightarrow> Inl e
           | Inr mv \<Rightarrow>
               (case py_float fl mv of
                  Inl e \<Rightarrow> Inl e
                | Inr matched \<Rightarrow>
                    (case py_or (py_get od ''amount'' PNone) (Inr (PNum q)) of
                       Inl e \<Rightarrow> Inl e
                     | Inr rv \<Rightarrow>
                         (case py_float fl rv of
                            Inl e \<Rightarrow> Inl e
                          | Inr requested \<Rightarrow> Inr (matched, requested))))))"

definition rev_side :: "string \<Rightarrow> string" where
  "rev_side side = (if side = ''buy'' then ''sell'' else ''buy'')"

text \<open>
  \<open>fok_taker\<close>: the value returned and the order calls made, in order. A call that
  raises has still been made. \<open>leverage\<close> is the text of \<open>CFG.get("leverage", 1)\<close>.
\<close>

definition fok_taker ::
  "(string \<Rightarrow> real option) \<Rightarrow> (string \<Rightarrow> int option) \<Rightarrow> venue \<Rightarrow> string \<Rightarrow>
   string \<Rightarrow> string \<Rightarrow> real \<Rightarrow> real \<Rightarrow> int \<Rightarrow> int \<Rightarrow> bool \<times> call list" where
  "fok_taker fl il V leverage symbol side qty price qty_prec price_prec =
     (let q = max 0 (round_qty qty qty_prec);
          p = round_price price price_prec
      in if q \<le> 0 then (True, [])
         else
           (let limit = \<lparr>o_market = symbol, o_side = side, o_type = ''limit'',
                          o_amount = q, o_price = Some p, o_leverage = leverage\<rparr>
            in case (case cx_open_order V limit of
                       Inl e \<Rightarrow> Inl e
                     | Inr resp \<Rightarrow> order_id_of il resp) of
                 Inl e \<Rightarrow> (False, [OpenOrder limit])
               | Inr order_id \<Rightarrow>
                   (case (case cx_check_order V symbol order_id of
                            Inl e \<Rightarrow> Inl e
                          | Inr st \<Rightarrow> check_amounts fl st q) of
                      Inl e \<Rightarrow> (False, [OpenOrder limit, CheckOrder symbol order_id])
                    | Inr (matched, requested) \<Rightarrow>
                        if matched \<ge> requested - 1 / 10 ^ 12 then
                          (True, [OpenOrder limit, CheckOrder symbol order_id])
                        else
                          (case cx_cancel_order V symbol order_id of
                             Inl e \<Rightarrow>
                               (False, [OpenOrder limit, CheckOrder symbol order_id,
                                        CancelOrder symbol order_id])
                           | Inr c \<Rightarrow>
                               if matched > 0 then
                                 (False, [OpenOrder limit, CheckOrder symbol order_id,
                                          CancelOrder symbol order_id,
                                          OpenOrder \<lparr>o_market = symbol, o_side = rev_side side,
                                            o_type = ''market'', o_amount = matched,
                                            o_price = None, o_leverage = leverage\<rparr>])
                               else
                                 (False, [OpenOrder limit, CheckOrder symbol order_id,
                                          CancelOrder symbol order_id])))))"

section \<open>nbtx\_trade.py: the inventory-band guard\<close>

text \<open>\<open>a < v\<close> for a float \<open>a\<close>: ordering a float against anything but a number raises.\<close>

definition py_less :: "real \<Rightarrow> pyval \<Rightarrow> exn + bool" where
  "py_less a v = (case num_of v of None \<Rightarrow> Inl TypeError | Some r \<Rightarrow> Inr (a < r))"

definition py_greater :: "real \<Rightarrow> pyval \<Rightarrow> exn + bool" where
  "py_greater b v = (case num_of v of None \<Rightarrow> Inl TypeError | Some r \<Rightarrow> Inr (r < b))"

text \<open>
  \<open>within_tobit_window\<close>, the closure of \<open>main\<close> over \<open>l_units\<close>, \<open>u_units\<close>,
  \<open>t_units\<close>, \<open>pos_store\<close> and \<open>coin\<close>. The chained comparison
  \<open>center - t_units < pos < center + t_units\<close> tests the left inequality first and
  the right one only if the left holds.
\<close>

definition within_tobit_window ::
  "real \<Rightarrow> real \<Rightarrow> real \<Rightarrow> fsys \<Rightarrow> string \<Rightarrow> string \<Rightarrow> real \<Rightarrow> exn + (bool \<times> pyval \<times> real \<times> real \<times> real)" where
  "within_tobit_window l_units u_units t_units fs pos_store coin b_units =
     (let m = 0.5 * (l_units + u_units);
          center = m - b_units
      in case read_pos fs pos_store (coin @ ''USDT'') of
           Inl e \<Rightarrow> Inl e
         | Inr pos \<Rightarrow>
             (case py_less (center - t_units) pos of
                Inl e \<Rightarrow> Inl e
              | Inr False \<Rightarrow> Inr (False, pos, center, center - t_units, center + t_units)
              | Inr True \<Rightarrow>
                  (case py_greater (center + t_units) pos of
                     Inl e \<Rightarrow> Inl e
                   | Inr inside \<Rightarrow>
                       Inr (inside, pos, center, center - t_units, center + t_units))))"

section \<open>nbtx\_trade.py: the maker-order tracker\<close>

text \<open>
  \<open>Decimal(str(v))\<close>: a number keeps its value and the text \<open>"0"\<close> (the default
  of \<open>matchedAmount\<close>) is zero; how \<open>Decimal\<close> reads other text is the parameter
  \<open>dl\<close> (\<open>None\<close> where it raises InvalidOperation); the text of \<open>None\<close>, of a
  bool, of a list or of a dict is not a number.
\<close>

fun py_decimal :: "(string \<Rightarrow> real option) \<Rightarrow> pyval \<Rightarrow> exn + real" where
  "py_decimal dl (PNum r) = Inr r"
| "py_decimal dl (PStr s) =
     (if s = ''0'' then Inr 0
      else case dl s of None \<Rightarrow> Inl InvalidOperation | Some r \<Rightarrow> Inr r)"
| "py_decimal dl _ = Inl InvalidOperation"

text \<open>
  What one round of the polling loop observes: the order book of the market, the
  answer to \<open>check_order\<close>, the answer to \<open>cancel_order\<close> should it be called, the
  market data that \<open>live_diff\<close> reads, and the clock at the timeout test.
\<close>

record tick =
  t_book :: "exn + pyval"
  t_check :: "exn + pyval"
  t_cancel :: "exn + pyval"
  t_feeds :: feeds
  t_clock :: real

text \<open>
  The first half of a round, up to \<open>price_used = order_price\<close>: the order's
  \<open>info\<close>, \<open>status\<close>, \<open>matched\<close>, \<open>order_price\<close>, and the two best prices.
\<close>

definition poll_order ::
  "(string \<Rightarrow> real option) \<Rightarrow> string \<Rightarrow> pyval \<Rightarrow> pyval \<Rightarrow> pyval \<Rightarrow> exn + (pyval \<times> string \<times> real \<times> real)" where
  "poll_order dl side best_bid best_ask checked =
     (case py_get checked ''order'' (PDict []) of
        Inl e \<Rightarrow> Inl e
      | Inr info \<Rightarrow>
          (case py_get info ''status'' PNone of
             Inl e \<Rightarrow> Inl e
           | Inr sv \<Rightarrow>
               (case or_empty_lower sv of
                  Inl e \<Rightarrow> Inl e
                | Inr status \<Rightarrow>
                    (case py_get info ''matchedAmount'' (PStr ''0'') of
                       Inl e \<Rightarrow> Inl e
                     | Inr mv \<Rightarrow>
                         (case py_decimal dl mv of
                            Inl e \<Rightarrow> Inl e
                          | Inr matched \<Rightarrow>
                              (case py_get info ''Price''
                                      (if side = ''buy'' then best_ask else best_bid) of
                                 Inl e \<Rightarrow> Inl e
                               | Inr pv \<Rightarrow>
                                   (case py_decimal dl pv of
                                      Inl e \<Rightarrow> Inl e
                                    | Inr order_price \<Rightarrow>
                                        Inr (info, status, matched, order_price))))))))"

text \<open>
  The fill test: \<open>status in {"finished", "filled", "done", "complete"} and
  info.get("unmatchedAmount", 0) in (0, "0")\<close>.
\<close>

definition is_filled :: "string \<Rightarrow> pyval \<Rightarrow> bool" where
  "is_filled status info =
     (status \<in> {''finished'', ''filled'', ''done'', ''complete''} \<and>
      (case py_get info ''unmatchedAmount'' (PNum 0) of
         Inl e \<Rightarrow> False
       | Inr u \<Rightarrow> num_of u = Some 0 \<or> u = PStr ''0''))"

text \<open>The two best-price tests: a buy below the best bid, a sell above the best ask.\<close>

definition not_best :: "string \<Rightarrow> real \<Rightarrow> pyval \<Rightarrow> pyval \<Rightarrow> exn + bool" where
  "not_best side order_price best_bid best_ask =
     (if side = ''buy'' then py_less order_price best_bid
      else if side = ''sell'' then py_greater order_price best_ask
      else Inr False)"

text \<open>The signal test: \<open>(mean - k*std) < z < (mean + k*std)\<close>.\<close>

definition in_band :: "real \<Rightarrow> real \<Rightarrow> real \<Rightarrow> real \<Rightarrow> bool" where
  "in_band mean std k z = (mean - k * std < z \<and> z < mean + k * std)"

text \<open>
  \<open>cancel_order(order_id); return outcome, matched, matched * order_price\<close>, after the
  calls \<open>cs\<close> of the round so far.
\<close>

definition cancel_and_return ::
  "pyval \<Rightarrow> tick \<Rightarrow> call list \<Rightarrow> string \<Rightarrow> real \<Rightarrow> real \<Rightarrow> (exn + (string \<times> real \<times> real) option) \<times> call list" where
  "cancel_and_return order_id T cs outcome matched order_price =
     (case t_cancel T of
        Inl e \<Rightarrow> (Inl e, cs @ [NbCancelOrder order_id])
      | Inr c \<Rightarrow> (Inr (Some (outcome, matched, matched * order_price)), cs @ [NbCancelOrder order_id]))"

text \<open>
  One round of the \<open>while True\<close> of \<open>track_and_cancel\<close>: the exception raised, the
  triple returned, or \<open>None\<close> when the round ends in \<open>time.sleep(poll)\<close>; with the
  order calls of the round.
\<close>

definition track_tick ::
  "(string \<Rightarrow> real option) \<Rightarrow> (string \<Rightarrow> real option) \<Rightarrow> pyval \<Rightarrow> string \<Rightarrow> real \<Rightarrow>
   real \<Rightarrow> real \<Rightarrow> real \<Rightarrow> string \<Rightarrow> real \<Rightarrow> tick \<Rightarrow> (exn + (string \<times> real \<times> real) option) \<times> call list" where
  "track_tick dl fl order_id side timeout mean std k coin start T =
     (case t_book T of
        Inl e \<Rightarrow> (Inl e, [])
      | Inr ob \<Rightarrow>
          (case top_price ob ''bids'' of
             Inl e \<Rightarrow> (Inl e, [])
           | Inr best_bid \<Rightarrow>
               (case top_price ob ''asks'' of
                  Inl e \<Rightarrow> (Inl e, [])
                | Inr best_ask \<Rightarrow>
                    (case (case t_check T of
                             Inl e \<Rightarrow> Inl e
                           | Inr checked \<Rightarrow> poll_order dl side best_bid best_ask checked) of
                       Inl e \<Rightarrow> (Inl e, [NbCheckOrder order_id])
                     | Inr (info, status, matched, order_price) \<Rightarrow>
                         if is_filled status info then
                           (Inr (Some (''FILLED'', matched, matched * order_price)),
                            [NbCheckOrder order_id])
                         else
                           (case not_best side order_price best_bid best_ask of
                              Inl e \<Rightarrow> (Inl e, [NbCheckOrder order_id])
                            | Inr True \<Rightarrow>
                                cancel_and_return order_id T [NbCheckOrder order_id]
                                  ''NOT_BEST'' matched order_price
                            | Inr False \<Rightarrow>
                                (case live_diff_nb fl (t_feeds T) coin of
                                   Inl e \<Rightarrow> (Inl e, [NbCheckOrder order_id])
                                 | Inr (x, y, z) \<Rightarrow>
                                     if in_band mean std k z then
                                       cancel_and_return order_id T [NbCheckOrder order_id]
                                         ''NO_SIGNAL'' matched order_price
                                     else if t_clock T - start > timeout then
                                       cancel_and_return order_id T [NbCheckOrder order_id]
                                         ''TIMEOUT'' matched order_price
                                     else (Inr None, [NbCheckOrder order_id])))))))"

text \<open>
  \<open>track_and_cancel\<close> over the rounds that have been observed so far: \<open>None\<close> while
  the loop is still polling after the last of them. \<open>start\<close> is the clock at entry.
\<close>

fun track_and_cancel ::
  "(string \<Rightarrow> real option) \<Rightarrow> (string \<Rightarrow> real option) \<Rightarrow> pyval \<Rightarrow> string \<Rightarrow> real \<Rightarrow>
   real \<Rightarrow> real \<Rightarrow> real \<Rightarrow> string \<Rightarrow> real \<Rightarrow> tick list \<Rightarrow> (exn + string \<times> real \<times> real) option \<times> call list" where
  "track_and_cancel dl fl order_id side timeout mean std k coin start [] = (None, [])"
| "track_and_cancel dl fl order_id side timeout mean std k coin start (T # Ts) =
     (case track_tick dl fl order_id side timeout mean std k coin start T of
        (Inl e, cs) \<Rightarrow> (Some (Inl e), cs)
      | (Inr (Some r), cs) \<Rightarrow> (Some (Inr r), cs)
      | (Inr None, cs) \<Rightarrow>
          (case track_and_cancel dl fl order_id side timeout mean std k coin start Ts of
             (res, cs') \<Rightarrow> (res, cs @ cs')))"

section \<open>nbtx\_trade.py: one cycle of the control loop\<close>

definition weighted_limit_price :: "string \<Rightarrow> real \<Rightarrow> real \<Rightarrow> real \<Rightarrow> real" where
  "weighted_limit_price side best_bid best_ask weight =
     weight * (if side = ''buy'' then best_bid else best_ask) +
     (1 - weight) * (if side = ''buy'' then best_ask else best_bid)"

text \<open>The configuration that \<open>main\<close> reads once, before the loop.\<close>

record nb_cfg =
  cfg_window_min :: int
  cfg_k_sigma :: real
  cfg_w_buy :: real
  cfg_w_sell :: real
  cfg_timeout_sec :: int
  cfg_pos_store_path :: string
  cfg_order_qty :: real
  cfg_l_units :: real
  cfg_u_units :: real
  cfg_t_units :: real

text \<open>The variables of \<open>main\<close> that one cycle hands to the next.\<close>

record nb_state =
  s_last_stats :: real
  s_mean :: real
  s_std :: real

text \<open>
  What one cycle observes, in the order it asks: the clock, the answer of the
  observation store (read only when a refresh is due), the market data for
  \<open>live_diff\<close>, the balance from \<open>read_balance\<close>, the file system at the band guard,
  the order book for the maker prices, the answer to \<open>new_order\<close>, the verdict of
  \<open>parse_order_response\<close> on it, and for the tracker the clock at its entry and its
  rounds. \<open>read_balance\<close>, \<open>new_order\<close>, \<open>parse_order_response\<close> and \<open>ri\<close> belong to
  \<open>nobitex_utils\<close>: their results are inputs here, \<open>ri\<close> a parameter.
\<close>

record nb_obs =
  c_now :: real
  c_query :: "exn + obs_row option"
  c_feeds :: feeds
  c_balance :: "exn + real"
  c_fs :: fsys
  c_book :: "exn + pyval"
  c_order :: "exn + pyval"
  c_parse :: "exn + string"
  c_start :: real
  c_ticks :: "tick list"

text \<open>
  How a cycle ends: an exception reaches the \<open>except Exception\<close> of the loop, a
  \<open>continue\<close> is taken, the body runs to its end, or the tracker is still polling
  after the rounds observed.
\<close>

datatype cycle_end = Raised exn | Skipped | Finished | Polling

text \<open>
  The placement shared by the two branches, from \<open>price_tmn = ...\<close> to the end of the
  branch: the order call, then the tracker if the venue accepted the order.
\<close>

definition place_and_track ::
  "(real \<Rightarrow> real) \<Rightarrow> (string \<Rightarrow> real option) \<Rightarrow> (string \<Rightarrow> real option) \<Rightarrow> nb_cfg \<Rightarrow> string \<Rightarrow>
   nb_state \<Rightarrow> nb_obs \<Rightarrow> string \<Rightarrow> real \<Rightarrow> real \<Rightarrow> real \<Rightarrow> cycle_end \<times> call list" where
  "place_and_track ri dl fl cfg coin st obs side best_bid best_ask weight =
     (let price_tmn = weighted_limit_price side best_bid best_ask weight;
          price_ri = ri price_tmn;
          placed = [NbNewOrder side (cfg_order_qty cfg) (coin @ ''IRT'') price_ri]
      in case c_order obs of
           Inl e \<Rightarrow> (Raised e, placed)
         | Inr resp \<Rightarrow>
             (case c_parse obs of
                Inl e \<Rightarrow> (Raised e, placed)
              | Inr verdict \<Rightarrow>
                  if verdict = ''success'' then
                    (case (case py_key resp ''order'' of
                             Inl e \<Rightarrow> Inl e
                           | Inr ord \<Rightarrow> py_key ord ''id'') of
                       Inl e \<Rightarrow> (Raised e, placed)
                     | Inr oid \<Rightarrow>
                         (case track_and_cancel dl fl oid side (real_of_int (cfg_timeout_sec cfg))
                                 (s_mean st) (s_std st) (cfg_k_sigma cfg) coin (c_start obs)
                                 (c_ticks obs) of
                            (None, cs) \<Rightarrow> (Polling, placed @ cs)
                          | (Some (Inl e), cs) \<Rightarrow> (Raised e, placed @ cs)
                          | (Some (Inr r), cs) \<Rightarrow> (Finished, placed @ cs)))
                  else (Finished, placed)))"

text \<open>The \<open>if z > upper: ... elif z < lower: ...\<close> of the cycle.\<close>

definition act_on_signal ::
  "(real \<Rightarrow> real) \<Rightarrow> (string \<Rightarrow> real option) \<Rightarrow> (string \<Rightarrow> real option) \<Rightarrow> nb_cfg \<Rightarrow> string \<Rightarrow>
   nb_state \<Rightarrow> nb_obs \<Rightarrow> real \<Rightarrow> real \<Rightarrow> real \<Rightarrow> real \<Rightarrow> real \<Rightarrow> real \<Rightarrow> cycle_end \<times> call list" where
  "act_on_signal ri dl fl cfg coin st obs z lower upper b_units best_bid best_ask =
     (if z > upper then
        (if b_units + cfg_order_qty cfg > cfg_u_units cfg then (Skipped, [])
         else place_and_track ri dl fl cfg coin st obs ''buy'' best_bid best_ask (cfg_w_buy cfg))
      else if z < lower then
        (if b_units - cfg_order_qty cfg < cfg_l_units cfg then (Skipped, [])
         else place_and_track ri dl fl cfg coin st obs ''sell'' best_bid best_ask (cfg_w_sell cfg))
      else (Finished, []))"

text \<open>The cycle from \<open>x, y, z = live_diff(coin)\<close> on, with the statistics in \<open>st\<close>.\<close>

definition trade_step ::
  "(real \<Rightarrow> real) \<Rightarrow> (string \<Rightarrow> real option) \<Rightarrow> (string \<Rightarrow> real option) \<Rightarrow> nb_cfg \<Rightarrow> string \<Rightarrow>
   nb_state \<Rightarrow> nb_obs \<Rightarrow> cycle_end \<times> call list" where
  "trade_step ri dl fl cfg coin st obs =
     (case live_diff_nb fl (c_feeds obs) coin of
        Inl e \<Rightarrow> (Raised e, [])
      | Inr (x, y, z) \<Rightarrow>
          (let lower = s_mean st - cfg_k_sigma cfg * s_std st;
               upper = s_mean st + cfg_k_sigma cfg * s_std st
           in case c_balance obs of
                Inl e \<Rightarrow> (Raised e, [])
              | Inr b_units \<Rightarrow>
                  (case within_tobit_window (cfg_l_units cfg) (cfg_u_units cfg) (cfg_t_units cfg)
                          (c_fs obs) (cfg_pos_store_path cfg) coin b_units of
                     Inl e \<Rightarrow> (Raised e, [])
                   | Inr (ok, pos, center, lo, hi) \<Rightarrow>
                       if \<not> ok then (Skipped, [])
                       else
                         (case c_book obs of
                            Inl e \<Rightarrow> (Raised e, [])
                          | Inr ob \<Rightarrow>
                              (case (case top_price ob ''bids'' of
                                       Inl e \<Rightarrow> Inl e
                                     | Inr b \<Rightarrow> py_float fl b) of
                                 Inl e \<Rightarrow> (Raised e, [])
                               | Inr best_bid \<Rightarrow>
                                   (case (case top_price ob ''asks'' of
                                            Inl e \<Rightarrow> Inl e
                                          | Inr a \<Rightarrow> py_float fl a) of
                                      Inl e \<Rightarrow> (Raised e, [])
                                    | Inr best_ask \<Rightarrow>
                                        act_on_signal ri dl fl cfg coin st obs z lower upper
                                          b_units best_bid best_ask))))))"

text \<open>
  One pass through the body of the \<open>while True\<close> of \<open>main\<close>: the state handed on, how
  the pass ended, and the order calls made. The bookkeeping of executed trades (the
  lists \<open>buys\<close> and \<open>sells\<close> and their periodic dump to the trades file) touches
  neither orders nor positions and is not modelled.
\<close>

definition nb_cycle ::
  "(real \<Rightarrow> real) \<Rightarrow> (string \<Rightarrow> real option) \<Rightarrow> (string \<Rightarrow> real option) \<Rightarrow> nb_cfg \<Rightarrow> string \<Rightarrow>
   nb_state \<Rightarrow> nb_obs \<Rightarrow> nb_state \<times> cycle_end \<times> call list" where
  "nb_cycle ri dl fl cfg coin st obs =
     (if c_now obs - s_last_stats st > real_of_int (cfg_window_min cfg * 60) then
        (case window_stats_nb (c_query obs) of
           Inl e \<Rightarrow> (st, Raised e, [])
         | Inr (mean, std, n) \<Rightarrow>
             (let st' = st\<lparr>s_last_stats := c_now obs, s_mean := mean, s_std := std\<rparr>
              in if std \<le> 0 then (st', Skipped, [])
                 else (st', trade_step ri dl fl cfg coin st' obs)))
      else (st, trade_step ri dl fl cfg coin st obs))"

section \<open>Properties of the position store\<close>

lemma map_of_dict_set: "map_of (dict_set k v d) k' = (if k' = k then Some v else map_of d k')"
  by (induction d) auto

lemma dict_set_twice: "dict_set k v (dict_set k w d) = dict_set k v d"
  by (induction d) auto

lemma read_pos_returns: "\<exists>v. read_pos fs path symbol = Inr v"
  by (simp add: read_pos_def split: sum.split exn.split)

lemma read_pos_after_write:
  assumes "write_pos fs0 path s' qty now = Inr fs" and "str_upper s' = str_upper symbol"
  shows "read_pos fs path symbol =
         Inr (PDict [(''q'', PNum qty), (''side'', PStr (side_of_qty qty)), (''time'', PStr now)])"
  using assms
  by (auto simp: write_pos_def read_pos_def read_pos_try_def Let_def map_of_dict_set
      split: pyval.splits if_splits)

lemma write_pos_again:
  assumes "write_pos fs path symbol qty t1 = Inr fs1"
  shows "write_pos fs1 path symbol qty' t2 =
         Inr (fs1(path \<mapsto> Json (PDict (dict_set (str_upper symbol)
            (PDict [(''q'', PNum qty'), (''side'', PStr (side_of_qty qty')), (''time'', PStr t2)])
            (case load_data fs path of PDict d \<Rightarrow> d | _ \<Rightarrow> [])))))"
  using assms
  by (auto simp: write_pos_def load_data_def Let_def dict_set_twice fun_upd_twist
      split: pyval.splits if_splits option.splits file_state.splits)

text \<open>
  C10. \<open>read_pos\<close> always returns, never raises. It returns \<open>None\<close> when the file is
  missing, cannot be opened, is not JSON, does not decode to a dict, or has no entry
  under the upper-cased symbol. Otherwise it returns the entry stored under the
  upper-cased symbol as it is, and the entry that \<open>write_pos\<close> stores is the record
  with the keys \<open>q\<close>, \<open>side\<close> and \<open>time\<close>, not a bare number.
\<close>

theorem read_pos_total_record:
  "(\<exists>v. read_pos fs path symbol = Inr v) \<and>
   (fs path = None \<longrightarrow> read_pos fs path symbol = Inr PNone) \<and>
   (fs path = Some Denied \<or> fs path = Some Malformed \<longrightarrow> read_pos fs path symbol = Inr PNone) \<and>
   (\<forall>v. fs path = Some (Json v) \<and> (\<forall>d. v \<noteq> PDict d) \<longrightarrow> read_pos fs path symbol = Inr PNone) \<and>
   (\<forall>d. fs path = Some (Json (PDict d)) \<and> map_of d (str_upper symbol) = None \<longrightarrow>
        read_pos fs path symbol = Inr PNone) \<and>
   (\<forall>d v. fs path = Some (Json (PDict d)) \<and> map_of d (str_upper symbol) = Some v \<longrightarrow>
        read_pos fs path symbol = Inr v) \<and>
   (\<forall>fs0 s' qty now. str_upper s' = str_upper symbol \<and> write_pos fs0 path s' qty now = Inr fs \<longrightarrow>
        read_pos fs path symbol =
        Inr (PDict [(''q'', PNum qty), (''side'', PStr (side_of_qty qty)), (''time'', PStr now)]))"
proof (intro conjI allI impI)
  show "\<exists>v. read_pos fs path symbol = Inr v" by (rule read_pos_returns)
next
  assume "fs path = None"
  then show "read_pos fs path symbol = Inr PNone" by (simp add: read_pos_def read_pos_try_def)
next
  assume "fs path = Some Denied \<or> fs path = Some Malformed"
  then show "read_pos fs path symbol = Inr PNone" by (auto simp: read_pos_def read_pos_try_def)
next
  fix v assume "fs path = Some (Json v) \<and> (\<forall>d. v \<noteq> PDict d)"
  then show "read_pos fs path symbol = Inr PNone"
    by (cases v) (auto simp: read_pos_def read_pos_try_def)
next
  fix d assume "fs path = Some (Json (PDict d)) \<and> map_of d (str_upper symbol) = None"
  then show "read_pos fs path symbol = Inr PNone" by (simp add: read_pos_def read_pos_try_def)
next
  fix d v assume "fs path = Some (Json (PDict d)) \<and> map_of d (str_upper symbol) = Some v"
  then show "read_pos fs path symbol = Inr v" by (simp add: read_pos_def read_pos_try_def)
next
  fix fs0 s' qty now
  assume "str_upper s' = str_upper symbol \<and> write_pos fs0 path s' qty now = Inr fs"
  then show "read_pos fs path symbol =
        Inr (PDict [(''q'', PNum qty), (''side'', PStr (side_of_qty qty)), (''time'', PStr now)])"
    using read_pos_after_write by blast
qed

text \<open>
  The cases of C10 on concrete files: no file, a file that is not JSON, a file that
  decodes to a list, a dict without the symbol, and the record that
  \<open>write_pos('p.json', 'btcusdt', 0.5)\<close> leaves behind, read back under \<open>btcusdt\<close>.
\<close>

theorem read_pos_total_record_witness:
  "read_pos Map.empty ''p.json'' ''btcusdt'' = Inr PNone \<and>
   read_pos [''p.json'' \<mapsto> Malformed] ''p.json'' ''btcusdt'' = Inr PNone \<and>
   read_pos [''p.json'' \<mapsto> Json (PList [PNum 1])] ''p.json'' ''btcusdt'' = Inr PNone \<and>
   read_pos [''p.json'' \<mapsto> Json (PDict [(''ETHUSDT'', PNum 1)])] ''p.json'' ''btcusdt'' = Inr PNone \<and>
   write_pos Map.empty ''p.json'' ''btcusdt'' (1 / 2) ''2024-01-01T00:00:00'' =
     Inr [''p.json'' \<mapsto> Json (PDict [(''BTCUSDT'',
        PDict [(''q'', PNum (1 / 2)), (''side'', PStr ''buy''), (''time'', PStr ''2024-01-01T00:00:00'')])])] \<and>
   read_pos [''p.json'' \<mapsto> Json (PDict [(''BTCUSDT'',
        PDict [(''q'', PNum (1 / 2)), (''side'', PStr ''buy''), (''time'', PStr ''2024-01-01T00:00:00'')])])]
     ''p.json'' ''btcusdt'' =
     Inr (PDict [(''q'', PNum (1 / 2)), (''side'', PStr ''buy''), (''time'', PStr ''2024-01-01T00:00:00'')])"
proof -
  have up: "str_upper ''btcusdt'' = ''BTCUSDT''"
    by (simp add: str_upper_def upper_char_def)
  have w: "write_pos Map.empty ''p.json'' ''btcusdt'' (1 / 2) ''2024-01-01T00:00:00'' =
     Inr [''p.json'' \<mapsto> Json (PDict [(''BTCUSDT'',
        PDict [(''q'', PNum (1 / 2)), (''side'', PStr ''buy''), (''time'', PStr ''2024-01-01T00:00:00'')])])]"
    by (simp add: write_pos_def load_data_def up side_of_qty_def)
  have s: "side_of_qty (1 / 2) = ''buy''"
    by (simp add: side_of_qty_def)
  show ?thesis
    using read_pos_total_record [of Map.empty "''p.json''" "''btcusdt''"]
      read_pos_total_record [of "[''p.json'' \<mapsto> Malformed]" "''p.json''" "''btcusdt''"]
      read_pos_total_record [of "[''p.json'' \<mapsto> Json (PList [PNum 1])]" "''p.json''" "''btcusdt''"]
      read_pos_total_record [of "[''p.json'' \<mapsto> Json (PDict [(''ETHUSDT'', PNum 1)])]"
        "''p.json''" "''btcusdt''"]
      read_pos_total_record [of "[''p.json'' \<mapsto> Json (PDict [(''BTCUSDT'',
        PDict [(''q'', PNum (1 / 2)), (''side'', PStr ''buy''), (''time'', PStr ''2024-01-01T00:00:00'')])])]"
        "''p.json''" "''btcusdt''"]
      w s
    by (simp add: up)
qed

text \<open>
  C9. The store after an unfilled attempt is idempotent. If the not-filled branch of
  the cycle has written the unchanged position \<open>cur\<close> for a symbol, then doing it
  again with the same symbol and the same \<open>cur\<close> succeeds as well, and after either
  write the entry read back for the symbol holds the same quantity \<open>cur\<close> and the same
  side; only the \<open>time\<close> field follows the clock. The entries of other symbols are
  the same after both writes, and with the same clock reading the whole file system is
  the same.
\<close>

theorem unfilled_store_idempotent:
  assumes "store_after_attempt fl api fs pos_store symb False cur need side t1 = Inr fs1"
  shows "\<exists>fs2. store_after_attempt fl api' fs1 pos_store symb False cur need side t2 = Inr fs2 \<and>
      read_pos fs1 pos_store symb =
        Inr (PDict [(''q'', PNum cur), (''side'', PStr (side_of_qty cur)), (''time'', PStr t1)]) \<and>
      read_pos fs2 pos_store symb =
        Inr (PDict [(''q'', PNum cur), (''side'', PStr (side_of_qty cur)), (''time'', PStr t2)]) \<and>
      (\<forall>s. str_upper s \<noteq> str_upper symb \<longrightarrow> read_pos fs2 pos_store s = read_pos fs1 pos_store s) \<and>
      (t2 = t1 \<longrightarrow> fs2 = fs1)"
proof -
  from assms have w1: "write_pos fs pos_store symb cur t1 = Inr fs1"
    by (simp add: store_after_attempt_def)
  define fs2 where "fs2 = fs1(pos_store \<mapsto> Json (PDict (dict_set (str_upper symb)
            (PDict [(''q'', PNum cur), (''side'', PStr (side_of_qty cur)), (''time'', PStr t2)])
            (case load_data fs pos_store of PDict d \<Rightarrow> d | _ \<Rightarrow> []))))"
  have w2: "write_pos fs1 pos_store symb cur t2 = Inr fs2"
    unfolding fs2_def by (rule write_pos_again [OF w1])
  have r1: "read_pos fs1 pos_store symb =
        Inr (PDict [(''q'', PNum cur), (''side'', PStr (side_of_qty cur)), (''time'', PStr t1)])"
    by (rule read_pos_after_write [OF w1 refl])
  have r2: "read_pos fs2 pos_store symb =
        Inr (PDict [(''q'', PNum cur), (''side'', PStr (side_of_qty cur)), (''time'', PStr t2)])"
    by (rule read_pos_after_write [OF w2 refl])
  have others: "read_pos fs2 pos_store s = read_pos fs1 pos_store s"
    if "str_upper s \<noteq> str_upper symb" for s
    using w1 that
    by (auto simp: fs2_def write_pos_def read_pos_def read_pos_try_def Let_def map_of_dict_set
        split: pyval.splits if_splits)
  have same: "fs2 = fs1" if "t2 = t1"
    using w1 that
    by (auto simp: fs2_def write_pos_def Let_def split: pyval.splits if_splits)
  show ?thesis
    using w2 r1 r2 others same by (auto simp: store_after_attempt_def)
qed

text \<open>
  C9 on a concrete run: position \<open>2\<close> for \<open>BTCUSDT\<close> stored twice into an empty
  directory, at the clock readings \<open>t1\<close> and \<open>t2\<close>.
\<close>

theorem unfilled_store_idempotent_witness:
  "store_after_attempt (\<lambda>s. None) (Inl VenueError) Map.empty ''coinex_pos.json'' ''BTCUSDT''
      False 2 1 ''sell'' ''t1'' =
     Inr [''coinex_pos.json'' \<mapsto> Json (PDict [(''BTCUSDT'',
        PDict [(''q'', PNum 2), (''side'', PStr ''buy''), (''time'', PStr ''t1'')])])] \<and>
   (\<exists>fs2. store_after_attempt (\<lambda>s. None) (Inl VenueError)
        [''coinex_pos.json'' \<mapsto> Json (PDict [(''BTCUSDT'',
           PDict [(''q'', PNum 2), (''side'', PStr ''buy''), (''time'', PStr ''t1'')])])]
        ''coinex_pos.json'' ''BTCUSDT'' False 2 1 ''sell'' ''t2'' = Inr fs2 \<and>
      read_pos fs2 ''coinex_pos.json'' ''BTCUSDT'' =
        Inr (PDict [(''q'', PNum 2), (''side'', PStr ''buy''), (''time'', PStr ''t2'')]))"
proof -
  have up: "str_upper ''BTCUSDT'' = ''BTCUSDT''"
    by (simp add: str_upper_def upper_char_def)
  have h: "store_after_attempt (\<lambda>s. None) (Inl VenueError) Map.empty ''coinex_pos.json''
      ''BTCUSDT'' False 2 1 ''sell'' ''t1'' =
     Inr [''coinex_pos.json'' \<mapsto> Json (PDict [(''BTCUSDT'',
        PDict [(''q'', PNum 2), (''side'', PStr ''buy''), (''time'', PStr ''t1'')])])]"
    by (simp add: store_after_attempt_def write_pos_def load_data_def up side_of_qty_def)
  have s: "side_of_qty 2 = ''buy''"
    by (simp add: side_of_qty_def)
  from unfilled_store_idempotent [OF h, of "Inl VenueError" "''t2''"] s
  have "\<exists>fs2. store_after_attempt (\<lambda>s. None) (Inl VenueError)
        [''coinex_pos.json'' \<mapsto> Json (PDict [(''BTCUSDT'',
           PDict [(''q'', PNum 2), (''side'', PStr ''buy''), (''time'', PStr ''t1'')])])]
        ''coinex_pos.json'' ''BTCUSDT'' False 2 1 ''sell'' ''t2'' = Inr fs2 \<and>
      read_pos fs2 ''coinex_pos.json'' ''BTCUSDT'' =
        Inr (PDict [(''q'', PNum 2), (''side'', PStr ''buy''), (''time'', PStr ''t2'')])"
    by auto
  with h show ?thesis by simp
qed

section \<open>Properties of the current position and of the band guard\<close>

lemma get_coinex_pos_returns: "\<exists>v. get_coinex_pos fl api fs store_path symbol = Inr v"
  using read_pos_returns [of fs store_path symbol]
  by (auto simp: get_coinex_pos_def split: sum.split option.split)

text \<open>
  C2. \<open>get_coinex_pos\<close> at the inputs where the claim fails: the venue request raises.
  With no position file the call returns \<open>None\<close>, not \<open>0\<close>; with a file written by
  \<open>write_pos\<close> it returns the whole stored record, not its quantity.
\<close>

theorem get_coinex_pos_fallback_value:
  "get_coinex_pos fl (Inl VenueError) Map.empty ''coinex_pos.json'' ''BTCUSDT'' = Inr PNone \<and>
   get_coinex_pos fl (Inl VenueError)
     [''coinex_pos.json'' \<mapsto> Json (PDict [(''BTCUSDT'',
        PDict [(''q'', PNum 2), (''side'', PStr ''buy''), (''time'', PStr ''2024-01-01T00:00:00'')])])]
     ''coinex_pos.json'' ''BTCUSDT'' =
   Inr (PDict [(''q'', PNum 2), (''side'', PStr ''buy''), (''time'', PStr ''2024-01-01T00:00:00'')])"
  by (simp add: get_coinex_pos_def get_coinex_pos_try_def read_pos_def read_pos_try_def
      str_upper_def upper_char_def)

text \<open>
  C7. For a numeric position \<open>pos\<close> read from the store, the band guard is true exactly
  when \<open>center - t_units < pos < center + t_units\<close> with
  \<open>center = 0.5 * (l_units + u_units) - b_units\<close>; both bounds are strict.
\<close>

theorem within_tobit_window_strict:
  assumes "read_pos fs pos_store (coin @ ''USDT'') = Inr (PNum pos)"
  shows "within_tobit_window l_units u_units t_units fs pos_store coin b_units =
         Inr ((0.5 * (l_units + u_units) - b_units) - t_units < pos \<and>
              pos < (0.5 * (l_units + u_units) - b_units) + t_units,
              PNum pos,
              0.5 * (l_units + u_units) - b_units,
              (0.5 * (l_units + u_units) - b_units) - t_units,
              (0.5 * (l_units + u_units) - b_units) + t_units)"
  using assms
  by (auto simp: within_tobit_window_def py_less_def py_greater_def Let_def split: bool.splits)

text \<open>
  The two examples of C7, with center \<open>5\<close> (\<open>l_units = 0\<close>, \<open>u_units = 10\<close>,
  \<open>b_units = 0\<close>) and tolerance \<open>2\<close>: position \<open>5\<close> is inside, position \<open>7\<close>, on
  the upper bound, is outside.
\<close>

theorem within_tobit_window_strict_witness:
  "within_tobit_window 0 10 2 [''coinex_pos.json'' \<mapsto> Json (PDict [(''BTCUSDT'', PNum 5)])]
       ''coinex_pos.json'' ''BTC'' 0 = Inr (True, PNum 5, 5, 3, 7) \<and>
   within_tobit_window 0 10 2 [''coinex_pos.json'' \<mapsto> Json (PDict [(''BTCUSDT'', PNum 7)])]
       ''coinex_pos.json'' ''BTC'' 0 = Inr (False, PNum 7, 5, 3, 7)"
proof -
  have h5: "read_pos [''coinex_pos.json'' \<mapsto> Json (PDict [(''BTCUSDT'', PNum 5)])]
              ''coinex_pos.json'' (''BTC'' @ ''USDT'') = Inr (PNum 5)"
    by (simp add: read_pos_def read_pos_try_def str_upper_def upper_char_def)
  have h7: "read_pos [''coinex_pos.json'' \<mapsto> Json (PDict [(''BTCUSDT'', PNum 7)])]
              ''coinex_pos.json'' (''BTC'' @ ''USDT'') = Inr (PNum 7)"
    by (simp add: read_pos_def read_pos_try_def str_upper_def upper_char_def)
  show ?thesis
    using within_tobit_window_strict [OF h5, of 0 10 2 0]
          within_tobit_window_strict [OF h7, of 0 10 2 0]
    by simp
qed

section \<open>Properties of the rolling statistics\<close>

lemma stats_of_row_bounds:
  assumes "stats_of_row fetched = Some (mean, std, n)"
  shows "2 \<le> n \<and> 0 \<le> std"
  using assms
  by (auto simp: stats_of_row_def Let_def split: option.splits if_splits prod.splits)

lemma live_samples_length:
  "live_samples fl cfg_coin Fs k = Inr vals \<Longrightarrow> length vals = k"
  by (induction k arbitrary: vals) (auto split: sum.splits option.splits prod.splits)

lemma window_stats_cx_bounds:
  assumes "window_stats_cx fl query cfg_coin Fs = Inr (mean, std, n)"
  shows "2 \<le> n \<and> 0 \<le> std"
proof (cases "case query of Inl e \<Rightarrow> None | Inr fetched \<Rightarrow> stats_of_row fetched")
  case (Some r)
  with assms have "r = (mean, std, n)" by (simp add: window_stats_cx_def)
  with Some obtain fetched where "stats_of_row fetched = Some (mean, std, n)"
    by (auto split: sum.splits)
  then show ?thesis by (rule stats_of_row_bounds)
next
  case None
  with assms obtain vals where v: "live_samples fl cfg_coin Fs 10 = Inr vals"
    by (auto simp: window_stats_cx_def split: sum.splits)
  then have len: "length vals = 10" by (rule live_samples_length)
  have nn: "0 \<le> sum_list (map (\<lambda>v. (v - fmean vals)\<^sup>2) vals)"
    by (rule sum_list_nonneg) auto
  with assms None v len show ?thesis
    by (auto simp: window_stats_cx_def stdev_def)
qed

text \<open>
  C6. Every triple \<open>(mean, std, n)\<close> that \<open>window_stats\<close> returns has \<open>std >= 0\<close> when
  \<open>n >= 2\<close> and is \<open>(0, 0, 0)\<close> when \<open>n < 2\<close>. The maker's \<open>window_stats\<close>
  (\<open>nbtx_trade.py\<close>) returns \<open>(0, 0, 0)\<close> whenever the store yields no row or a count
  below two. The hedger's (\<open>cnx_trade.py\<close>) then takes ten live samples instead, so
  every triple it returns has \<open>n >= 2\<close>.
\<close>

theorem window_stats_result:
  "(window_stats_nb query = Inr (mean, std, n) \<longrightarrow>
      (2 \<le> n \<longrightarrow> 0 \<le> std) \<and> (n < 2 \<longrightarrow> mean = 0 \<and> std = 0 \<and> n = 0)) \<and>
   (window_stats_cx fl query cfg_coin Fs = Inr (mean, std, n) \<longrightarrow> 2 \<le> n \<and> 0 \<le> std) \<and>
   (\<forall>a b c. query = Inr (Some (a, b, c)) \<and> (c = None \<or> (\<exists>cnt. c = Some cnt \<and> cnt < 2)) \<longrightarrow>
      window_stats_nb query = Inr (0, 0, 0)) \<and>
   (query = Inr None \<longrightarrow> window_stats_nb query = Inr (0, 0, 0))"
proof (intro conjI impI allI)
  assume "window_stats_nb query = Inr (mean, std, n)" "2 \<le> n"
  then show "0 \<le> std"
    using stats_of_row_bounds
    by (auto simp: window_stats_nb_def split: sum.splits option.splits)
next
  assume a: "window_stats_nb query = Inr (mean, std, n)" "n < 2"
  then show "mean = 0" "std = 0" "n = 0"
    by (auto simp: window_stats_nb_def split: sum.splits option.splits
        dest!: stats_of_row_bounds)
next
  assume "window_stats_cx fl query cfg_coin Fs = Inr (mean, std, n)"
  then show "2 \<le> n" "0 \<le> std" using window_stats_cx_bounds by blast+
next
  fix a b c
  assume "query = Inr (Some (a, b, c)) \<and> (c = None \<or> (\<exists>cnt. c = Some cnt \<and> cnt < 2))"
  then show "window_stats_nb query = Inr (0, 0, 0)"
    by (auto simp: window_stats_nb_def stats_of_row_def Let_def split: option.splits)
next
  assume "query = Inr None"
  then show "window_stats_nb query = Inr (0, 0, 0)"
    by (simp add: window_stats_nb_def stats_of_row_def)
qed

text \<open>
  C6 on concrete stores: two rows with mean \<open>1\<close> and mean square \<open>3\<close> give
  \<open>(1, 2, 2)\<close>; one row gives \<open>(0, 0, 0)\<close>; no row gives \<open>(0, 0, 0)\<close>; and the hedger
  with an unavailable store and a constant live difference of \<open>101\<close> returns
  \<open>(101, 0, 10)\<close>.
\<close>

theorem window_stats_result_witness:
  "window_stats_nb (Inr (Some (Some 1, Some 3, Some 2))) = Inr (1, 2, 2) \<and>
   (2::int) \<le> 2 \<and> (0::real) \<le> 2 \<and>
   window_stats_nb (Inr (Some (Some 3, Some 10, Some 1))) = Inr (0, 0, 0) \<and>
   window_stats_nb (Inr None) = Inr (0, 0, 0) \<and>
   window_stats_cx (\<lambda>s. None) (Inl VenueError) (Some ''BTC'')
     (\<lambda>i. \<lparr>nobitex_ob = (\<lambda>m. Inr (PDict [(''bids'', PList [PDict [(''price'', PNum 100)]]),
                                     (''asks'', PList [PDict [(''price'', PNum 102)]])])),
      coinex_ob = (\<lambda>m. Inr (PDict [(''bids'', PList [PList [PNum 1, PNum 5]]),
                                     (''asks'', PList [PList [PNum 3, PNum 5]])])),
      binance_ob = (\<lambda>m. Inl VenueError)\<rparr>) = Inr (101, 0, 10) \<and>
   (2::int) \<le> 10 \<and> (0::real) \<le> 0"
proof -
  have ld: "live_diff_cx (\<lambda>s. None)
     \<lparr>nobitex_ob = (\<lambda>m. Inr (PDict [(''bids'', PList [PDict [(''price'', PNum 100)]]),
                                     (''asks'', PList [PDict [(''price'', PNum 102)]])])),
      coinex_ob = (\<lambda>m. Inr (PDict [(''bids'', PList [PList [PNum 1, PNum 5]]),
                                     (''asks'', PList [PList [PNum 3, PNum 5]])])),
      binance_ob = (\<lambda>m. Inl VenueError)\<rparr> ''BTC'' = Inr (202, 101, 101)"
    by (simp add: live_diff_cx_def nobitex_mid_def top_price_def coinex_best_def py_mid_def)
  have nb: "window_stats_nb (Inr (Some (Some 1, Some 3, Some 2))) = Inr (1, 2, 2)"
    by (simp add: window_stats_nb_def stats_of_row_def)
  have cx: "window_stats_cx (\<lambda>s. None) (Inl VenueError) (Some ''BTC'')
     (\<lambda>i. \<lparr>nobitex_ob = (\<lambda>m. Inr (PDict [(''bids'', PList [PDict [(''price'', PNum 100)]]),
                                     (''asks'', PList [PDict [(''price'', PNum 102)]])])),
      coinex_ob = (\<lambda>m. Inr (PDict [(''bids'', PList [PList [PNum 1, PNum 5]]),
                                     (''asks'', PList [PList [PNum 3, PNum 5]])])),
      binance_ob = (\<lambda>m. Inl VenueError)\<rparr>) = Inr (101, 0, 10)"
    by (simp add: window_stats_cx_def eval_nat_numeral ld fmean_def stdev_def)
  have le: "(2::int) \<le> 2 \<and> (0::real) \<le> 2"
    using window_stats_result [of "Inr (Some (Some 1, Some 3, Some 2))" 1 2 2,
        THEN conjunct1, rule_format, OF nb]
    by simp
  have one: "window_stats_nb (Inr (Some (Some 3, Some 10, Some 1))) = Inr (0, 0, 0)"
    by (rule window_stats_result [THEN conjunct2, THEN conjunct2, THEN conjunct1, rule_format,
          of _ "Some 3" "Some 10" "Some 1"])
      simp
  have none: "window_stats_nb (Inr None) = Inr (0, 0, 0)"
    by (rule window_stats_result [THEN conjunct2, THEN conjunct2, THEN conjunct2, rule_format])
      simp
  have le': "(2::int) \<le> 10 \<and> (0::real) \<le> 0"
    by (rule window_stats_result [THEN conjunct2, THEN conjunct1, rule_format, OF cx])
  from nb le one none cx le' show ?thesis by blast
qed

section \<open>Properties of the live difference\<close>

lemma top_price_empty:
  "py_key ob sd = Inr (PList []) \<Longrightarrow> top_price ob sd = Inl IndexError"
  by (simp add: top_price_def)

lemma top_entry_empty:
  "py_key ob sd = Inr (PList []) \<Longrightarrow> top_entry ob sd = Inl IndexError"
  by (simp add: top_entry_def)

lemma nobitex_mid_empty:
  assumes "nobitex_ob F market = Inr ob"
    and "py_key ob ''bids'' = Inr (PList []) \<or> py_key ob ''asks'' = Inr (PList [])"
  shows "\<exists>e. nobitex_mid F market = Inl e"
  using assms
  by (auto simp: nobitex_mid_def top_price_empty split: sum.splits)

lemma nobitex_mid_empty_bids:
  assumes "nobitex_ob F market = Inr ob" and "py_key ob ''bids'' = Inr (PList [])"
  shows "nobitex_mid F market = Inl IndexError"
  using assms by (simp add: nobitex_mid_def top_price_empty)

lemma coinex_best_empty:
  assumes "coinex_ob F symbol = Inr ob"
    and "py_key ob ''bids'' = Inr (PList []) \<or> py_key ob ''asks'' = Inr (PList [])"
  shows "\<exists>e. coinex_best fl F symbol = Inl e"
  using assms
  by (auto simp: coinex_best_def split: sum.splits)

lemma coinex_mid_try_empty:
  assumes "coinex_ob F (coin @ ''USDT'') = Inr ob"
    and "py_key ob ''bids'' = Inr (PList []) \<or> py_key ob ''asks'' = Inr (PList [])"
  shows "\<exists>e. coinex_mid_try fl F coin = Inl e"
  using assms
  by (auto simp: coinex_mid_try_def top_entry_empty split: sum.splits)

lemma binance_mid_empty:
  assumes "binance_ob F (coin @ ''/USDT'') = Inr ob"
    and "py_key ob ''bids'' = Inr (PList []) \<or> py_key ob ''asks'' = Inr (PList [])"
  shows "\<exists>e. binance_mid F coin = Inl e"
  using assms
  by (auto simp: binance_mid_def top_entry_empty split: sum.splits)

lemma live_diff_cx_nobitex:
  assumes "\<exists>e. nobitex_mid F ''USDTIRT'' = Inl e \<or> nobitex_mid F (coin @ ''IRT'') = Inl e"
  shows "\<exists>e. live_diff_cx fl F coin = Inl e"
  using assms by (auto simp: live_diff_cx_def split: sum.splits)

lemma live_diff_nb_nobitex:
  assumes "\<exists>e. nobitex_mid F ''USDTIRT'' = Inl e \<or> nobitex_mid F (coin @ ''IRT'') = Inl e"
  shows "\<exists>e. live_diff_nb fl F coin = Inl e"
  using assms by (auto simp: live_diff_nb_def split: sum.splits)

lemma live_diff_cx_futures:
  assumes "coinex_best fl F (coin @ ''USDT'') = Inl e"
  shows "\<exists>e. live_diff_cx fl F coin = Inl e"
  using assms by (auto simp: live_diff_cx_def split: sum.splits)

lemma live_diff_nb_futures:
  assumes "coinex_mid_try fl F coin = Inl e" and "binance_mid F coin = Inl e'"
  shows "\<exists>e. live_diff_nb fl F coin = Inl e"
  using assms by (auto simp: live_diff_nb_def split: sum.splits)

lemma trade_step_no_data:
  assumes "live_diff_nb fl (c_feeds obs) coin = Inl e"
  shows "trade_step ri dl fl cfg coin st obs = (Raised e, [])"
  using assms by (simp add: trade_step_def)

lemma nb_cycle_no_data:
  assumes "live_diff_nb fl (c_feeds obs) coin = Inl e"
  shows "snd (snd (nb_cycle ri dl fl cfg coin st obs)) = [] \<and>
         ((\<exists>e'. fst (snd (nb_cycle ri dl fl cfg coin st obs)) = Raised e') \<or>
          fst (snd (nb_cycle ri dl fl cfg coin st obs)) = Skipped)"
  using assms
  by (auto simp: nb_cycle_def trade_step_no_data Let_def split: sum.splits prod.splits)

lemma coinex_mid_try_fails:
  assumes "((\<exists>e. coinex_ob F (coin @ ''USDT'') = Inl e) \<or>
       (\<exists>ob. coinex_ob F (coin @ ''USDT'') = Inr ob \<and>
          (py_key ob ''bids'' = Inr (PList []) \<or> py_key ob ''asks'' = Inr (PList []))))"
  shows "\<exists>e. coinex_mid_try fl F coin = Inl e"
  using assms coinex_mid_try_empty [of F coin _ fl]
  by (auto simp: coinex_mid_try_def)

lemma coinex_best_fails:
  assumes "((\<exists>e. coinex_ob F (coin @ ''USDT'') = Inl e) \<or>
       (\<exists>ob. coinex_ob F (coin @ ''USDT'') = Inr ob \<and>
          (py_key ob ''bids'' = Inr (PList []) \<or> py_key ob ''asks'' = Inr (PList []))))"
  shows "\<exists>e. coinex_best fl F (coin @ ''USDT'') = Inl e"
  using assms coinex_best_empty [of F "coin @ ''USDT''" _ fl]
  by (auto simp: coinex_best_def)

lemma binance_mid_fails:
  assumes "(\<exists>e. binance_ob F (coin @ ''/USDT'') = Inl e) \<or>
       (\<exists>ob2. binance_ob F (coin @ ''/USDT'') = Inr ob2 \<and>
          (py_key ob2 ''bids'' = Inr (PList []) \<or> py_key ob2 ''asks'' = Inr (PList [])))"
  shows "\<exists>e. binance_mid F coin = Inl e"
  using assms binance_mid_empty [of F coin]
  by (auto simp: binance_mid_def)

lemma live_diff_nb_fallback:
  assumes "nobitex_mid F ''USDTIRT'' = Inr u" "nobitex_mid F (coin @ ''IRT'') = Inr c"
    and "coinex_mid_try fl F coin = Inl e"
  shows "live_diff_nb fl F coin =
         (case binance_mid F coin of Inl e' \<Rightarrow> Inl e' | Inr m \<Rightarrow> Inr (m * u, c, m * u - c))"
  using assms by (simp add: live_diff_nb_def Let_def split: sum.split)

lemma live_diff_nb_direct:
  assumes "nobitex_mid F ''USDTIRT'' = Inr u" "nobitex_mid F (coin @ ''IRT'') = Inr c"
    and "coinex_mid_try fl F coin = Inr m"
  shows "live_diff_nb fl F coin = Inr (m * u, c, m * u - c)"
  using assms by (simp add: live_diff_nb_def Let_def)

text \<open>
  C8, as the code has it. Both \<open>live_diff\<close>s raise when the USDT/fiat or the coin/fiat
  book of the spot venue has an empty side (IndexError, when the bids of the USDT book
  are the empty side); the code defines no error of its own for this. The hedger's
  \<open>live_diff\<close> raises as well when the futures book is unavailable or has an empty
  side. The maker's futures lookup raises in the same two cases, and whenever it raises
  the maker's \<open>live_diff\<close> falls back to the Binance book: with both spot books quoted
  it returns the difference computed from the Binance mid when the Binance lookup
  succeeds, and raises the exception of the Binance lookup when that raises, as it does
  when the Binance book is unavailable or has an empty side. When the futures lookup
  succeeds, the difference is computed from the futures mid. In the maker's control
  loop, when the \<open>live_diff\<close> call that the cycle makes on the market data \<open>c_feeds\<close>
  (the call before the trading decision) raises, the cycle ends with no order call: the
  exception is caught by the loop, unless the cycle was skipped before for want of
  statistics.
\<close>

theorem live_diff_needs_quotes:
  "(\<forall>ob. (nobitex_ob F ''USDTIRT'' = Inr ob \<or> nobitex_ob F (coin @ ''IRT'') = Inr ob) \<and>
         (py_key ob ''bids'' = Inr (PList []) \<or> py_key ob ''asks'' = Inr (PList [])) \<longrightarrow>
         (\<exists>e. live_diff_cx fl F coin = Inl e) \<and> (\<exists>e. live_diff_nb fl F coin = Inl e)) \<and>
   (\<forall>ob. nobitex_ob F ''USDTIRT'' = Inr ob \<and> py_key ob ''bids'' = Inr (PList []) \<longrightarrow>
         live_diff_cx fl F coin = Inl IndexError \<and> live_diff_nb fl F coin = Inl IndexError) \<and>
   (((\<exists>e. coinex_ob F (coin @ ''USDT'') = Inl e) \<or>
       (\<exists>ob. coinex_ob F (coin @ ''USDT'') = Inr ob \<and>
          (py_key ob ''bids'' = Inr (PList []) \<or> py_key ob ''asks'' = Inr (PList [])))) \<longrightarrow>
      (\<exists>e. live_diff_cx fl F coin = Inl e)) \<and>
   (((\<exists>e. coinex_ob F (coin @ ''USDT'') = Inl e) \<or>
       (\<exists>ob. coinex_ob F (coin @ ''USDT'') = Inr ob \<and>
          (py_key ob ''bids'' = Inr (PList []) \<or> py_key ob ''asks'' = Inr (PList [])))) \<longrightarrow>
      (\<exists>e. coinex_mid_try fl F coin = Inl e)) \<and>
   (\<forall>u c m. nobitex_mid F ''USDTIRT'' = Inr u \<and> nobitex_mid F (coin @ ''IRT'') = Inr c \<and>
      (\<exists>e. coinex_mid_try fl F coin = Inl e) \<and> binance_mid F coin = Inr m \<longrightarrow>
      live_diff_nb fl F coin = Inr (m * u, c, m * u - c)) \<and>
   (\<forall>u c e'. nobitex_mid F ''USDTIRT'' = Inr u \<and> nobitex_mid F (coin @ ''IRT'') = Inr c \<and>
      (\<exists>e. coinex_mid_try fl F coin = Inl e) \<and> binance_mid F coin = Inl e' \<longrightarrow>
      live_diff_nb fl F coin = Inl e') \<and>
   (\<forall>e'. binance_ob F (coin @ ''/USDT'') = Inl e' \<longrightarrow> binance_mid F coin = Inl e') \<and>
   (\<forall>ob2. binance_ob F (coin @ ''/USDT'') = Inr ob2 \<and>
         (py_key ob2 ''bids'' = Inr (PList []) \<or> py_key ob2 ''asks'' = Inr (PList [])) \<longrightarrow>
      (\<exists>e. binance_mid F coin = Inl e)) \<and>
   (\<forall>u c m. nobitex_mid F ''USDTIRT'' = Inr u \<and> nobitex_mid F (coin @ ''IRT'') = Inr c \<and>
      coinex_mid_try fl F coin = Inr m \<longrightarrow>
      live_diff_nb fl F coin = Inr (m * u, c, m * u - c)) \<and>
   (((\<exists>e. coinex_ob F (coin @ ''USDT'') = Inl e) \<or>
       (\<exists>ob. coinex_ob F (coin @ ''USDT'') = Inr ob \<and>
          (py_key ob ''bids'' = Inr (PList []) \<or> py_key ob ''asks'' = Inr (PList [])))) \<and>
      ((\<exists>e. binance_ob F (coin @ ''/USDT'') = Inl e) \<or>
       (\<exists>ob2. binance_ob F (coin @ ''/USDT'') = Inr ob2 \<and>
          (py_key ob2 ''bids'' = Inr (PList []) \<or> py_key ob2 ''asks'' = Inr (PList [])))) \<longrightarrow>
      (\<exists>e. live_diff_nb fl F coin = Inl e)) \<and>
   (\<forall>ri dl cfg st obs. c_feeds obs = F \<and> (\<exists>e. live_diff_nb fl F coin = Inl e) \<longrightarrow>
         snd (snd (nb_cycle ri dl fl cfg coin st obs)) = [] \<and>
         ((\<exists>e'. fst (snd (nb_cycle ri dl fl cfg coin st obs)) = Raised e') \<or>
          fst (snd (nb_cycle ri dl fl cfg coin st obs)) = Skipped))"
proof (intro conjI allI impI)
  fix ob
  assume a: "(nobitex_ob F ''USDTIRT'' = Inr ob \<or> nobitex_ob F (coin @ ''IRT'') = Inr ob) \<and>
         (py_key ob ''bids'' = Inr (PList []) \<or> py_key ob ''asks'' = Inr (PList []))"
  then have "\<exists>e. nobitex_mid F ''USDTIRT'' = Inl e \<or> nobitex_mid F (coin @ ''IRT'') = Inl e"
    using nobitex_mid_empty by blast
  then show "\<exists>e. live_diff_cx fl F coin = Inl e" "\<exists>e. live_diff_nb fl F coin = Inl e"
    by (rule live_diff_cx_nobitex, rule live_diff_nb_nobitex)
next
  fix ob
  assume "nobitex_ob F ''USDTIRT'' = Inr ob \<and> py_key ob ''bids'' = Inr (PList [])"
  then have "nobitex_mid F ''USDTIRT'' = Inl IndexError"
    using nobitex_mid_empty_bids by blast
  then show "live_diff_cx fl F coin = Inl IndexError" "live_diff_nb fl F coin = Inl IndexError"
    by (simp_all add: live_diff_cx_def live_diff_nb_def)
next
  assume "((\<exists>e. coinex_ob F (coin @ ''USDT'') = Inl e) \<or>
       (\<exists>ob. coinex_ob F (coin @ ''USDT'') = Inr ob \<and>
          (py_key ob ''bids'' = Inr (PList []) \<or> py_key ob ''asks'' = Inr (PList []))))"
  then obtain e where "coinex_best fl F (coin @ ''USDT'') = Inl e"
    using coinex_best_fails by blast
  then show "\<exists>e. live_diff_cx fl F coin = Inl e" by (rule live_diff_cx_futures)
next
  assume "((\<exists>e. coinex_ob F (coin @ ''USDT'') = Inl e) \<or>
       (\<exists>ob. coinex_ob F (coin @ ''USDT'') = Inr ob \<and>
          (py_key ob ''bids'' = Inr (PList []) \<or> py_key ob ''asks'' = Inr (PList []))))"
  then show "\<exists>e. coinex_mid_try fl F coin = Inl e" by (rule coinex_mid_try_fails)
next
  fix u c m
  assume a: "nobitex_mid F ''USDTIRT'' = Inr u \<and> nobitex_mid F (coin @ ''IRT'') = Inr c \<and>
      (\<exists>e. coinex_mid_try fl F coin = Inl e) \<and> binance_mid F coin = Inr m"
  then obtain e where e: "coinex_mid_try fl F coin = Inl e" by blast
  from a have s: "nobitex_mid F ''USDTIRT'' = Inr u" "nobitex_mid F (coin @ ''IRT'') = Inr c"
    and b: "binance_mid F coin = Inr m" by simp_all
  show "live_diff_nb fl F coin = Inr (m * u, c, m * u - c)"
    by (simp add: live_diff_nb_fallback [OF s e] b)
next
  fix u c e'
  assume a: "nobitex_mid F ''USDTIRT'' = Inr u \<and> nobitex_mid F (coin @ ''IRT'') = Inr c \<and>
      (\<exists>e. coinex_mid_try fl F coin = Inl e) \<and> binance_mid F coin = Inl e'"
  then obtain e where e: "coinex_mid_try fl F coin = Inl e" by blast
  from a have s: "nobitex_mid F ''USDTIRT'' = Inr u" "nobitex_mid F (coin @ ''IRT'') = Inr c"
    and b: "binance_mid F coin = Inl e'" by simp_all
  show "live_diff_nb fl F coin = Inl e'"
    by (simp add: live_diff_nb_fallback [OF s e] b)
next
  fix e'
  assume "binance_ob F (coin @ ''/USDT'') = Inl e'"
  then show "binance_mid F coin = Inl e'" by (simp add: binance_mid_def)
next
  fix ob2
  assume "binance_ob F (coin @ ''/USDT'') = Inr ob2 \<and>
         (py_key ob2 ''bids'' = Inr (PList []) \<or> py_key ob2 ''asks'' = Inr (PList []))"
  then show "\<exists>e. binance_mid F coin = Inl e" using binance_mid_empty by blast
next
  fix u c m
  assume "nobitex_mid F ''USDTIRT'' = Inr u \<and> nobitex_mid F (coin @ ''IRT'') = Inr c \<and>
      coinex_mid_try fl F coin = Inr m"
  then show "live_diff_nb fl F coin = Inr (m * u, c, m * u - c)"
    using live_diff_nb_direct by blast
next
  assume a: "((\<exists>e. coinex_ob F (coin @ ''USDT'') = Inl e) \<or>
       (\<exists>ob. coinex_ob F (coin @ ''USDT'') = Inr ob \<and>
          (py_key ob ''bids'' = Inr (PList []) \<or> py_key ob ''asks'' = Inr (PList [])))) \<and>
      ((\<exists>e. binance_ob F (coin @ ''/USDT'') = Inl e) \<or>
       (\<exists>ob2. binance_ob F (coin @ ''/USDT'') = Inr ob2 \<and>
          (py_key ob2 ''bids'' = Inr (PList []) \<or> py_key ob2 ''asks'' = Inr (PList []))))"
  then obtain e where e: "coinex_mid_try fl F coin = Inl e"
    using coinex_mid_try_fails by blast
  from a obtain e' where "binance_mid F coin = Inl e'"
    using binance_mid_fails by blast
  with e show "\<exists>e. live_diff_nb fl F coin = Inl e" by (rule live_diff_nb_futures)
next
  fix ri dl cfg st and obs :: nb_obs
  assume a: "c_feeds obs = F \<and> (\<exists>e. live_diff_nb fl F coin = Inl e)"
  then obtain e where "live_diff_nb fl (c_feeds obs) coin = Inl e" by blast
  from nb_cycle_no_data [OF this]
  show "snd (snd (nb_cycle ri dl fl cfg coin st obs)) = []"
    "(\<exists>e'. fst (snd (nb_cycle ri dl fl cfg coin st obs)) = Raised e') \<or>
          fst (snd (nb_cycle ri dl fl cfg coin st obs)) = Skipped"
    by blast+
qed


text \<open>
  C8 on concrete market data: a spot book without bids makes both \<open>live_diff\<close>s raise
  IndexError; with the futures book unavailable and Binance quoting \<open>1\<close> and \<open>3\<close>
  the maker's \<open>live_diff\<close> returns \<open>(202, 101, 101)\<close> from the Binance mid \<open>2\<close> while
  the hedger's raises; with Binance unavailable too the maker's raises, and a cycle on
  that market data makes no order call.
\<close>

theorem live_diff_needs_quotes_witness:
  "live_diff_cx (\<lambda>s. None) \<lparr>nobitex_ob = (\<lambda>m. Inr (PDict [(''bids'', PList []),
                                     (''asks'', PList [PDict [(''price'', PNum 102)]])])),
      coinex_ob = (\<lambda>m. Inl VenueError),
      binance_ob = (\<lambda>m. Inl VenueError)\<rparr> ''BTC'' = Inl IndexError \<and>
   live_diff_nb (\<lambda>s. None) \<lparr>nobitex_ob = (\<lambda>m. Inr (PDict [(''bids'', PList []),
                                     (''asks'', PList [PDict [(''price'', PNum 102)]])])),
      coinex_ob = (\<lambda>m. Inl VenueError),
      binance_ob = (\<lambda>m. Inl VenueError)\<rparr> ''BTC'' = Inl IndexError \<and>
   live_diff_nb (\<lambda>s. None) \<lparr>nobitex_ob = (\<lambda>m. Inr (PDict [(''bids'', PList [PDict [(''price'', PNum 100)]]),
                                     (''asks'', PList [PDict [(''price'', PNum 102)]])])),
      coinex_ob = (\<lambda>m. Inl VenueError),
      binance_ob = (\<lambda>m. Inr (PDict [(''bids'', PList [PList [PNum 1, PNum 5]]),
                                      (''asks'', PList [PList [PNum 3, PNum 5]])]))\<rparr> ''BTC'' = Inr (202, 101, 101) \<and>
   (\<exists>e. live_diff_cx (\<lambda>s. None) \<lparr>nobitex_ob = (\<lambda>m. Inr (PDict [(''bids'', PList [PDict [(''price'', PNum 100)]]),
                                     (''asks'', PList [PDict [(''price'', PNum 102)]])])),
      coinex_ob = (\<lambda>m. Inl VenueError),
      binance_ob = (\<lambda>m. Inr (PDict [(''bids'', PList [PList [PNum 1, PNum 5]]),
                                      (''asks'', PList [PList [PNum 3, PNum 5]])]))\<rparr> ''BTC'' = Inl e) \<and>
   live_diff_nb (\<lambda>s. None) \<lparr>nobitex_ob = (\<lambda>m. Inr (PDict [(''bids'', PList [PDict [(''price'', PNum 100)]]),
                                     (''asks'', PList [PDict [(''price'', PNum 102)]])])),
      coinex_ob = (\<lambda>m. Inl VenueError),
      binance_ob = (\<lambda>m. Inl VenueError)\<rparr> ''BTC'' = Inl VenueError \<and>
   snd (snd (nb_cycle (\<lambda>x. x) (\<lambda>s. None) (\<lambda>s. None)
      \<lparr>cfg_window_min = 60, cfg_k_sigma = 2, cfg_w_buy = 1 / 2, cfg_w_sell = 1 / 2,
        cfg_timeout_sec = 45, cfg_pos_store_path = ''coinex_pos.json'', cfg_order_qty = 2,
        cfg_l_units = - 10, cfg_u_units = 10, cfg_t_units = 5\<rparr>
      ''BTC'' \<lparr>s_last_stats = 0, s_mean = 0, s_std = 10\<rparr>
      (\<lparr>c_now = 2, c_query = Inl VenueError,
        c_feeds = \<lparr>nobitex_ob = (\<lambda>m. Inr (PDict [(''bids'', PList [PDict [(''price'', PNum 100)]]),
                                     (''asks'', PList [PDict [(''price'', PNum 102)]])])),
      coinex_ob = (\<lambda>m. Inl VenueError),
      binance_ob = (\<lambda>m. Inl VenueError)\<rparr>,
        c_balance = Inr 1,
        c_fs = [''coinex_pos.json'' \<mapsto> Json (PDict [(''BTCUSDT'', PNum 0)])],
        c_book = Inr (PDict [(''bids'', PList [PDict [(''price'', PNum 100)]]),
             (''asks'', PList [PDict [(''price'', PNum 102)]])]),
        c_order = Inr (PDict [(''order'', PDict [(''id'', PNum 7)])]),
        c_parse = Inr ''success'', c_start = 2, c_ticks = []\<rparr>))) = []"
proof -
  have h1: "nobitex_ob \<lparr>nobitex_ob = (\<lambda>m. Inr (PDict [(''bids'', PList []),
                                     (''asks'', PList [PDict [(''price'', PNum 102)]])])),
      coinex_ob = (\<lambda>m. Inl VenueError),
      binance_ob = (\<lambda>m. Inl VenueError)\<rparr> ''USDTIRT'' =
     Inr (PDict [(''bids'', PList []), (''asks'', PList [PDict [(''price'', PNum 102)]])]) \<and>
   py_key (PDict [(''bids'', PList []), (''asks'', PList [PDict [(''price'', PNum 102)]])]) ''bids'' =
     Inr (PList [])"
    by simp
  have spot2: "nobitex_mid \<lparr>nobitex_ob = (\<lambda>m. Inr (PDict [(''bids'', PList [PDict [(''price'', PNum 100)]]),
                                     (''asks'', PList [PDict [(''price'', PNum 102)]])])),
      coinex_ob = (\<lambda>m. Inl VenueError),
      binance_ob = (\<lambda>m. Inr (PDict [(''bids'', PList [PList [PNum 1, PNum 5]]),
                                      (''asks'', PList [PList [PNum 3, PNum 5]])]))\<rparr> ''USDTIRT'' = Inr 101"
    "nobitex_mid \<lparr>nobitex_ob = (\<lambda>m. Inr (PDict [(''bids'', PList [PDict [(''price'', PNum 100)]]),
                                     (''asks'', PList [PDict [(''price'', PNum 102)]])])),
      coinex_ob = (\<lambda>m. Inl VenueError),
      binance_ob = (\<lambda>m. Inr (PDict [(''bids'', PList [PList [PNum 1, PNum 5]]),
                                      (''asks'', PList [PList [PNum 3, PNum 5]])]))\<rparr> (''BTC'' @ ''IRT'') = Inr 101"
    by (simp_all add: nobitex_mid_def top_price_def py_mid_def)
  have spot3: "nobitex_mid \<lparr>nobitex_ob = (\<lambda>m. Inr (PDict [(''bids'', PList [PDict [(''price'', PNum 100)]]),
                                     (''asks'', PList [PDict [(''price'', PNum 102)]])])),
      coinex_ob = (\<lambda>m. Inl VenueError),
      binance_ob = (\<lambda>m. Inl VenueError)\<rparr> ''USDTIRT'' = Inr 101"
    "nobitex_mid \<lparr>nobitex_ob = (\<lambda>m. Inr (PDict [(''bids'', PList [PDict [(''price'', PNum 100)]]),
                                     (''asks'', PList [PDict [(''price'', PNum 102)]])])),
      coinex_ob = (\<lambda>m. Inl VenueError),
      binance_ob = (\<lambda>m. Inl VenueError)\<rparr> (''BTC'' @ ''IRT'') = Inr 101"
    by (simp_all add: nobitex_mid_def top_price_def py_mid_def)
  have fut2: "(\<exists>e. coinex_ob \<lparr>nobitex_ob = (\<lambda>m. Inr (PDict [(''bids'', PList [PDict [(''price'', PNum 100)]]),
                                     (''asks'', PList [PDict [(''price'', PNum 102)]])])),
      coinex_ob = (\<lambda>m. Inl VenueError),
      binance_ob = (\<lambda>m. Inr (PDict [(''bids'', PList [PList [PNum 1, PNum 5]]),
                                      (''asks'', PList [PList [PNum 3, PNum 5]])]))\<rparr> (''BTC'' @ ''USDT'') = Inl e) \<or>
       (\<exists>ob. coinex_ob \<lparr>nobitex_ob = (\<lambda>m. Inr (PDict [(''bids'', PList [PDict [(''price'', PNum 100)]]),
                                     (''asks'', PList [PDict [(''price'', PNum 102)]])])),
      coinex_ob = (\<lambda>m. Inl VenueError),
      binance_ob = (\<lambda>m. Inr (PDict [(''bids'', PList [PList [PNum 1, PNum 5]]),
                                      (''asks'', PList [PList [PNum 3, PNum 5]])]))\<rparr> (''BTC'' @ ''USDT'') = Inr ob \<and>
          (py_key ob ''bids'' = Inr (PList []) \<or> py_key ob ''asks'' = Inr (PList [])))"
    by simp
  have fut3: "(\<exists>e. coinex_ob \<lparr>nobitex_ob = (\<lambda>m. Inr (PDict [(''bids'', PList [PDict [(''price'', PNum 100)]]),
                                     (''asks'', PList [PDict [(''price'', PNum 102)]])])),
      coinex_ob = (\<lambda>m. Inl VenueError),
      binance_ob = (\<lambda>m. Inl VenueError)\<rparr> (''BTC'' @ ''USDT'') = Inl e) \<or>
       (\<exists>ob. coinex_ob \<lparr>nobitex_ob = (\<lambda>m. Inr (PDict [(''bids'', PList [PDict [(''price'', PNum 100)]]),
                                     (''asks'', PList [PDict [(''price'', PNum 102)]])])),
      coinex_ob = (\<lambda>m. Inl VenueError),
      binance_ob = (\<lambda>m. Inl VenueError)\<rparr> (''BTC'' @ ''USDT'') = Inr ob \<and>
          (py_key ob ''bids'' = Inr (PList []) \<or> py_key ob ''asks'' = Inr (PList [])))"
    by simp
  have bin2: "binance_mid \<lparr>nobitex_ob = (\<lambda>m. Inr (PDict [(''bids'', PList [PDict [(''price'', PNum 100)]]),
                                     (''asks'', PList [PDict [(''price'', PNum 102)]])])),
      coinex_ob = (\<lambda>m. Inl VenueError),
      binance_ob = (\<lambda>m. Inr (PDict [(''bids'', PList [PList [PNum 1, PNum 5]]),
                                      (''asks'', PList [PList [PNum 3, PNum 5]])]))\<rparr> ''BTC'' = Inr 2"
    by (simp add: binance_mid_def top_entry_def py_mid_def)
  have bo3: "binance_ob \<lparr>nobitex_ob = (\<lambda>m. Inr (PDict [(''bids'', PList [PDict [(''price'', PNum 100)]]),
                                     (''asks'', PList [PDict [(''price'', PNum 102)]])])),
      coinex_ob = (\<lambda>m. Inl VenueError),
      binance_ob = (\<lambda>m. Inl VenueError)\<rparr> (''BTC'' @ ''/USDT'') = Inl VenueError"
    by simp
  note try2 = live_diff_needs_quotes [THEN conjunct2, THEN conjunct2, THEN conjunct2, THEN conjunct1, rule_format, OF fut2, of "\<lambda>s. None"]
  note try3 = live_diff_needs_quotes [THEN conjunct2, THEN conjunct2, THEN conjunct2, THEN conjunct1, rule_format, OF fut3, of "\<lambda>s. None"]
  note bin3 = live_diff_needs_quotes [THEN conjunct2, THEN conjunct2, THEN conjunct2, THEN conjunct2, THEN conjunct2, THEN conjunct2, THEN conjunct1, rule_format, OF bo3]
  have a: "live_diff_cx (\<lambda>s. None) \<lparr>nobitex_ob = (\<lambda>m. Inr (PDict [(''bids'', PList []),
                                     (''asks'', PList [PDict [(''price'', PNum 102)]])])),
      coinex_ob = (\<lambda>m. Inl VenueError),
      binance_ob = (\<lambda>m. Inl VenueError)\<rparr> ''BTC'' = Inl IndexError \<and>
   live_diff_nb (\<lambda>s. None) \<lparr>nobitex_ob = (\<lambda>m. Inr (PDict [(''bids'', PList []),
                                     (''asks'', PList [PDict [(''price'', PNum 102)]])])),
      coinex_ob = (\<lambda>m. Inl VenueError),
      binance_ob = (\<lambda>m. Inl VenueError)\<rparr> ''BTC'' = Inl IndexError"
    by (rule live_diff_needs_quotes [THEN conjunct2, THEN conjunct1, rule_format, OF h1])
  have b: "live_diff_nb (\<lambda>s. None) \<lparr>nobitex_ob = (\<lambda>m. Inr (PDict [(''bids'', PList [PDict [(''price'', PNum 100)]]),
                                     (''asks'', PList [PDict [(''price'', PNum 102)]])])),
      coinex_ob = (\<lambda>m. Inl VenueError),
      binance_ob = (\<lambda>m. Inr (PDict [(''bids'', PList [PList [PNum 1, PNum 5]]),
                                      (''asks'', PList [PList [PNum 3, PNum 5]])]))\<rparr> ''BTC'' = Inr (202, 101, 101)"
    using live_diff_needs_quotes [THEN conjunct2, THEN conjunct2, THEN conjunct2, THEN conjunct2, THEN conjunct1, rule_format,
        OF conjI [OF spot2(1) conjI [OF spot2(2) conjI [OF try2 bin2]]]]
    by simp
  have c: "\<exists>e. live_diff_cx (\<lambda>s. None) \<lparr>nobitex_ob = (\<lambda>m. Inr (PDict [(''bids'', PList [PDict [(''price'', PNum 100)]]),
                                     (''asks'', PList [PDict [(''price'', PNum 102)]])])),
      coinex_ob = (\<lambda>m. Inl VenueError),
      binance_ob = (\<lambda>m. Inr (PDict [(''bids'', PList [PList [PNum 1, PNum 5]]),
                                      (''asks'', PList [PList [PNum 3, PNum 5]])]))\<rparr> ''BTC'' = Inl e"
    by (rule live_diff_needs_quotes [THEN conjunct2, THEN conjunct2, THEN conjunct1, rule_format, OF fut2])
  have d: "live_diff_nb (\<lambda>s. None) \<lparr>nobitex_ob = (\<lambda>m. Inr (PDict [(''bids'', PList [PDict [(''price'', PNum 100)]]),
                                     (''asks'', PList [PDict [(''price'', PNum 102)]])])),
      coinex_ob = (\<lambda>m. Inl VenueError),
      binance_ob = (\<lambda>m. Inl VenueError)\<rparr> ''BTC'' = Inl VenueError"
    by (rule live_diff_needs_quotes [THEN conjunct2, THEN conjunct2, THEN conjunct2, THEN conjunct2, THEN conjunct2, THEN conjunct1, rule_format,
        OF conjI [OF spot3(1) conjI [OF spot3(2) conjI [OF try3 bin3]]]])
  have feeds: "c_feeds (\<lparr>c_now = 2, c_query = Inl VenueError,
        c_feeds = \<lparr>nobitex_ob = (\<lambda>m. Inr (PDict [(''bids'', PList [PDict [(''price'', PNum 100)]]),
                                     (''asks'', PList [PDict [(''price'', PNum 102)]])])),
      coinex_ob = (\<lambda>m. Inl VenueError),
      binance_ob = (\<lambda>m. Inl VenueError)\<rparr>,
        c_balance = Inr 1,
        c_fs = [''coinex_pos.json'' \<mapsto> Json (PDict [(''BTCUSDT'', PNum 0)])],
        c_book = Inr (PDict [(''bids'', PList [PDict [(''price'', PNum 100)]]),
             (''asks'', PList [PDict [(''price'', PNum 102)]])]),
        c_order = Inr (PDict [(''order'', PDict [(''id'', PNum 7)])]),
        c_parse = Inr ''success'', c_start = 2, c_ticks = []\<rparr>) =
      \<lparr>nobitex_ob = (\<lambda>m. Inr (PDict [(''bids'', PList [PDict [(''price'', PNum 100)]]),
                                     (''asks'', PList [PDict [(''price'', PNum 102)]])])),
      coinex_ob = (\<lambda>m. Inl VenueError),
      binance_ob = (\<lambda>m. Inl VenueError)\<rparr>"
    by simp
  from d have ex: "\<exists>e. live_diff_nb (\<lambda>s. None)
      \<lparr>nobitex_ob = (\<lambda>m. Inr (PDict [(''bids'', PList [PDict [(''price'', PNum 100)]]),
                                     (''asks'', PList [PDict [(''price'', PNum 102)]])])),
      coinex_ob = (\<lambda>m. Inl VenueError),
      binance_ob = (\<lambda>m. Inl VenueError)\<rparr> ''BTC'' = Inl e"
    by blast
  have e: "snd (snd (nb_cycle (\<lambda>x. x) (\<lambda>s. None) (\<lambda>s. None)
      \<lparr>cfg_window_min = 60, cfg_k_sigma = 2, cfg_w_buy = 1 / 2, cfg_w_sell = 1 / 2,
        cfg_timeout_sec = 45, cfg_pos_store_path = ''coinex_pos.json'', cfg_order_qty = 2,
        cfg_l_units = - 10, cfg_u_units = 10, cfg_t_units = 5\<rparr>
      ''BTC'' \<lparr>s_last_stats = 0, s_mean = 0, s_std = 10\<rparr>
      (\<lparr>c_now = 2, c_query = Inl VenueError,
        c_feeds = \<lparr>nobitex_ob = (\<lambda>m. Inr (PDict [(''bids'', PList [PDict [(''price'', PNum 100)]]),
                                     (''asks'', PList [PDict [(''price'', PNum 102)]])])),
      coinex_ob = (\<lambda>m. Inl VenueError),
      binance_ob = (\<lambda>m. Inl VenueError)\<rparr>,
        c_balance = Inr 1,
        c_fs = [''coinex_pos.json'' \<mapsto> Json (PDict [(''BTCUSDT'', PNum 0)])],
        c_book = Inr (PDict [(''bids'', PList [PDict [(''price'', PNum 100)]]),
             (''asks'', PList [PDict [(''price'', PNum 102)]])]),
        c_order = Inr (PDict [(''order'', PDict [(''id'', PNum 7)])]),
        c_parse = Inr ''success'', c_start = 2, c_ticks = []\<rparr>))) = []"
    by (rule live_diff_needs_quotes [THEN conjunct2, THEN conjunct2, THEN conjunct2, THEN conjunct2, THEN conjunct2, THEN conjunct2, THEN conjunct2, THEN conjunct2, THEN conjunct2, THEN conjunct2, rule_format,
        OF conjI [OF feeds ex], THEN conjunct1])
  from a b c d e show ?thesis by blast
qed

text \<open>
  The claim of C8 as stated fails for the maker: with an empty futures book and a
  Binance book with quotes, \<open>live_diff\<close> returns a value.
\<close>

theorem live_diff_nb_empty_futures_counterexample:
  "coinex_ob \<lparr>nobitex_ob = (\<lambda>m. Inr (PDict [(''bids'', PList [PDict [(''price'', PNum 100)]]),
                                               (''asks'', PList [PDict [(''price'', PNum 102)]])])),
               coinex_ob = (\<lambda>m. Inr (PDict [(''bids'', PList []), (''asks'', PList [])])),
               binance_ob = (\<lambda>m. Inr (PDict [(''bids'', PList [PList [PNum 1, PNum 5]]),
                                               (''asks'', PList [PList [PNum 3, PNum 5]])]))\<rparr> ''BTCUSDT''
     = Inr (PDict [(''bids'', PList []), (''asks'', PList [])]) \<and>
   live_diff_nb (\<lambda>s. None)
     \<lparr>nobitex_ob = (\<lambda>m. Inr (PDict [(''bids'', PList [PDict [(''price'', PNum 100)]]),
                                     (''asks'', PList [PDict [(''price'', PNum 102)]])])),
      coinex_ob = (\<lambda>m. Inr (PDict [(''bids'', PList []), (''asks'', PList [])])),
      binance_ob = (\<lambda>m. Inr (PDict [(''bids'', PList [PList [PNum 1, PNum 5]]),
                                     (''asks'', PList [PList [PNum 3, PNum 5]])]))\<rparr> ''BTC''
     = Inr (202, 101, 101)"
  by (simp add: live_diff_nb_def nobitex_mid_def top_price_def coinex_mid_try_def top_entry_def
      binance_mid_def py_mid_def)

section \<open>Properties of the taker fill-or-kill emulation\<close>

text \<open>
  C1, as the code has it. Take a call of \<open>fok_taker\<close> whose rounded quantity \<open>q\<close> is
  positive and whose placement succeeds (the limit order is accepted and an order id is
  read from the answer). If the status query answers and its amounts parse to
  \<open>matched\<close> and \<open>requested\<close> (the venue's \<open>amount\<close>, or \<open>q\<close> where it gives none):
  with \<open>matched >= requested - 1e-12\<close> the call returns true and makes no further
  order call; otherwise it calls cancel, and if the cancel does not raise and
  \<open>matched > 0\<close> it places exactly one market order on the opposite side for exactly
  \<open>matched\<close>, and returns false. If the cancel raises it returns false with no market
  order; if the status query raises or does not parse it returns false with neither a
  cancel nor a market order.
\<close>

theorem fok_taker_outcomes:
  assumes q: "q = max 0 (round_qty qty qty_prec)" "0 < q"
    and limit: "limit = \<lparr>o_market = symbol, o_side = side, o_type = ''limit'', o_amount = q,
                  o_price = Some (round_price price price_prec), o_leverage = leverage\<rparr>"
    and placed: "cx_open_order V limit = Inr resp" "order_id_of il resp = Inr oid"
  shows
    "(\<forall>st matched requested.
        cx_check_order V symbol oid = Inr st \<and> check_amounts fl st q = Inr (matched, requested) \<longrightarrow>
        (matched \<ge> requested - 1 / 10 ^ 12 \<longrightarrow>
           fok_taker fl il V leverage symbol side qty price qty_prec price_prec =
           (True, [OpenOrder limit, CheckOrder symbol oid])) \<and>
        (matched < requested - 1 / 10 ^ 12 \<longrightarrow>
           (\<forall>c. cx_cancel_order V symbol oid = Inr c \<longrightarrow>
              fok_taker fl il V leverage symbol side qty price qty_prec price_prec =
              (False, [OpenOrder limit, CheckOrder symbol oid, CancelOrder symbol oid] @
                 (if matched > 0
                  then [OpenOrder \<lparr>o_market = symbol, o_side = rev_side side, o_type = ''market'',
                          o_amount = matched, o_price = None, o_leverage = leverage\<rparr>]
                  else []))) \<and>
           (\<forall>e. cx_cancel_order V symbol oid = Inl e \<longrightarrow>
              fok_taker fl il V leverage symbol side qty price qty_prec price_prec =
              (False, [OpenOrder limit, CheckOrder symbol oid, CancelOrder symbol oid])))) \<and>
     ((\<exists>e. cx_check_order V symbol oid = Inl e) \<or>
      (\<exists>st e. cx_check_order V symbol oid = Inr st \<and> check_amounts fl st q = Inl e) \<longrightarrow>
        fok_taker fl il V leverage symbol side qty price qty_prec price_prec =
        (False, [OpenOrder limit, CheckOrder symbol oid])) \<and>
     rev_side ''buy'' = ''sell'' \<and> rev_side ''sell'' = ''buy''"
proof -
  from q have nq: "\<not> max 0 (round_qty qty qty_prec) \<le> 0" by simp
  have unfold: "fok_taker fl il V leverage symbol side qty price qty_prec price_prec =
     (case (case cx_check_order V symbol oid of
              Inl e \<Rightarrow> Inl e
            | Inr st \<Rightarrow> check_amounts fl st q) of
        Inl e \<Rightarrow> (False, [OpenOrder limit, CheckOrder symbol oid])
      | Inr (matched, requested) \<Rightarrow>
          if matched \<ge> requested - 1 / 10 ^ 12 then
            (True, [OpenOrder limit, CheckOrder symbol oid])
          else
            (case cx_cancel_order V symbol oid of
               Inl e \<Rightarrow> (False, [OpenOrder limit, CheckOrder symbol oid, CancelOrder symbol oid])
             | Inr c \<Rightarrow>
                 if matched > 0 then
                   (False, [OpenOrder limit, CheckOrder symbol oid, CancelOrder symbol oid,
                            OpenOrder \<lparr>o_market = symbol, o_side = rev_side side,
                              o_type = ''market'', o_amount = matched,
                              o_price = None, o_leverage = leverage\<rparr>])
                 else (False, [OpenOrder limit, CheckOrder symbol oid, CancelOrder symbol oid])))"
    using nq placed
    unfolding fok_taker_def Let_def q(1) [symmetric] limit [symmetric]
    by (simp add: q(1) [symmetric])
  show ?thesis
    unfolding unfold
    by (auto simp: rev_side_def)
qed


text \<open>
  The two examples of the specification: \<open>10\<close> requested and \<open>10\<close> matched returns
  true after the placement and the status query; \<open>10\<close> requested and \<open>4\<close> matched
  returns false after a cancel and one market sell of \<open>4\<close>.
\<close>

theorem fok_taker_outcomes_witness:
  "fok_taker (\<lambda>s. None) (\<lambda>s. None)
      \<lparr>cx_open_order = (\<lambda>r. Inr (PDict [(''order_id'', PNum 7)])),
        cx_check_order = (\<lambda>s i. Inr (PDict [(''amount_filled'', PNum 10), (''amount'', PNum 10)])),
        cx_cancel_order = (\<lambda>s i. Inr PNone)\<rparr>
      ''1'' ''BTCUSDT'' ''buy'' 10 100 0 2 =
     (True, [OpenOrder \<lparr>o_market = ''BTCUSDT'', o_side = ''buy'', o_type = ''limit'', o_amount = 10,
          o_price = Some 100, o_leverage = ''1''\<rparr>, CheckOrder ''BTCUSDT'' 7]) \<and>
   fok_taker (\<lambda>s. None) (\<lambda>s. None)
      \<lparr>cx_open_order = (\<lambda>r. Inr (PDict [(''order_id'', PNum 7)])),
        cx_check_order = (\<lambda>s i. Inr (PDict [(''amount_filled'', PNum 4), (''amount'', PNum 10)])),
        cx_cancel_order = (\<lambda>s i. Inr PNone)\<rparr>
      ''1'' ''BTCUSDT'' ''buy'' 10 100 0 2 =
     (False, [OpenOrder \<lparr>o_market = ''BTCUSDT'', o_side = ''buy'', o_type = ''limit'', o_amount = 10,
          o_price = Some 100, o_leverage = ''1''\<rparr>, CheckOrder ''BTCUSDT'' 7, CancelOrder ''BTCUSDT'' 7,
        OpenOrder \<lparr>o_market = ''BTCUSDT'', o_side = ''sell'', o_type = ''market'', o_amount = 4,
          o_price = None, o_leverage = ''1''\<rparr>])"
proof -
  have q: "(10::real) = max 0 (round_qty 10 0)" "(0::real) < 10"
    by (simp_all add: round_qty_def)
  have limit: "\<lparr>o_market = ''BTCUSDT'', o_side = ''buy'', o_type = ''limit'', o_amount = 10,
          o_price = Some 100, o_leverage = ''1''\<rparr> =
        \<lparr>o_market = ''BTCUSDT'', o_side = ''buy'', o_type = ''limit'', o_amount = 10,
          o_price = Some (round_price 100 2), o_leverage = ''1''\<rparr>"
    by (simp add: round_price_def pow10_def)
  have oid: "order_id_of (\<lambda>s. None) (PDict [(''order_id'', PNum 7)]) = Inr 7"
    by (simp add: order_id_of_def py_or_def)
  have full: "check_amounts (\<lambda>s. None) (PDict [(''amount_filled'', PNum 10), (''amount'', PNum 10)]) 10
        = Inr (10, 10)"
    by (simp add: check_amounts_def py_or_def)
  have part: "check_amounts (\<lambda>s. None) (PDict [(''amount_filled'', PNum 4), (''amount'', PNum 10)]) 10
        = Inr (4, 10)"
    by (simp add: check_amounts_def py_or_def)
  have p1: "cx_open_order \<lparr>cx_open_order = (\<lambda>r. Inr (PDict [(''order_id'', PNum 7)])),
        cx_check_order = (\<lambda>s i. Inr (PDict [(''amount_filled'', PNum 10), (''amount'', PNum 10)])),
        cx_cancel_order = (\<lambda>s i. Inr PNone)\<rparr>
        \<lparr>o_market = ''BTCUSDT'', o_side = ''buy'', o_type = ''limit'', o_amount = 10,
          o_price = Some 100, o_leverage = ''1''\<rparr> = Inr (PDict [(''order_id'', PNum 7)])"
    by simp
  have c1: "cx_check_order \<lparr>cx_open_order = (\<lambda>r. Inr (PDict [(''order_id'', PNum 7)])),
        cx_check_order = (\<lambda>s i. Inr (PDict [(''amount_filled'', PNum 10), (''amount'', PNum 10)])),
        cx_cancel_order = (\<lambda>s i. Inr PNone)\<rparr> ''BTCUSDT'' 7 =
        Inr (PDict [(''amount_filled'', PNum 10), (''amount'', PNum 10)])"
    by simp
  have p2: "cx_open_order \<lparr>cx_open_order = (\<lambda>r. Inr (PDict [(''order_id'', PNum 7)])),
        cx_check_order = (\<lambda>s i. Inr (PDict [(''amount_filled'', PNum 4), (''amount'', PNum 10)])),
        cx_cancel_order = (\<lambda>s i. Inr PNone)\<rparr>
        \<lparr>o_market = ''BTCUSDT'', o_side = ''buy'', o_type = ''limit'', o_amount = 10,
          o_price = Some 100, o_leverage = ''1''\<rparr> = Inr (PDict [(''order_id'', PNum 7)])"
    by simp
  have c2: "cx_check_order \<lparr>cx_open_order = (\<lambda>r. Inr (PDict [(''order_id'', PNum 7)])),
        cx_check_order = (\<lambda>s i. Inr (PDict [(''amount_filled'', PNum 4), (''amount'', PNum 10)])),
        cx_cancel_order = (\<lambda>s i. Inr PNone)\<rparr> ''BTCUSDT'' 7 =
        Inr (PDict [(''amount_filled'', PNum 4), (''amount'', PNum 10)])"
    by simp
  have x2: "cx_cancel_order \<lparr>cx_open_order = (\<lambda>r. Inr (PDict [(''order_id'', PNum 7)])),
        cx_check_order = (\<lambda>s i. Inr (PDict [(''amount_filled'', PNum 4), (''amount'', PNum 10)])),
        cx_cancel_order = (\<lambda>s i. Inr PNone)\<rparr> ''BTCUSDT'' 7 = Inr PNone"
    by simp
  have a: "fok_taker (\<lambda>s. None) (\<lambda>s. None)
      \<lparr>cx_open_order = (\<lambda>r. Inr (PDict [(''order_id'', PNum 7)])),
        cx_check_order = (\<lambda>s i. Inr (PDict [(''amount_filled'', PNum 10), (''amount'', PNum 10)])),
        cx_cancel_order = (\<lambda>s i. Inr PNone)\<rparr>
      ''1'' ''BTCUSDT'' ''buy'' 10 100 0 2 =
     (True, [OpenOrder \<lparr>o_market = ''BTCUSDT'', o_side = ''buy'', o_type = ''limit'', o_amount = 10,
          o_price = Some 100, o_leverage = ''1''\<rparr>, CheckOrder ''BTCUSDT'' 7])"
    using fok_taker_outcomes [OF q limit p1 oid, THEN conjunct1, rule_format,
        OF conjI [OF c1 full], THEN conjunct1]
    by simp
  have b: "fok_taker (\<lambda>s. None) (\<lambda>s. None)
      \<lparr>cx_open_order = (\<lambda>r. Inr (PDict [(''order_id'', PNum 7)])),
        cx_check_order = (\<lambda>s i. Inr (PDict [(''amount_filled'', PNum 4), (''amount'', PNum 10)])),
        cx_cancel_order = (\<lambda>s i. Inr PNone)\<rparr>
      ''1'' ''BTCUSDT'' ''buy'' 10 100 0 2 =
     (False, [OpenOrder \<lparr>o_market = ''BTCUSDT'', o_side = ''buy'', o_type = ''limit'', o_amount = 10,
          o_price = Some 100, o_leverage = ''1''\<rparr>, CheckOrder ''BTCUSDT'' 7, CancelOrder ''BTCUSDT'' 7,
        OpenOrder \<lparr>o_market = ''BTCUSDT'', o_side = ''sell'', o_type = ''market'', o_amount = 4,
          o_price = None, o_leverage = ''1''\<rparr>])"
    using fok_taker_outcomes [OF q limit p2 oid, THEN conjunct1, rule_format,
        OF conjI [OF c2 part], THEN conjunct2, rule_format, THEN conjunct1, rule_format, OF _ x2]
    by (simp add: rev_side_def)
  from a b show ?thesis by blast
qed

text \<open>
  The claim of C1 as stated fails: with \<open>4\<close> of \<open>10\<close> matched and a cancel that
  raises, no market order is placed; with a status query that raises, the order is not
  even cancelled.
\<close>

theorem fok_taker_failed_cancel_counterexample:
  "fok_taker (\<lambda>s. None) (\<lambda>s. None)
      \<lparr>cx_open_order = (\<lambda>r. Inr (PDict [(''order_id'', PNum 7)])),
        cx_check_order = (\<lambda>s i. Inr (PDict [(''amount_filled'', PNum 4), (''amount'', PNum 10)])),
        cx_cancel_order = (\<lambda>s i. Inl VenueError)\<rparr>
      ''1'' ''BTCUSDT'' ''buy'' 10 100 0 2 =
     (False, [OpenOrder \<lparr>o_market = ''BTCUSDT'', o_side = ''buy'', o_type = ''limit'', o_amount = 10,
          o_price = Some 100, o_leverage = ''1''\<rparr>, CheckOrder ''BTCUSDT'' 7, CancelOrder ''BTCUSDT'' 7]) \<and>
   fok_taker (\<lambda>s. None) (\<lambda>s. None)
      \<lparr>cx_open_order = (\<lambda>r. Inr (PDict [(''order_id'', PNum 7)])),
        cx_check_order = (\<lambda>s i. Inl VenueError),
        cx_cancel_order = (\<lambda>s i. Inr PNone)\<rparr>
      ''1'' ''BTCUSDT'' ''buy'' 10 100 0 2 =
     (False, [OpenOrder \<lparr>o_market = ''BTCUSDT'', o_side = ''buy'', o_type = ''limit'', o_amount = 10,
          o_price = Some 100, o_leverage = ''1''\<rparr>, CheckOrder ''BTCUSDT'' 7])"
  by (simp add: fok_taker_def round_qty_def round_price_def pow10_def order_id_of_def
      check_amounts_def py_or_def)

section \<open>Properties of the maker-order tracker\<close>

lemma cancel_and_return_ok:
  "t_cancel T = Inr c \<Longrightarrow>
   cancel_and_return order_id T cs outcome matched order_price =
   (Inr (Some (outcome, matched, matched * order_price)), cs @ [NbCancelOrder order_id])"
  by (simp add: cancel_and_return_def)

lemma track_tick_polled:
  assumes "t_book T = Inr ob" "top_price ob ''bids'' = Inr best_bid"
    "top_price ob ''asks'' = Inr best_ask" "t_check T = Inr checked"
    "poll_order dl side best_bid best_ask checked = Inr (info, status, matched, order_price)"
  shows "track_tick dl fl order_id side timeout mean std k coin start T =
     (if is_filled status info then
        (Inr (Some (''FILLED'', matched, matched * order_price)), [NbCheckOrder order_id])
      else
        (case not_best side order_price best_bid best_ask of
           Inl e \<Rightarrow> (Inl e, [NbCheckOrder order_id])
         | Inr True \<Rightarrow>
             cancel_and_return order_id T [NbCheckOrder order_id] ''NOT_BEST'' matched order_price
         | Inr False \<Rightarrow>
             (case live_diff_nb fl (t_feeds T) coin of
                Inl e \<Rightarrow> (Inl e, [NbCheckOrder order_id])
              | Inr (x, y, z) \<Rightarrow>
                  if in_band mean std k z then
                    cancel_and_return order_id T [NbCheckOrder order_id] ''NO_SIGNAL'' matched order_price
                  else if t_clock T - start > timeout then
                    cancel_and_return order_id T [NbCheckOrder order_id] ''TIMEOUT'' matched order_price
                  else (Inr None, [NbCheckOrder order_id]))))"
  using assms by (simp add: track_tick_def)

lemma track_tick_outcome:
  assumes "track_tick dl fl order_id side timeout mean std k coin start T = (Inr (Some (outcome, m, n)), cs)"
  shows "outcome \<in> {''FILLED'', ''NOT_BEST'', ''NO_SIGNAL'', ''TIMEOUT''}"
  using assms
  by (auto simp: track_tick_def cancel_and_return_def
      split: sum.splits prod.splits if_splits bool.splits)

lemma track_outcome:
  "track_and_cancel dl fl order_id side timeout mean std k coin start Ts = (Some (Inr (outcome, m, n)), cs)
   \<Longrightarrow> outcome \<in> {''FILLED'', ''NOT_BEST'', ''NO_SIGNAL'', ''TIMEOUT''}"
proof (induction Ts arbitrary: cs)
  case Nil
  then show ?case by simp
next
  case (Cons T Ts)
  obtain r c where rc: "track_tick dl fl order_id side timeout mean std k coin start T = (r, c)"
    by (cases "track_tick dl fl order_id side timeout mean std k coin start T")
  show ?case
  proof (cases r)
    case (Inl e)
    with Cons.prems rc show ?thesis by simp
  next
    case (Inr v)
    show ?thesis
    proof (cases v)
      case None
      obtain r' c' where rc': "track_and_cancel dl fl order_id side timeout mean std k coin start Ts = (r', c')"
        by (cases "track_and_cancel dl fl order_id side timeout mean std k coin start Ts")
      with Cons.prems rc Inr None have "r' = Some (Inr (outcome, m, n))" by simp
      with rc' Cons.IH show ?thesis by blast
    next
      case (Some res)
      with Cons.prems rc Inr have "res = (outcome, m, n)" by simp
      with rc Inr Some show ?thesis using track_tick_outcome by blast
    qed
  qed
qed

lemma track_stops:
  "track_and_cancel dl fl order_id side timeout mean std k coin start Ts = (Some r, cs)
   \<Longrightarrow> track_and_cancel dl fl order_id side timeout mean std k coin start (Ts @ Us) = (Some r, cs)"
proof (induction Ts arbitrary: cs)
  case Nil
  then show ?case by simp
next
  case (Cons T Ts)
  obtain r0 c0 where rc: "track_tick dl fl order_id side timeout mean std k coin start T = (r0, c0)"
    by (cases "track_tick dl fl order_id side timeout mean std k coin start T")
  show ?case
  proof (cases r0)
    case (Inl e)
    with Cons.prems rc show ?thesis by simp
  next
    case (Inr v)
    show ?thesis
    proof (cases v)
      case None
      obtain r' c' where rc': "track_and_cancel dl fl order_id side timeout mean std k coin start Ts = (r', c')"
        by (cases "track_and_cancel dl fl order_id side timeout mean std k coin start Ts")
      with Cons.prems rc Inr None have "r' = Some r" "cs = c0 @ c'" by simp_all
      with rc' Cons.IH [of c'] rc Inr None show ?thesis by simp
    next
      case (Some res)
      with Cons.prems rc Inr show ?thesis by simp
    qed
  qed
qed


text \<open>
  C3. In a round in which the order book and the order status have been read, the four
  terminating checks are decided in the order fill, best price, signal, timeout: a
  filled order returns \<open>FILLED\<close> whatever the later checks would say; an unfilled
  order that is no longer best is cancelled and returns \<open>NOT_BEST\<close> whatever the signal
  and the clock say; an unfilled best order whose signal is inside the band is cancelled
  and returns \<open>NO_SIGNAL\<close> whatever the clock says; \<open>TIMEOUT\<close> is returned only when
  the other three checks fail; and when all four fail the loop goes on to the next
  round. These four are the only outcomes the tracker returns, and a tracker that has
  returned after some rounds is not affected by any later round.
\<close>

theorem track_priority:
  assumes "t_book T = Inr ob" "top_price ob ''bids'' = Inr best_bid"
    "top_price ob ''asks'' = Inr best_ask" "t_check T = Inr checked"
    "poll_order dl side best_bid best_ask checked = Inr (info, status, matched, order_price)"
  shows
    "(is_filled status info \<longrightarrow>
        track_and_cancel dl fl order_id side timeout mean std k coin start (T # Ts) =
        (Some (Inr (''FILLED'', matched, matched * order_price)), [NbCheckOrder order_id])) \<and>
     (\<forall>c. \<not> is_filled status info \<and> not_best side order_price best_bid best_ask = Inr True \<and>
          t_cancel T = Inr c \<longrightarrow>
        track_and_cancel dl fl order_id side timeout mean std k coin start (T # Ts) =
        (Some (Inr (''NOT_BEST'', matched, matched * order_price)),
         [NbCheckOrder order_id, NbCancelOrder order_id])) \<and>
     (\<forall>c x y z. \<not> is_filled status info \<and> not_best side order_price best_bid best_ask = Inr False \<and>
          live_diff_nb fl (t_feeds T) coin = Inr (x, y, z) \<and> in_band mean std k z \<and>
          t_cancel T = Inr c \<longrightarrow>
        track_and_cancel dl fl order_id side timeout mean std k coin start (T # Ts) =
        (Some (Inr (''NO_SIGNAL'', matched, matched * order_price)),
         [NbCheckOrder order_id, NbCancelOrder order_id])) \<and>
     (\<forall>c x y z. \<not> is_filled status info \<and> not_best side order_price best_bid best_ask = Inr False \<and>
          live_diff_nb fl (t_feeds T) coin = Inr (x, y, z) \<and> \<not> in_band mean std k z \<and>
          t_clock T - start > timeout \<and> t_cancel T = Inr c \<longrightarrow>
        track_and_cancel dl fl order_id side timeout mean std k coin start (T # Ts) =
        (Some (Inr (''TIMEOUT'', matched, matched * order_price)),
         [NbCheckOrder order_id, NbCancelOrder order_id])) \<and>
     (\<forall>x y z. \<not> is_filled status info \<and> not_best side order_price best_bid best_ask = Inr False \<and>
          live_diff_nb fl (t_feeds T) coin = Inr (x, y, z) \<and> \<not> in_band mean std k z \<and>
          \<not> t_clock T - start > timeout \<longrightarrow>
        track_and_cancel dl fl order_id side timeout mean std k coin start (T # Ts) =
        (fst (track_and_cancel dl fl order_id side timeout mean std k coin start Ts),
         NbCheckOrder order_id #
         snd (track_and_cancel dl fl order_id side timeout mean std k coin start Ts))) \<and>
     (\<forall>Us outcome m n cs.
        track_and_cancel dl fl order_id side timeout mean std k coin start Us =
          (Some (Inr (outcome, m, n)), cs) \<longrightarrow>
        outcome \<in> {''FILLED'', ''NOT_BEST'', ''NO_SIGNAL'', ''TIMEOUT''}) \<and>
     (\<forall>Us Vs r cs.
        track_and_cancel dl fl order_id side timeout mean std k coin start Us = (Some r, cs) \<longrightarrow>
        track_and_cancel dl fl order_id side timeout mean std k coin start (Us @ Vs) = (Some r, cs))"
proof -
  note tick = track_tick_polled [OF assms, of fl order_id timeout mean std k coin start]
  show ?thesis
  proof (intro conjI allI impI)
    assume "is_filled status info"
    then show "track_and_cancel dl fl order_id side timeout mean std k coin start (T # Ts) =
        (Some (Inr (''FILLED'', matched, matched * order_price)), [NbCheckOrder order_id])"
      by (simp add: tick)
  next
    fix c
    assume "\<not> is_filled status info \<and> not_best side order_price best_bid best_ask = Inr True \<and>
          t_cancel T = Inr c"
    then show "track_and_cancel dl fl order_id side timeout mean std k coin start (T # Ts) =
        (Some (Inr (''NOT_BEST'', matched, matched * order_price)),
         [NbCheckOrder order_id, NbCancelOrder order_id])"
      by (simp add: tick cancel_and_return_ok)
  next
    fix c x y z
    assume "\<not> is_filled status info \<and> not_best side order_price best_bid best_ask = Inr False \<and>
          live_diff_nb fl (t_feeds T) coin = Inr (x, y, z) \<and> in_band mean std k z \<and>
          t_cancel T = Inr c"
    then show "track_and_cancel dl fl order_id side timeout mean std k coin start (T # Ts) =
        (Some (Inr (''NO_SIGNAL'', matched, matched * order_price)),
         [NbCheckOrder order_id, NbCancelOrder order_id])"
      by (simp add: tick cancel_and_return_ok)
  next
    fix c x y z
    assume "\<not> is_filled status info \<and> not_best side order_price best_bid best_ask = Inr False \<and>
          live_diff_nb fl (t_feeds T) coin = Inr (x, y, z) \<and> \<not> in_band mean std k z \<and>
          t_clock T - start > timeout \<and> t_cancel T = Inr c"
    then show "track_and_cancel dl fl order_id side timeout mean std k coin start (T # Ts) =
        (Some (Inr (''TIMEOUT'', matched, matched * order_price)),
         [NbCheckOrder order_id, NbCancelOrder order_id])"
      by (simp add: tick cancel_and_return_ok)
  next
    fix x y z
    assume "\<not> is_filled status info \<and> not_best side order_price best_bid best_ask = Inr False \<and>
          live_diff_nb fl (t_feeds T) coin = Inr (x, y, z) \<and> \<not> in_band mean std k z \<and>
          \<not> t_clock T - start > timeout"
    then show "track_and_cancel dl fl order_id side timeout mean std k coin start (T # Ts) =
        (fst (track_and_cancel dl fl order_id side timeout mean std k coin start Ts),
         NbCheckOrder order_id #
         snd (track_and_cancel dl fl order_id side timeout mean std k coin start Ts))"
      by (simp add: tick split: prod.split)
  next
    fix Us outcome m n cs
    assume "track_and_cancel dl fl order_id side timeout mean std k coin start Us =
          (Some (Inr (outcome, m, n)), cs)"
    then show "outcome \<in> {''FILLED'', ''NOT_BEST'', ''NO_SIGNAL'', ''TIMEOUT''}"
      by (rule track_outcome)
  next
    fix Us Vs r cs
    assume "track_and_cancel dl fl order_id side timeout mean std k coin start Us = (Some r, cs)"
    then show "track_and_cancel dl fl order_id side timeout mean std k coin start (Us @ Vs) = (Some r, cs)"
      by (rule track_stops)
  qed
qed


text \<open>
  C3 on concrete rounds of a buy order tracked with band \<open>(80, 120)\<close>, live
  difference \<open>101\<close> and \<open>100\<close> seconds elapsed of \<open>45\<close>: when the order is filled,
  below the best bid, inside the band and timed out at once, the outcome is
  \<open>FILLED\<close>; unfilled, it is \<open>NOT_BEST\<close>; at the best bid, \<open>NO_SIGNAL\<close>; and with
  the band moved to \<open>(980, 1020)\<close>, \<open>TIMEOUT\<close>.
\<close>

theorem track_priority_witness:
  "is_filled ''done'' (PDict [(''status'', PStr ''Done''), (''matchedAmount'', PNum 3),
             (''Price'', PNum 99), (''unmatchedAmount'', PNum 0)]) \<and>
   not_best ''buy'' 99 (PNum 100) (PNum 102) = Inr True \<and>
   in_band 100 10 2 101 \<and> (100::real) - 0 > 45 \<and>
   track_and_cancel (\<lambda>s. None) (\<lambda>s. None) (PNum 7) ''buy'' 45 100 10 2 ''BTC'' 0
      [\<lparr>t_book = Inr (PDict [(''bids'', PList [PDict [(''price'', PNum 100)]]),
             (''asks'', PList [PDict [(''price'', PNum 102)]])]),
        t_check = Inr (PDict [(''order'', PDict [(''status'', PStr ''Done''), (''matchedAmount'', PNum 3),
             (''Price'', PNum 99), (''unmatchedAmount'', PNum 0)])]),
        t_cancel = Inr PNone,
        t_feeds = \<lparr>nobitex_ob = (\<lambda>m. Inr (PDict [(''bids'', PList [PDict [(''price'', PNum 100)]]),
                                          (''asks'', PList [PDict [(''price'', PNum 102)]])])),
           coinex_ob = (\<lambda>m. Inr (PDict [(''bids'', PList [PList [PNum 1, PNum 5]]),
                                          (''asks'', PList [PList [PNum 3, PNum 5]])])),
           binance_ob = (\<lambda>m. Inl VenueError)\<rparr>,
        t_clock = 100\<rparr>] =
     (Some (Inr (''FILLED'', 3, 297)), [NbCheckOrder (PNum 7)]) \<and>
   track_and_cancel (\<lambda>s. None) (\<lambda>s. None) (PNum 7) ''buy'' 45 100 10 2 ''BTC'' 0
      [\<lparr>t_book = Inr (PDict [(''bids'', PList [PDict [(''price'', PNum 100)]]),
             (''asks'', PList [PDict [(''price'', PNum 102)]])]),
        t_check = Inr (PDict [(''order'', PDict [(''status'', PStr ''Active''), (''matchedAmount'', PNum 3),
             (''Price'', PNum 99), (''unmatchedAmount'', PNum 2)])]),
        t_cancel = Inr PNone,
        t_feeds = \<lparr>nobitex_ob = (\<lambda>m. Inr (PDict [(''bids'', PList [PDict [(''price'', PNum 100)]]),
                                          (''asks'', PList [PDict [(''price'', PNum 102)]])])),
           coinex_ob = (\<lambda>m. Inr (PDict [(''bids'', PList [PList [PNum 1, PNum 5]]),
                                          (''asks'', PList [PList [PNum 3, PNum 5]])])),
           binance_ob = (\<lambda>m. Inl VenueError)\<rparr>,
        t_clock = 100\<rparr>] =
     (Some (Inr (''NOT_BEST'', 3, 297)), [NbCheckOrder (PNum 7), NbCancelOrder (PNum 7)]) \<and>
   track_and_cancel (\<lambda>s. None) (\<lambda>s. None) (PNum 7) ''buy'' 45 100 10 2 ''BTC'' 0
      [\<lparr>t_book = Inr (PDict [(''bids'', PList [PDict [(''price'', PNum 100)]]),
             (''asks'', PList [PDict [(''price'', PNum 102)]])]),
        t_check = Inr (PDict [(''order'', PDict [(''status'', PStr ''Active''), (''matchedAmount'', PNum 3),
             (''Price'', PNum 100), (''unmatchedAmount'', PNum 2)])]),
        t_cancel = Inr PNone,
        t_feeds = \<lparr>nobitex_ob = (\<lambda>m. Inr (PDict [(''bids'', PList [PDict [(''price'', PNum 100)]]),
                                          (''asks'', PList [PDict [(''price'', PNum 102)]])])),
           coinex_ob = (\<lambda>m. Inr (PDict [(''bids'', PList [PList [PNum 1, PNum 5]]),
                                          (''asks'', PList [PList [PNum 3, PNum 5]])])),
           binance_ob = (\<lambda>m. Inl VenueError)\<rparr>,
        t_clock = 100\<rparr>] =
     (Some (Inr (''NO_SIGNAL'', 3, 300)), [NbCheckOrder (PNum 7), NbCancelOrder (PNum 7)]) \<and>
   track_and_cancel (\<lambda>s. None) (\<lambda>s. None) (PNum 7) ''buy'' 45 1000 10 2 ''BTC'' 0
      [\<lparr>t_book = Inr (PDict [(''bids'', PList [PDict [(''price'', PNum 100)]]),
             (''asks'', PList [PDict [(''price'', PNum 102)]])]),
        t_check = Inr (PDict [(''order'', PDict [(''status'', PStr ''Active''), (''matchedAmount'', PNum 3),
             (''Price'', PNum 100), (''unmatchedAmount'', PNum 2)])]),
        t_cancel = Inr PNone,
        t_feeds = \<lparr>nobitex_ob = (\<lambda>m. Inr (PDict [(''bids'', PList [PDict [(''price'', PNum 100)]]),
                                          (''asks'', PList [PDict [(''price'', PNum 102)]])])),
           coinex_ob = (\<lambda>m. Inr (PDict [(''bids'', PList [PList [PNum 1, PNum 5]]),
                                          (''asks'', PList [PList [PNum 3, PNum 5]])])),
           binance_ob = (\<lambda>m. Inl VenueError)\<rparr>,
        t_clock = 100\<rparr>] =
     (Some (Inr (''TIMEOUT'', 3, 300)), [NbCheckOrder (PNum 7), NbCancelOrder (PNum 7)])"
proof -
  have low: "str_lower ''Done'' = ''done''" "str_lower ''Active'' = ''active''"
    by (simp_all add: str_lower_def lower_char_def)
  have tp: "top_price (PDict [(''bids'', PList [PDict [(''price'', PNum 100)]]),
             (''asks'', PList [PDict [(''price'', PNum 102)]])]) ''bids'' = Inr (PNum 100)"
    "top_price (PDict [(''bids'', PList [PDict [(''price'', PNum 100)]]),
             (''asks'', PList [PDict [(''price'', PNum 102)]])]) ''asks'' = Inr (PNum 102)"
    by (simp_all add: top_price_def)
  have p0: "poll_order (\<lambda>s. None) ''buy'' (PNum 100) (PNum 102)
        (PDict [(''order'', PDict [(''status'', PStr ''Done''), (''matchedAmount'', PNum 3),
             (''Price'', PNum 99), (''unmatchedAmount'', PNum 0)])]) =
        Inr (PDict [(''status'', PStr ''Done''), (''matchedAmount'', PNum 3),
             (''Price'', PNum 99), (''unmatchedAmount'', PNum 0)], ''done'', 3, 99)"
    by (simp add: poll_order_def low)
  have p1: "poll_order (\<lambda>s. None) ''buy'' (PNum 100) (PNum 102)
        (PDict [(''order'', PDict [(''status'', PStr ''Active''), (''matchedAmount'', PNum 3),
             (''Price'', PNum 99), (''unmatchedAmount'', PNum 2)])]) =
        Inr (PDict [(''status'', PStr ''Active''), (''matchedAmount'', PNum 3),
             (''Price'', PNum 99), (''unmatchedAmount'', PNum 2)], ''active'', 3, 99)"
    by (simp add: poll_order_def low)
  have p2: "poll_order (\<lambda>s. None) ''buy'' (PNum 100) (PNum 102)
        (PDict [(''order'', PDict [(''status'', PStr ''Active''), (''matchedAmount'', PNum 3),
             (''Price'', PNum 100), (''unmatchedAmount'', PNum 2)])]) =
        Inr (PDict [(''status'', PStr ''Active''), (''matchedAmount'', PNum 3),
             (''Price'', PNum 100), (''unmatchedAmount'', PNum 2)], ''active'', 3, 100)"
    by (simp add: poll_order_def low)
  have f0: "is_filled ''done'' (PDict [(''status'', PStr ''Done''), (''matchedAmount'', PNum 3),
             (''Price'', PNum 99), (''unmatchedAmount'', PNum 0)])"
    by (simp add: is_filled_def)
  have f1: "\<not> is_filled ''active'' (PDict [(''status'', PStr ''Active''), (''matchedAmount'', PNum 3),
             (''Price'', PNum 99), (''unmatchedAmount'', PNum 2)])"
    by (simp add: is_filled_def)
  have f2: "\<not> is_filled ''active'' (PDict [(''status'', PStr ''Active''), (''matchedAmount'', PNum 3),
             (''Price'', PNum 100), (''unmatchedAmount'', PNum 2)])"
    by (simp add: is_filled_def)
  have nb1: "not_best ''buy'' 99 (PNum 100) (PNum 102) = Inr True"
    by (simp add: not_best_def py_less_def)
  have nb2: "not_best ''buy'' 100 (PNum 100) (PNum 102) = Inr False"
    by (simp add: not_best_def py_less_def)
  have ld: "live_diff_nb (\<lambda>s. None) (\<lparr>nobitex_ob = (\<lambda>m. Inr (PDict [(''bids'', PList [PDict [(''price'', PNum 100)]]),
                                          (''asks'', PList [PDict [(''price'', PNum 102)]])])),
           coinex_ob = (\<lambda>m. Inr (PDict [(''bids'', PList [PList [PNum 1, PNum 5]]),
                                          (''asks'', PList [PList [PNum 3, PNum 5]])])),
           binance_ob = (\<lambda>m. Inl VenueError)\<rparr>) ''BTC'' = Inr (202, 101, 101)"
    by (simp add: live_diff_nb_def nobitex_mid_def top_price_def coinex_mid_try_def
        top_entry_def py_mid_def)
  have band: "in_band 100 10 2 101" "\<not> in_band 1000 10 2 101"
    by (simp_all add: in_band_def)
  have late: "(100::real) - 0 > 45"
    by simp
  have b0: "t_book (\<lparr>t_book = Inr (PDict [(''bids'', PList [PDict [(''price'', PNum 100)]]),
             (''asks'', PList [PDict [(''price'', PNum 102)]])]),
        t_check = Inr (PDict [(''order'', PDict [(''status'', PStr ''Done''), (''matchedAmount'', PNum 3),
             (''Price'', PNum 99), (''unmatchedAmount'', PNum 0)])]),
        t_cancel = Inr PNone,
        t_feeds = \<lparr>nobitex_ob = (\<lambda>m. Inr (PDict [(''bids'', PList [PDict [(''price'', PNum 100)]]),
                                          (''asks'', PList [PDict [(''price'', PNum 102)]])])),
           coinex_ob = (\<lambda>m. Inr (PDict [(''bids'', PList [PList [PNum 1, PNum 5]]),
                                          (''asks'', PList [PList [PNum 3, PNum 5]])])),
           binance_ob = (\<lambda>m. Inl VenueError)\<rparr>,
        t_clock = 100\<rparr>) = Inr (PDict [(''bids'', PList [PDict [(''price'', PNum 100)]]),
             (''asks'', PList [PDict [(''price'', PNum 102)]])])"
    by simp
  have c0: "t_check (\<lparr>t_book = Inr (PDict [(''bids'', PList [PDict [(''price'', PNum 100)]]),
             (''asks'', PList [PDict [(''price'', PNum 102)]])]),
        t_check = Inr (PDict [(''order'', PDict [(''status'', PStr ''Done''), (''matchedAmount'', PNum 3),
             (''Price'', PNum 99), (''unmatchedAmount'', PNum 0)])]),
        t_cancel = Inr PNone,
        t_feeds = \<lparr>nobitex_ob = (\<lambda>m. Inr (PDict [(''bids'', PList [PDict [(''price'', PNum 100)]]),
                                          (''asks'', PList [PDict [(''price'', PNum 102)]])])),
           coinex_ob = (\<lambda>m. Inr (PDict [(''bids'', PList [PList [PNum 1, PNum 5]]),
                                          (''asks'', PList [PList [PNum 3, PNum 5]])])),
           binance_ob = (\<lambda>m. Inl VenueError)\<rparr>,
        t_clock = 100\<rparr>) = Inr (PDict [(''order'', PDict [(''status'', PStr ''Done''), (''matchedAmount'', PNum 3),
             (''Price'', PNum 99), (''unmatchedAmount'', PNum 0)])])"
    by simp
  have x0: "t_cancel (\<lparr>t_book = Inr (PDict [(''bids'', PList [PDict [(''price'', PNum 100)]]),
             (''asks'', PList [PDict [(''price'', PNum 102)]])]),
        t_check = Inr (PDict [(''order'', PDict [(''status'', PStr ''Done''), (''matchedAmount'', PNum 3),
             (''Price'', PNum 99), (''unmatchedAmount'', PNum 0)])]),
        t_cancel = Inr PNone,
        t_feeds = \<lparr>nobitex_ob = (\<lambda>m. Inr (PDict [(''bids'', PList [PDict [(''price'', PNum 100)]]),
                                          (''asks'', PList [PDict [(''price'', PNum 102)]])])),
           coinex_ob = (\<lambda>m. Inr (PDict [(''bids'', PList [PList [PNum 1, PNum 5]]),
                                          (''asks'', PList [PList [PNum 3, PNum 5]])])),
           binance_ob = (\<lambda>m. Inl VenueError)\<rparr>,
        t_clock = 100\<rparr>) = Inr PNone"
    by simp
  have l0: "live_diff_nb (\<lambda>s. None) (t_feeds (\<lparr>t_book = Inr (PDict [(''bids'', PList [PDict [(''price'', PNum 100)]]),
             (''asks'', PList [PDict [(''price'', PNum 102)]])]),
        t_check = Inr (PDict [(''order'', PDict [(''status'', PStr ''Done''), (''matchedAmount'', PNum 3),
             (''Price'', PNum 99), (''unmatchedAmount'', PNum 0)])]),
        t_cancel = Inr PNone,
        t_feeds = \<lparr>nobitex_ob = (\<lambda>m. Inr (PDict [(''bids'', PList [PDict [(''price'', PNum 100)]]),
                                          (''asks'', PList [PDict [(''price'', PNum 102)]])])),
           coinex_ob = (\<lambda>m. Inr (PDict [(''bids'', PList [PList [PNum 1, PNum 5]]),
                                          (''asks'', PList [PList [PNum 3, PNum 5]])])),
           binance_ob = (\<lambda>m. Inl VenueError)\<rparr>,
        t_clock = 100\<rparr>)) ''BTC'' = Inr (202, 101, 101)"
    by (simp add: ld)
  have k0: "t_clock (\<lparr>t_book = Inr (PDict [(''bids'', PList [PDict [(''price'', PNum 100)]]),
             (''asks'', PList [PDict [(''price'', PNum 102)]])]),
        t_check = Inr (PDict [(''order'', PDict [(''status'', PStr ''Done''), (''matchedAmount'', PNum 3),
             (''Price'', PNum 99), (''unmatchedAmount'', PNum 0)])]),
        t_cancel = Inr PNone,
        t_feeds = \<lparr>nobitex_ob = (\<lambda>m. Inr (PDict [(''bids'', PList [PDict [(''price'', PNum 100)]]),
                                          (''asks'', PList [PDict [(''price'', PNum 102)]])])),
           coinex_ob = (\<lambda>m. Inr (PDict [(''bids'', PList [PList [PNum 1, PNum 5]]),
                                          (''asks'', PList [PList [PNum 3, PNum 5]])])),
           binance_ob = (\<lambda>m. Inl VenueError)\<rparr>,
        t_clock = 100\<rparr>) - 0 > 45"
    by simp
  have b1: "t_book (\<lparr>t_book = Inr (PDict [(''bids'', PList [PDict [(''price'', PNum 100)]]),
             (''asks'', PList [PDict [(''price'', PNum 102)]])]),
        t_check = Inr (PDict [(''order'', PDict [(''status'', PStr ''Active''), (''matchedAmount'', PNum 3),
             (''Price'', PNum 99), (''unmatchedAmount'', PNum 2)])]),
        t_cancel = Inr PNone,
        t_feeds = \<lparr>nobitex_ob = (\<lambda>m. Inr (PDict [(''bids'', PList [PDict [(''price'', PNum 100)]]),
                                          (''asks'', PList [PDict [(''price'', PNum 102)]])])),
           coinex_ob = (\<lambda>m. Inr (PDict [(''bids'', PList [PList [PNum 1, PNum 5]]),
                                          (''asks'', PList [PList [PNum 3, PNum 5]])])),
           binance_ob = (\<lambda>m. Inl VenueError)\<rparr>,
        t_clock = 100\<rparr>) = Inr (PDict [(''bids'', PList [PDict [(''price'', PNum 100)]]),
             (''asks'', PList [PDict [(''price'', PNum 102)]])])"
    by simp
  have c1: "t_check (\<lparr>t_book = Inr (PDict [(''bids'', PList [PDict [(''price'', PNum 100)]]),
             (''asks'', PList [PDict [(''price'', PNum 102)]])]),
        t_check = Inr (PDict [(''order'', PDict [(''status'', PStr ''Active''), (''matchedAmount'', PNum 3),
             (''Price'', PNum 99), (''unmatchedAmount'', PNum 2)])]),
        t_cancel = Inr PNone,
        t_feeds = \<lparr>nobitex_ob = (\<lambda>m. Inr (PDict [(''bids'', PList [PDict [(''price'', PNum 100)]]),
                                          (''asks'', PList [PDict [(''price'', PNum 102)]])])),
           coinex_ob = (\<lambda>m. Inr (PDict [(''bids'', PList [PList [PNum 1, PNum 5]]),
                                          (''asks'', PList [PList [PNum 3, PNum 5]])])),
           binance_ob = (\<lambda>m. Inl VenueError)\<rparr>,
        t_clock = 100\<rparr>) = Inr (PDict [(''order'', PDict [(''status'', PStr ''Active''), (''matchedAmount'', PNum 3),
             (''Price'', PNum 99), (''unmatchedAmount'', PNum 2)])])"
    by simp
  have x1: "t_cancel (\<lparr>t_book = Inr (PDict [(''bids'', PList [PDict [(''price'', PNum 100)]]),
             (''asks'', PList [PDict [(''price'', PNum 102)]])]),
        t_check = Inr (PDict [(''order'', PDict [(''status'', PStr ''Active''), (''matchedAmount'', PNum 3),
             (''Price'', PNum 99), (''unmatchedAmount'', PNum 2)])]),
        t_cancel = Inr PNone,
        t_feeds = \<lparr>nobitex_ob = (\<lambda>m. Inr (PDict [(''bids'', PList [PDict [(''price'', PNum 100)]]),
                                          (''asks'', PList [PDict [(''price'', PNum 102)]])])),
           coinex_ob = (\<lambda>m. Inr (PDict [(''bids'', PList [PList [PNum 1, PNum 5]]),
                                          (''asks'', PList [PList [PNum 3, PNum 5]])])),
           binance_ob = (\<lambda>m. Inl VenueError)\<rparr>,
        t_clock = 100\<rparr>) = Inr PNone"
    by simp
  have l1: "live_diff_nb (\<lambda>s. None) (t_feeds (\<lparr>t_book = Inr (PDict [(''bids'', PList [PDict [(''price'', PNum 100)]]),
             (''asks'', PList [PDict [(''price'', PNum 102)]])]),
        t_check = Inr (PDict [(''order'', PDict [(''status'', PStr ''Active''), (''matchedAmount'', PNum 3),
             (''Price'', PNum 99), (''unmatchedAmount'', PNum 2)])]),
        t_cancel = Inr PNone,
        t_feeds = \<lparr>nobitex_ob = (\<lambda>m. Inr (PDict [(''bids'', PList [PDict [(''price'', PNum 100)]]),
                                          (''asks'', PList [PDict [(''price'', PNum 102)]])])),
           coinex_ob = (\<lambda>m. Inr (PDict [(''bids'', PList [PList [PNum 1, PNum 5]]),
                                          (''asks'', PList [PList [PNum 3, PNum 5]])])),
           binance_ob = (\<lambda>m. Inl VenueError)\<rparr>,
        t_clock = 100\<rparr>)) ''BTC'' = Inr (202, 101, 101)"
    by (simp add: ld)
  have k1: "t_clock (\<lparr>t_book = Inr (PDict [(''bids'', PList [PDict [(''price'', PNum 100)]]),
             (''asks'', PList [PDict [(''price'', PNum 102)]])]),
        t_check = Inr (PDict [(''order'', PDict [(''status'', PStr ''Active''), (''matchedAmount'', PNum 3),
             (''Price'', PNum 99), (''unmatchedAmount'', PNum 2)])]),
        t_cancel = Inr PNone,
        t_feeds = \<lparr>nobitex_ob = (\<lambda>m. Inr (PDict [(''bids'', PList [PDict [(''price'', PNum 100)]]),
                                          (''asks'', PList [PDict [(''price'', PNum 102)]])])),
           coinex_ob = (\<lambda>m. Inr (PDict [(''bids'', PList [PList [PNum 1, PNum 5]]),
                                          (''asks'', PList [PList [PNum 3, PNum 5]])])),
           binance_ob = (\<lambda>m. Inl VenueError)\<rparr>,
        t_clock = 100\<rparr>) - 0 > 45"
    by simp
  have b2: "t_book (\<lparr>t_book = Inr (PDict [(''bids'', PList [PDict [(''price'', PNum 100)]]),
             (''asks'', PList [PDict [(''price'', PNum 102)]])]),
        t_check = Inr (PDict [(''order'', PDict [(''status'', PStr ''Active''), (''matchedAmount'', PNum 3),
             (''Price'', PNum 100), (''unmatchedAmount'', PNum 2)])]),
        t_cancel = Inr PNone,
        t_feeds = \<lparr>nobitex_ob = (\<lambda>m. Inr (PDict [(''bids'', PList [PDict [(''price'', PNum 100)]]),
                                          (''asks'', PList [PDict [(''price'', PNum 102)]])])),
           coinex_ob = (\<lambda>m. Inr (PDict [(''bids'', PList [PList [PNum 1, PNum 5]]),
                                          (''asks'', PList [PList [PNum 3, PNum 5]])])),
           binance_ob = (\<lambda>m. Inl VenueError)\<rparr>,
        t_clock = 100\<rparr>) = Inr (PDict [(''bids'', PList [PDict [(''price'', PNum 100)]]),
             (''asks'', PList [PDict [(''price'', PNum 102)]])])"
    by simp
  have c2: "t_check (\<lparr>t_book = Inr (PDict [(''bids'', PList [PDict [(''price'', PNum 100)]]),
             (''asks'', PList [PDict [(''price'', PNum 102)]])]),
        t_check = Inr (PDict [(''order'', PDict [(''status'', PStr ''Active''), (''matchedAmount'', PNum 3),
             (''Price'', PNum 100), (''unmatchedAmount'', PNum 2)])]),
        t_cancel = Inr PNone,
        t_feeds = \<lparr>nobitex_ob = (\<lambda>m. Inr (PDict [(''bids'', PList [PDict [(''price'', PNum 100)]]),
                                          (''asks'', PList [PDict [(''price'', PNum 102)]])])),
           coinex_ob = (\<lambda>m. Inr (PDict [(''bids'', PList [PList [PNum 1, PNum 5]]),
                                          (''asks'', PList [PList [PNum 3, PNum 5]])])),
           binance_ob = (\<lambda>m. Inl VenueError)\<rparr>,
        t_clock = 100\<rparr>) = Inr (PDict [(''order'', PDict [(''status'', PStr ''Active''), (''matchedAmount'', PNum 3),
             (''Price'', PNum 100), (''unmatchedAmount'', PNum 2)])])"
    by simp
  have x2: "t_cancel (\<lparr>t_book = Inr (PDict [(''bids'', PList [PDict [(''price'', PNum 100)]]),
             (''asks'', PList [PDict [(''price'', PNum 102)]])]),
        t_check = Inr (PDict [(''order'', PDict [(''status'', PStr ''Active''), (''matchedAmount'', PNum 3),
             (''Price'', PNum 100), (''unmatchedAmount'', PNum 2)])]),
        t_cancel = Inr PNone,
        t_feeds = \<lparr>nobitex_ob = (\<lambda>m. Inr (PDict [(''bids'', PList [PDict [(''price'', PNum 100)]]),
                                          (''asks'', PList [PDict [(''price'', PNum 102)]])])),
           coinex_ob = (\<lambda>m. Inr (PDict [(''bids'', PList [PList [PNum 1, PNum 5]]),
                                          (''asks'', PList [PList [PNum 3, PNum 5]])])),
           binance_ob = (\<lambda>m. Inl VenueError)\<rparr>,
        t_clock = 100\<rparr>) = Inr PNone"
    by simp
  have l2: "live_diff_nb (\<lambda>s. None) (t_feeds (\<lparr>t_book = Inr (PDict [(''bids'', PList [PDict [(''price'', PNum 100)]]),
             (''asks'', PList [PDict [(''price'', PNum 102)]])]),
        t_check = Inr (PDict [(''order'', PDict [(''status'', PStr ''Active''), (''matchedAmount'', PNum 3),
             (''Price'', PNum 100), (''unmatchedAmount'', PNum 2)])]),
        t_cancel = Inr PNone,
        t_feeds = \<lparr>nobitex_ob = (\<lambda>m. Inr (PDict [(''bids'', PList [PDict [(''price'', PNum 100)]]),
                                          (''asks'', PList [PDict [(''price'', PNum 102)]])])),
           coinex_ob = (\<lambda>m. Inr (PDict [(''bids'', PList [PList [PNum 1, PNum 5]]),
                                          (''asks'', PList [PList [PNum 3, PNum 5]])])),
           binance_ob = (\<lambda>m. Inl VenueError)\<rparr>,
        t_clock = 100\<rparr>)) ''BTC'' = Inr (202, 101, 101)"
    by (simp add: ld)
  have k2: "t_clock (\<lparr>t_book = Inr (PDict [(''bids'', PList [PDict [(''price'', PNum 100)]]),
             (''asks'', PList [PDict [(''price'', PNum 102)]])]),
        t_check = Inr (PDict [(''order'', PDict [(''status'', PStr ''Active''), (''matchedAmount'', PNum 3),
             (''Price'', PNum 100), (''unmatchedAmount'', PNum 2)])]),
        t_cancel = Inr PNone,
        t_feeds = \<lparr>nobitex_ob = (\<lambda>m. Inr (PDict [(''bids'', PList [PDict [(''price'', PNum 100)]]),
                                          (''asks'', PList [PDict [(''price'', PNum 102)]])])),
           coinex_ob = (\<lambda>m. Inr (PDict [(''bids'', PList [PList [PNum 1, PNum 5]]),
                                          (''asks'', PList [PList [PNum 3, PNum 5]])])),
           binance_ob = (\<lambda>m. Inl VenueError)\<rparr>,
        t_clock = 100\<rparr>) - 0 > 45"
    by simp
  have r0: "track_and_cancel (\<lambda>s. None) (\<lambda>s. None) (PNum 7) ''buy'' 45 100 10 2 ''BTC'' 0
      [\<lparr>t_book = Inr (PDict [(''bids'', PList [PDict [(''price'', PNum 100)]]),
             (''asks'', PList [PDict [(''price'', PNum 102)]])]),
        t_check = Inr (PDict [(''order'', PDict [(''status'', PStr ''Done''), (''matchedAmount'', PNum 3),
             (''Price'', PNum 99), (''unmatchedAmount'', PNum 0)])]),
        t_cancel = Inr PNone,
        t_feeds = \<lparr>nobitex_ob = (\<lambda>m. Inr (PDict [(''bids'', PList [PDict [(''price'', PNum 100)]]),
                                          (''asks'', PList [PDict [(''price'', PNum 102)]])])),
           coinex_ob = (\<lambda>m. Inr (PDict [(''bids'', PList [PList [PNum 1, PNum 5]]),
                                          (''asks'', PList [PList [PNum 3, PNum 5]])])),
           binance_ob = (\<lambda>m. Inl VenueError)\<rparr>,
        t_clock = 100\<rparr>] =
     (Some (Inr (''FILLED'', 3, 297)), [NbCheckOrder (PNum 7)])"
    using track_priority [OF b0 tp c0 p0, THEN conjunct1, rule_format, OF f0,
        of "\<lambda>s. None" "PNum 7" 45 100 10 2 "''BTC''" 0 "[]"]
    by simp
  have r1: "track_and_cancel (\<lambda>s. None) (\<lambda>s. None) (PNum 7) ''buy'' 45 100 10 2 ''BTC'' 0
      [\<lparr>t_book = Inr (PDict [(''bids'', PList [PDict [(''price'', PNum 100)]]),
             (''asks'', PList [PDict [(''price'', PNum 102)]])]),
        t_check = Inr (PDict [(''order'', PDict [(''status'', PStr ''Active''), (''matchedAmount'', PNum 3),
             (''Price'', PNum 99), (''unmatchedAmount'', PNum 2)])]),
        t_cancel = Inr PNone,
        t_feeds = \<lparr>nobitex_ob = (\<lambda>m. Inr (PDict [(''bids'', PList [PDict [(''price'', PNum 100)]]),
                                          (''asks'', PList [PDict [(''price'', PNum 102)]])])),
           coinex_ob = (\<lambda>m. Inr (PDict [(''bids'', PList [PList [PNum 1, PNum 5]]),
                                          (''asks'', PList [PList [PNum 3, PNum 5]])])),
           binance_ob = (\<lambda>m. Inl VenueError)\<rparr>,
        t_clock = 100\<rparr>] =
     (Some (Inr (''NOT_BEST'', 3, 297)), [NbCheckOrder (PNum 7), NbCancelOrder (PNum 7)])"
    using track_priority [OF b1 tp c1 p1, THEN conjunct2, THEN conjunct1, rule_format,
        OF conjI [OF f1 conjI [OF nb1 x1]],
        of "\<lambda>s. None" "PNum 7" 45 100 10 2 "''BTC''" 0 "[]"]
    by simp
  have r2: "track_and_cancel (\<lambda>s. None) (\<lambda>s. None) (PNum 7) ''buy'' 45 100 10 2 ''BTC'' 0
      [\<lparr>t_book = Inr (PDict [(''bids'', PList [PDict [(''price'', PNum 100)]]),
             (''asks'', PList [PDict [(''price'', PNum 102)]])]),
        t_check = Inr (PDict [(''order'', PDict [(''status'', PStr ''Active''), (''matchedAmount'', PNum 3),
             (''Price'', PNum 100), (''unmatchedAmount'', PNum 2)])]),
        t_cancel = Inr PNone,
        t_feeds = \<lparr>nobitex_ob = (\<lambda>m. Inr (PDict [(''bids'', PList [PDict [(''price'', PNum 100)]]),
                                          (''asks'', PList [PDict [(''price'', PNum 102)]])])),
           coinex_ob = (\<lambda>m. Inr (PDict [(''bids'', PList [PList [PNum 1, PNum 5]]),
                                          (''asks'', PList [PList [PNum 3, PNum 5]])])),
           binance_ob = (\<lambda>m. Inl VenueError)\<rparr>,
        t_clock = 100\<rparr>] =
     (Some (Inr (''NO_SIGNAL'', 3, 300)), [NbCheckOrder (PNum 7), NbCancelOrder (PNum 7)])"
    using track_priority [OF b2 tp c2 p2, THEN conjunct2, THEN conjunct2, THEN conjunct1,
        rule_format, OF conjI [OF f2 conjI [OF nb2 conjI [OF l2 conjI [OF band(1) x2]]]],
        of "PNum 7" 45 0 "[]"]
    by simp
  have r3: "track_and_cancel (\<lambda>s. None) (\<lambda>s. None) (PNum 7) ''buy'' 45 1000 10 2 ''BTC'' 0
      [\<lparr>t_book = Inr (PDict [(''bids'', PList [PDict [(''price'', PNum 100)]]),
             (''asks'', PList [PDict [(''price'', PNum 102)]])]),
        t_check = Inr (PDict [(''order'', PDict [(''status'', PStr ''Active''), (''matchedAmount'', PNum 3),
             (''Price'', PNum 100), (''unmatchedAmount'', PNum 2)])]),
        t_cancel = Inr PNone,
        t_feeds = \<lparr>nobitex_ob = (\<lambda>m. Inr (PDict [(''bids'', PList [PDict [(''price'', PNum 100)]]),
                                          (''asks'', PList [PDict [(''price'', PNum 102)]])])),
           coinex_ob = (\<lambda>m. Inr (PDict [(''bids'', PList [PList [PNum 1, PNum 5]]),
                                          (''asks'', PList [PList [PNum 3, PNum 5]])])),
           binance_ob = (\<lambda>m. Inl VenueError)\<rparr>,
        t_clock = 100\<rparr>] =
     (Some (Inr (''TIMEOUT'', 3, 300)), [NbCheckOrder (PNum 7), NbCancelOrder (PNum 7)])"
    using track_priority [OF b2 tp c2 p2, THEN conjunct2, THEN conjunct2, THEN conjunct2,
        THEN conjunct1, rule_format,
        OF conjI [OF f2 conjI [OF nb2 conjI [OF l2 conjI [OF band(2) conjI [OF k2 x2]]]]],
        of "PNum 7" "[]"]
    by simp
  from f0 nb1 band(1) late r0 r1 r2 r3 show ?thesis by blast
qed

lemma track_tick_calls:
  "set (snd (track_tick dl fl order_id side timeout mean std k coin start T)) \<subseteq>
   {NbCheckOrder order_id, NbCancelOrder order_id}"
  by (auto simp: track_tick_def cancel_and_return_def
      split: sum.splits prod.splits if_splits bool.splits)

lemma track_tick_reports:
  assumes "track_tick dl fl order_id side timeout mean std k coin start T = (Inr (Some (outcome, m, n)), cs)"
  shows "\<exists>ob best_bid best_ask checked info status p.
           t_book T = Inr ob \<and> top_price ob ''bids'' = Inr best_bid \<and>
           top_price ob ''asks'' = Inr best_ask \<and> t_check T = Inr checked \<and>
           poll_order dl side best_bid best_ask checked = Inr (info, status, m, p) \<and>
           n = m * p"
  using assms
  by (auto simp: track_tick_def cancel_and_return_def
      split: sum.splits prod.splits if_splits bool.splits)

text \<open>
  C4. Whatever the tracker has done after the rounds observed, every order call it has
  made is a status query or a cancel of the tracked order: it places no order. When it
  returns \<open>(outcome, matched, notional)\<close>, the round at which it returns is the first
  one that did not end in the sleep; \<open>matched\<close> is the \<open>matchedAmount\<close> the venue
  reported in that round, returned as it is, and \<open>notional\<close> is \<open>matched\<close> times the
  order price of that round (the venue's \<open>Price\<close> field, or where it has none the
  best ask for a buy and the best bid for a sell).
\<close>

theorem track_reports_matched:
  assumes "track_and_cancel dl fl order_id side timeout mean std k coin start Ts = (res, cs)"
  shows "set cs \<subseteq> {NbCheckOrder order_id, NbCancelOrder order_id} \<and>
         (\<forall>outcome m n. res = Some (Inr (outcome, m, n)) \<longrightarrow>
            (\<exists>Us T Vs ob best_bid best_ask checked info status p.
               Ts = Us @ T # Vs \<and>
               list_all (\<lambda>U. fst (track_tick dl fl order_id side timeout mean std k coin start U) = Inr None) Us \<and>
               fst (track_tick dl fl order_id side timeout mean std k coin start T) =
                 Inr (Some (outcome, m, n)) \<and>
               t_book T = Inr ob \<and> top_price ob ''bids'' = Inr best_bid \<and>
               top_price ob ''asks'' = Inr best_ask \<and> t_check T = Inr checked \<and>
               poll_order dl side best_bid best_ask checked = Inr (info, status, m, p) \<and>
               n = m * p))"
    (is "?C cs \<and> (\<forall>outcome m n. res = Some (Inr (outcome, m, n)) \<longrightarrow> ?P Ts outcome m n)")
  using assms
proof (induction Ts arbitrary: res cs)
  case Nil
  then show ?case by simp
next
  case (Cons T Ts)
  obtain r0 c0 where rc: "track_tick dl fl order_id side timeout mean std k coin start T = (r0, c0)"
    by (cases "track_tick dl fl order_id side timeout mean std k coin start T")
  have c0: "?C c0"
    using track_tick_calls [of dl fl order_id side timeout mean std k coin start T] rc by simp
  show ?case
  proof (cases r0)
    case (Inl e)
    with Cons.prems rc have "res = Some (Inl e)" "cs = c0" by simp_all
    with c0 show ?thesis by simp
  next
    case (Inr v)
    show ?thesis
    proof (cases v)
      case None
      obtain r' c' where rc': "track_and_cancel dl fl order_id side timeout mean std k coin start Ts = (r', c')"
        by (cases "track_and_cancel dl fl order_id side timeout mean std k coin start Ts")
      with Cons.prems rc Inr None have eq: "res = r'" "cs = c0 @ c'" by simp_all
      from Cons.IH [OF rc'] have ih1: "?C c'"
        and ih2: "\<forall>outcome m n. r' = Some (Inr (outcome, m, n)) \<longrightarrow> ?P Ts outcome m n"
        by (rule conjunct1, rule conjunct2)
      have calls: "?C cs"
        using c0 ih1 eq(2) by simp
      have "?P (T # Ts) outcome m n" if "res = Some (Inr (outcome, m, n))" for outcome m n
      proof -
        from that eq(1) ih2 have "?P Ts outcome m n" by simp
        then obtain Us T' Vs ob best_bid best_ask checked info status p where
          h: "Ts = Us @ T' # Vs"
             "list_all (\<lambda>U. fst (track_tick dl fl order_id side timeout mean std k coin start U) = Inr None) Us"
             "fst (track_tick dl fl order_id side timeout mean std k coin start T') =
                 Inr (Some (outcome, m, n))"
             "t_book T' = Inr ob" "top_price ob ''bids'' = Inr best_bid"
             "top_price ob ''asks'' = Inr best_ask" "t_check T' = Inr checked"
             "poll_order dl side best_bid best_ask checked = Inr (info, status, m, p)"
             "n = m * p"
          by blast
        from h(1) have a: "T # Ts = (T # Us) @ T' # Vs" by simp
        from h(2) rc Inr None
        have b: "list_all (\<lambda>U. fst (track_tick dl fl order_id side timeout mean std k coin start U) = Inr None) (T # Us)"
          by simp
        show ?thesis
          by (intro exI [of _ "T # Us"] exI [of _ T'] exI [of _ Vs] exI [of _ ob]
              exI [of _ best_bid] exI [of _ best_ask] exI [of _ checked] exI [of _ info]
              exI [of _ status] exI [of _ p] conjI a b h(3-9))
      qed
      with calls show ?thesis by blast
    next
      case (Some r)
      with Cons.prems rc Inr have eq: "res = Some (Inr r)" "cs = c0" by simp_all
      have "?P (T # Ts) outcome m n" if "res = Some (Inr (outcome, m, n))" for outcome m n
      proof -
        from that eq have r: "r = (outcome, m, n)" by simp
        with rc Inr Some
        have t: "track_tick dl fl order_id side timeout mean std k coin start T =
                 (Inr (Some (outcome, m, n)), c0)"
          by simp
        from track_tick_reports [OF t] obtain ob best_bid best_ask checked info status p where
          h: "t_book T = Inr ob" "top_price ob ''bids'' = Inr best_bid"
          "top_price ob ''asks'' = Inr best_ask" "t_check T = Inr checked"
          "poll_order dl side best_bid best_ask checked = Inr (info, status, m, p)" "n = m * p"
          by blast
        have a: "T # Ts = [] @ T # Ts" by simp
        have b: "list_all (\<lambda>U. fst (track_tick dl fl order_id side timeout mean std k coin start U) = Inr None) []"
          by simp
        from t have c: "fst (track_tick dl fl order_id side timeout mean std k coin start T) =
                 Inr (Some (outcome, m, n))"
          by simp
        show ?thesis
          by (intro exI [of _ "[]"] exI [of _ T] exI [of _ Ts] exI [of _ ob]
              exI [of _ best_bid] exI [of _ best_ask] exI [of _ checked] exI [of _ info]
              exI [of _ status] exI [of _ p] conjI a b c h)
      qed
      with eq(2) c0 show ?thesis by blast
    qed
  qed
qed

text \<open>
  C4 on two rounds of a buy order with \<open>3\<close> matched at price \<open>100\<close>: the first
  round goes on, the second times out; the tracker has queried twice, cancelled once
  and returns \<open>3\<close> matched with notional \<open>300\<close>.
\<close>

theorem track_reports_matched_witness:
  "track_and_cancel (\<lambda>s. None) (\<lambda>s. None) (PNum 7) ''buy'' 45 1000 10 2 ''BTC'' 0
      [\<lparr>t_book = Inr (PDict [(''bids'', PList [PDict [(''price'', PNum 100)]]),
             (''asks'', PList [PDict [(''price'', PNum 102)]])]),
        t_check = Inr (PDict [(''order'', PDict [(''status'', PStr ''Active''), (''matchedAmount'', PNum 3),
             (''Price'', PNum 100), (''unmatchedAmount'', PNum 2)])]),
        t_cancel = Inr PNone,
        t_feeds = \<lparr>nobitex_ob = (\<lambda>m. Inr (PDict [(''bids'', PList [PDict [(''price'', PNum 100)]]),
                                          (''asks'', PList [PDict [(''price'', PNum 102)]])])),
           coinex_ob = (\<lambda>m. Inr (PDict [(''bids'', PList [PList [PNum 1, PNum 5]]),
                                          (''asks'', PList [PList [PNum 3, PNum 5]])])),
           binance_ob = (\<lambda>m. Inl VenueError)\<rparr>,
        t_clock = 10\<rparr>,
       \<lparr>t_book = Inr (PDict [(''bids'', PList [PDict [(''price'', PNum 100)]]),
             (''asks'', PList [PDict [(''price'', PNum 102)]])]),
        t_check = Inr (PDict [(''order'', PDict [(''status'', PStr ''Active''), (''matchedAmount'', PNum 3),
             (''Price'', PNum 100), (''unmatchedAmount'', PNum 2)])]),
        t_cancel = Inr PNone,
        t_feeds = \<lparr>nobitex_ob = (\<lambda>m. Inr (PDict [(''bids'', PList [PDict [(''price'', PNum 100)]]),
                                          (''asks'', PList [PDict [(''price'', PNum 102)]])])),
           coinex_ob = (\<lambda>m. Inr (PDict [(''bids'', PList [PList [PNum 1, PNum 5]]),
                                          (''asks'', PList [PList [PNum 3, PNum 5]])])),
           binance_ob = (\<lambda>m. Inl VenueError)\<rparr>,
        t_clock = 100\<rparr>] =
     (Some (Inr (''TIMEOUT'', 3, 300)),
      [NbCheckOrder (PNum 7), NbCheckOrder (PNum 7), NbCancelOrder (PNum 7)]) \<and>
   set [NbCheckOrder (PNum 7), NbCheckOrder (PNum 7), NbCancelOrder (PNum 7)] \<subseteq>
     {NbCheckOrder (PNum 7), NbCancelOrder (PNum 7)}"
proof -
  have low: "str_lower ''Active'' = ''active''"
    by (simp add: str_lower_def lower_char_def)
  have ld: "live_diff_nb (\<lambda>s. None) (\<lparr>nobitex_ob = (\<lambda>m. Inr (PDict [(''bids'', PList [PDict [(''price'', PNum 100)]]),
                                          (''asks'', PList [PDict [(''price'', PNum 102)]])])),
           coinex_ob = (\<lambda>m. Inr (PDict [(''bids'', PList [PList [PNum 1, PNum 5]]),
                                          (''asks'', PList [PList [PNum 3, PNum 5]])])),
           binance_ob = (\<lambda>m. Inl VenueError)\<rparr>) ''BTC'' = Inr (202, 101, 101)"
    by (simp add: live_diff_nb_def nobitex_mid_def top_price_def coinex_mid_try_def
        top_entry_def py_mid_def)
  have run: "track_and_cancel (\<lambda>s. None) (\<lambda>s. None) (PNum 7) ''buy'' 45 1000 10 2 ''BTC'' 0
      [\<lparr>t_book = Inr (PDict [(''bids'', PList [PDict [(''price'', PNum 100)]]),
             (''asks'', PList [PDict [(''price'', PNum 102)]])]),
        t_check = Inr (PDict [(''order'', PDict [(''status'', PStr ''Active''), (''matchedAmount'', PNum 3),
             (''Price'', PNum 100), (''unmatchedAmount'', PNum 2)])]),
        t_cancel = Inr PNone,
        t_feeds = \<lparr>nobitex_ob = (\<lambda>m. Inr (PDict [(''bids'', PList [PDict [(''price'', PNum 100)]]),
                                          (''asks'', PList [PDict [(''price'', PNum 102)]])])),
           coinex_ob = (\<lambda>m. Inr (PDict [(''bids'', PList [PList [PNum 1, PNum 5]]),
                                          (''asks'', PList [PList [PNum 3, PNum 5]])])),
           binance_ob = (\<lambda>m. Inl VenueError)\<rparr>,
        t_clock = 10\<rparr>,
       \<lparr>t_book = Inr (PDict [(''bids'', PList [PDict [(''price'', PNum 100)]]),
             (''asks'', PList [PDict [(''price'', PNum 102)]])]),
        t_check = Inr (PDict [(''order'', PDict [(''status'', PStr ''Active''), (''matchedAmount'', PNum 3),
             (''Price'', PNum 100), (''unmatchedAmount'', PNum 2)])]),
        t_cancel = Inr PNone,
        t_feeds = \<lparr>nobitex_ob = (\<lambda>m. Inr (PDict [(''bids'', PList [PDict [(''price'', PNum 100)]]),
                                          (''asks'', PList [PDict [(''price'', PNum 102)]])])),
           coinex_ob = (\<lambda>m. Inr (PDict [(''bids'', PList [PList [PNum 1, PNum 5]]),
                                          (''asks'', PList [PList [PNum 3, PNum 5]])])),
           binance_ob = (\<lambda>m. Inl VenueError)\<rparr>,
        t_clock = 100\<rparr>] =
     (Some (Inr (''TIMEOUT'', 3, 300)),
      [NbCheckOrder (PNum 7), NbCheckOrder (PNum 7), NbCancelOrder (PNum 7)])"
    by (simp add: track_tick_def top_price_def poll_order_def low is_filled_def not_best_def
        py_less_def ld in_band_def cancel_and_return_def)
  from track_reports_matched [OF run, THEN conjunct1] run show ?thesis by blast
qed

section \<open>Properties of the spot-side inventory bounds\<close>

lemma track_and_cancel_calls:
  "set (snd (track_and_cancel dl fl order_id side timeout mean std k coin start Ts)) \<subseteq>
   {NbCheckOrder order_id, NbCancelOrder order_id}"
proof (induction Ts)
  case Nil
  then show ?case by simp
next
  case (Cons T Ts)
  obtain r0 c0 where rc: "track_tick dl fl order_id side timeout mean std k coin start T = (r0, c0)"
    by (cases "track_tick dl fl order_id side timeout mean std k coin start T")
  have c0: "set c0 \<subseteq> {NbCheckOrder order_id, NbCancelOrder order_id}"
    using track_tick_calls [of dl fl order_id side timeout mean std k coin start T] rc by simp
  obtain r' c' where rc': "track_and_cancel dl fl order_id side timeout mean std k coin start Ts = (r', c')"
    by (cases "track_and_cancel dl fl order_id side timeout mean std k coin start Ts")
  with Cons.IH have c': "set c' \<subseteq> {NbCheckOrder order_id, NbCancelOrder order_id}" by simp
  show ?case
    using rc rc' c0 c'
    by (cases r0; cases "projr r0") auto
qed

lemma track_and_cancel_no_order:
  assumes "track_and_cancel dl fl order_id side timeout mean std k coin start Ts = (r, cs)"
    and "NbNewOrder s q m p \<in> set cs"
  shows False
  using track_and_cancel_calls [of dl fl order_id side timeout mean std k coin start Ts] assms
  by auto

lemma place_and_track_orders:
  assumes "NbNewOrder s q m p \<in> set (snd (place_and_track ri dl fl cfg coin st obs side best_bid best_ask weight))"
  shows "s = side \<and> q = cfg_order_qty cfg"
  using assms
  by (auto simp: place_and_track_def Let_def
      split: sum.splits if_splits prod.splits option.splits
      dest: track_and_cancel_no_order)

lemma act_on_signal_orders:
  assumes "NbNewOrder s q m p \<in> set (snd (act_on_signal ri dl fl cfg coin st obs z lower upper b_units best_bid best_ask))"
  shows "q = cfg_order_qty cfg \<and>
         (s = ''buy'' \<and> b_units + q \<le> cfg_u_units cfg \<or>
          s = ''sell'' \<and> cfg_l_units cfg \<le> b_units - q)"
  using assms
  by (auto simp: act_on_signal_def split: if_splits dest!: place_and_track_orders)

lemma trade_step_orders:
  assumes "NbNewOrder s q m p \<in> set (snd (trade_step ri dl fl cfg coin st obs))"
  shows "\<exists>b_units. c_balance obs = Inr b_units \<and> q = cfg_order_qty cfg \<and>
         (s = ''buy'' \<and> b_units + q \<le> cfg_u_units cfg \<or>
          s = ''sell'' \<and> cfg_l_units cfg \<le> b_units - q)"
  using assms
  by (auto simp: trade_step_def Let_def split: sum.splits prod.splits if_splits
      dest!: act_on_signal_orders)

lemma nb_cycle_orders:
  assumes "NbNewOrder s q m p \<in> set (snd (snd (nb_cycle ri dl fl cfg coin st obs)))"
  shows "\<exists>b_units. c_balance obs = Inr b_units \<and> q = cfg_order_qty cfg \<and>
         (s = ''buy'' \<and> b_units + q \<le> cfg_u_units cfg \<or>
          s = ''sell'' \<and> cfg_l_units cfg \<le> b_units - q)"
  using assms
  by (auto simp: nb_cycle_def Let_def split: sum.splits prod.splits if_splits
      dest!: trade_step_orders)


text \<open>
  C5. Whatever a cycle of the maker's loop observes, an order it places has the
  configured quantity \<open>order_qty\<close>, and with the balance \<open>b_units\<close> read in that cycle
  a buy is placed only if \<open>b_units + order_qty <= u_units\<close> and a sell only if
  \<open>b_units - order_qty >= l_units\<close>. So a buy that fills any part \<open>x\<close> of its quantity
  from holdings that were not below \<open>l_units\<close> leaves them in \<open>[l_units, u_units]\<close>,
  and likewise a sell from holdings that were not above \<open>u_units\<close>. When a bound is
  violated the signal branch takes \<open>continue\<close>: it ends the cycle with no order call
  and no exception.
\<close>

theorem spot_orders_within_bounds:
  "(\<forall>s q m p.
      NbNewOrder s q m p \<in> set (snd (snd (nb_cycle ri dl fl cfg coin st obs))) \<longrightarrow>
      (\<exists>b_units. c_balance obs = Inr b_units \<and> q = cfg_order_qty cfg \<and>
         (s = ''buy'' \<and> b_units + q \<le> cfg_u_units cfg \<and>
            (\<forall>x. cfg_l_units cfg \<le> b_units \<and> 0 \<le> x \<and> x \<le> q \<longrightarrow>
                 cfg_l_units cfg \<le> b_units + x \<and> b_units + x \<le> cfg_u_units cfg) \<or>
          s = ''sell'' \<and> cfg_l_units cfg \<le> b_units - q \<and>
            (\<forall>x. b_units \<le> cfg_u_units cfg \<and> 0 \<le> x \<and> x \<le> q \<longrightarrow>
                 cfg_l_units cfg \<le> b_units - x \<and> b_units - x \<le> cfg_u_units cfg)))) \<and>
   (\<forall>z lower upper b_units best_bid best_ask.
      z > upper \<and> b_units + cfg_order_qty cfg > cfg_u_units cfg \<longrightarrow>
      act_on_signal ri dl fl cfg coin st obs z lower upper b_units best_bid best_ask =
      (Skipped, [])) \<and>
   (\<forall>z lower upper b_units best_bid best_ask.
      \<not> z > upper \<and> z < lower \<and> b_units - cfg_order_qty cfg < cfg_l_units cfg \<longrightarrow>
      act_on_signal ri dl fl cfg coin st obs z lower upper b_units best_bid best_ask =
      (Skipped, []))"
proof (intro conjI allI impI)
  fix s q m p
  assume "NbNewOrder s q m p \<in> set (snd (snd (nb_cycle ri dl fl cfg coin st obs)))"
  from nb_cycle_orders [OF this] obtain b_units where
    b: "c_balance obs = Inr b_units" "q = cfg_order_qty cfg"
       "s = ''buy'' \<and> b_units + q \<le> cfg_u_units cfg \<or>
        s = ''sell'' \<and> cfg_l_units cfg \<le> b_units - q"
    by blast
  from b(3) have "s = ''buy'' \<and> b_units + q \<le> cfg_u_units cfg \<and>
            (\<forall>x. cfg_l_units cfg \<le> b_units \<and> 0 \<le> x \<and> x \<le> q \<longrightarrow>
                 cfg_l_units cfg \<le> b_units + x \<and> b_units + x \<le> cfg_u_units cfg) \<or>
          s = ''sell'' \<and> cfg_l_units cfg \<le> b_units - q \<and>
            (\<forall>x. b_units \<le> cfg_u_units cfg \<and> 0 \<le> x \<and> x \<le> q \<longrightarrow>
                 cfg_l_units cfg \<le> b_units - x \<and> b_units - x \<le> cfg_u_units cfg)"
    by auto
  with b(1,2) show "\<exists>b_units. c_balance obs = Inr b_units \<and> q = cfg_order_qty cfg \<and>
         (s = ''buy'' \<and> b_units + q \<le> cfg_u_units cfg \<and>
            (\<forall>x. cfg_l_units cfg \<le> b_units \<and> 0 \<le> x \<and> x \<le> q \<longrightarrow>
                 cfg_l_units cfg \<le> b_units + x \<and> b_units + x \<le> cfg_u_units cfg) \<or>
          s = ''sell'' \<and> cfg_l_units cfg \<le> b_units - q \<and>
            (\<forall>x. b_units \<le> cfg_u_units cfg \<and> 0 \<le> x \<and> x \<le> q \<longrightarrow>
                 cfg_l_units cfg \<le> b_units - x \<and> b_units - x \<le> cfg_u_units cfg))"
    by blast
next
  fix z lower upper b_units best_bid best_ask :: real
  assume "z > upper \<and> b_units + cfg_order_qty cfg > cfg_u_units cfg"
  then show "act_on_signal ri dl fl cfg coin st obs z lower upper b_units best_bid best_ask =
      (Skipped, [])"
    by (simp add: act_on_signal_def)
next
  fix z lower upper b_units best_bid best_ask :: real
  assume "\<not> z > upper \<and> z < lower \<and> b_units - cfg_order_qty cfg < cfg_l_units cfg"
  then show "act_on_signal ri dl fl cfg coin st obs z lower upper b_units best_bid best_ask =
      (Skipped, [])"
    by (simp add: act_on_signal_def)
qed

text \<open>
  C5 on a concrete cycle with bounds \<open>[-10, 10]\<close> and order quantity \<open>2\<close>: holding
  \<open>1\<close> with the signal above the band, the cycle places one buy of \<open>2\<close> at the
  weighted price \<open>101\<close>, and \<open>1 + 2 <= 10\<close>; holding \<open>9\<close>, the signal branch skips.
\<close>

theorem spot_orders_within_bounds_witness:
  "nb_cycle (\<lambda>x. x) (\<lambda>s. None) (\<lambda>s. None)
      \<lparr>cfg_window_min = 60, cfg_k_sigma = 2, cfg_w_buy = 1 / 2, cfg_w_sell = 1 / 2,
        cfg_timeout_sec = 45, cfg_pos_store_path = ''coinex_pos.json'', cfg_order_qty = 2,
        cfg_l_units = - 10, cfg_u_units = 10, cfg_t_units = 5\<rparr>
      ''BTC'' \<lparr>s_last_stats = 0, s_mean = 0, s_std = 10\<rparr>
      \<lparr>c_now = 2, c_query = Inl VenueError,
        c_feeds = \<lparr>nobitex_ob = (\<lambda>m. Inr (PDict [(''bids'', PList [PDict [(''price'', PNum 100)]]),
                                          (''asks'', PList [PDict [(''price'', PNum 102)]])])),
           coinex_ob = (\<lambda>m. Inr (PDict [(''bids'', PList [PList [PNum 1, PNum 5]]),
                                          (''asks'', PList [PList [PNum 3, PNum 5]])])),
           binance_ob = (\<lambda>m. Inl VenueError)\<rparr>,
        c_balance = Inr 1,
        c_fs = [''coinex_pos.json'' \<mapsto> Json (PDict [(''BTCUSDT'', PNum 0)])],
        c_book = Inr (PDict [(''bids'', PList [PDict [(''price'', PNum 100)]]),
             (''asks'', PList [PDict [(''price'', PNum 102)]])]),
        c_order = Inr (PDict [(''order'', PDict [(''id'', PNum 7)])]),
        c_parse = Inr ''success'', c_start = 2, c_ticks = []\<rparr> =
     (\<lparr>s_last_stats = 0, s_mean = 0, s_std = 10\<rparr>, Polling, [NbNewOrder ''buy'' 2 ''BTCIRT'' 101]) \<and>
   (\<exists>b_units. Inr 1 = Inr b_units \<and> b_units + 2 \<le> (10::real)) \<and>
   act_on_signal (\<lambda>x. x) (\<lambda>s. None) (\<lambda>s. None)
      \<lparr>cfg_window_min = 60, cfg_k_sigma = 2, cfg_w_buy = 1 / 2, cfg_w_sell = 1 / 2,
        cfg_timeout_sec = 45, cfg_pos_store_path = ''coinex_pos.json'', cfg_order_qty = 2,
        cfg_l_units = - 10, cfg_u_units = 10, cfg_t_units = 5\<rparr>
      ''BTC'' \<lparr>s_last_stats = 0, s_mean = 0, s_std = 10\<rparr>
      \<lparr>c_now = 2, c_query = Inl VenueError,
        c_feeds = \<lparr>nobitex_ob = (\<lambda>m. Inr (PDict [(''bids'', PList [PDict [(''price'', PNum 100)]]),
                                          (''asks'', PList [PDict [(''price'', PNum 102)]])])),
           coinex_ob = (\<lambda>m. Inr (PDict [(''bids'', PList [PList [PNum 1, PNum 5]]),
                                          (''asks'', PList [PList [PNum 3, PNum 5]])])),
           binance_ob = (\<lambda>m. Inl VenueError)\<rparr>,
        c_balance = Inr 1,
        c_fs = [''coinex_pos.json'' \<mapsto> Json (PDict [(''BTCUSDT'', PNum 0)])],
        c_book = Inr (PDict [(''bids'', PList [PDict [(''price'', PNum 100)]]),
             (''asks'', PList [PDict [(''price'', PNum 102)]])]),
        c_order = Inr (PDict [(''order'', PDict [(''id'', PNum 7)])]),
        c_parse = Inr ''success'', c_start = 2, c_ticks = []\<rparr>
      101 (- 20) 20 9 100 102 = (Skipped, [])"
proof -
  have ld: "live_diff_nb (\<lambda>s. None) (\<lparr>nobitex_ob = (\<lambda>m. Inr (PDict [(''bids'', PList [PDict [(''price'', PNum 100)]]),
                                          (''asks'', PList [PDict [(''price'', PNum 102)]])])),
           coinex_ob = (\<lambda>m. Inr (PDict [(''bids'', PList [PList [PNum 1, PNum 5]]),
                                          (''asks'', PList [PList [PNum 3, PNum 5]])])),
           binance_ob = (\<lambda>m. Inl VenueError)\<rparr>) ''BTC'' = Inr (202, 101, 101)"
    by (simp add: live_diff_nb_def nobitex_mid_def top_price_def coinex_mid_try_def
        top_entry_def py_mid_def)
  have up: "str_upper ''BTCUSDT'' = ''BTCUSDT''"
    by (simp add: str_upper_def upper_char_def)
  have guard: "within_tobit_window (- 10) 10 5
        [''coinex_pos.json'' \<mapsto> Json (PDict [(''BTCUSDT'', PNum 0)])] ''coinex_pos.json'' ''BTC'' 1 =
        Inr (True, PNum 0, - 1, - 6, 4)"
    by (simp add: within_tobit_window_def read_pos_def read_pos_try_def up py_less_def
        py_greater_def)
  have run: "nb_cycle (\<lambda>x. x) (\<lambda>s. None) (\<lambda>s. None)
      \<lparr>cfg_window_min = 60, cfg_k_sigma = 2, cfg_w_buy = 1 / 2, cfg_w_sell = 1 / 2,
        cfg_timeout_sec = 45, cfg_pos_store_path = ''coinex_pos.json'', cfg_order_qty = 2,
        cfg_l_units = - 10, cfg_u_units = 10, cfg_t_units = 5\<rparr>
      ''BTC'' \<lparr>s_last_stats = 0, s_mean = 0, s_std = 10\<rparr>
      \<lparr>c_now = 2, c_query = Inl VenueError,
        c_feeds = \<lparr>nobitex_ob = (\<lambda>m. Inr (PDict [(''bids'', PList [PDict [(''price'', PNum 100)]]),
                                          (''asks'', PList [PDict [(''price'', PNum 102)]])])),
           coinex_ob = (\<lambda>m. Inr (PDict [(''bids'', PList [PList [PNum 1, PNum 5]]),
                                          (''asks'', PList [PList [PNum 3, PNum 5]])])),
           binance_ob = (\<lambda>m. Inl VenueError)\<rparr>,
        c_balance = Inr 1,
        c_fs = [''coinex_pos.json'' \<mapsto> Json (PDict [(''BTCUSDT'', PNum 0)])],
        c_book = Inr (PDict [(''bids'', PList [PDict [(''price'', PNum 100)]]),
             (''asks'', PList [PDict [(''price'', PNum 102)]])]),
        c_order = Inr (PDict [(''order'', PDict [(''id'', PNum 7)])]),
        c_parse = Inr ''success'', c_start = 2, c_ticks = []\<rparr> =
     (\<lparr>s_last_stats = 0, s_mean = 0, s_std = 10\<rparr>, Polling, [NbNewOrder ''buy'' 2 ''BTCIRT'' 101])"
    by (simp add: nb_cycle_def trade_step_def ld guard top_price_def act_on_signal_def
        place_and_track_def weighted_limit_price_def)
  have mem: "NbNewOrder ''buy'' 2 ''BTCIRT'' 101 \<in>
      set (snd (snd (nb_cycle (\<lambda>x. x) (\<lambda>s. None) (\<lambda>s. None)
      \<lparr>cfg_window_min = 60, cfg_k_sigma = 2, cfg_w_buy = 1 / 2, cfg_w_sell = 1 / 2,
        cfg_timeout_sec = 45, cfg_pos_store_path = ''coinex_pos.json'', cfg_order_qty = 2,
        cfg_l_units = - 10, cfg_u_units = 10, cfg_t_units = 5\<rparr>
      ''BTC'' \<lparr>s_last_stats = 0, s_mean = 0, s_std = 10\<rparr>
      \<lparr>c_now = 2, c_query = Inl VenueError,
        c_feeds = \<lparr>nobitex_ob = (\<lambda>m. Inr (PDict [(''bids'', PList [PDict [(''price'', PNum 100)]]),
                                          (''asks'', PList [PDict [(''price'', PNum 102)]])])),
           coinex_ob = (\<lambda>m. Inr (PDict [(''bids'', PList [PList [PNum 1, PNum 5]]),
                                          (''asks'', PList [PList [PNum 3, PNum 5]])])),
           binance_ob = (\<lambda>m. Inl VenueError)\<rparr>,
        c_balance = Inr 1,
        c_fs = [''coinex_pos.json'' \<mapsto> Json (PDict [(''BTCUSDT'', PNum 0)])],
        c_book = Inr (PDict [(''bids'', PList [PDict [(''price'', PNum 100)]]),
             (''asks'', PList [PDict [(''price'', PNum 102)]])]),
        c_order = Inr (PDict [(''order'', PDict [(''id'', PNum 7)])]),
        c_parse = Inr ''success'', c_start = 2, c_ticks = []\<rparr>)))"
    by (simp add: run)
  from spot_orders_within_bounds [THEN conjunct1, rule_format, OF mem]
  have bound: "\<exists>b_units. Inr 1 = Inr b_units \<and> b_units + 2 \<le> (10::real)"
    by auto
  have skip: "act_on_signal (\<lambda>x. x) (\<lambda>s. None) (\<lambda>s. None)
      \<lparr>cfg_window_min = 60, cfg_k_sigma = 2, cfg_w_buy = 1 / 2, cfg_w_sell = 1 / 2,
        cfg_timeout_sec = 45, cfg_pos_store_path = ''coinex_pos.json'', cfg_order_qty = 2,
        cfg_l_units = - 10, cfg_u_units = 10, cfg_t_units = 5\<rparr>
      ''BTC'' \<lparr>s_last_stats = 0, s_mean = 0, s_std = 10\<rparr>
      \<lparr>c_now = 2, c_query = Inl VenueError,
        c_feeds = \<lparr>nobitex_ob = (\<lambda>m. Inr (PDict [(''bids'', PList [PDict [(''price'', PNum 100)]]),
                                          (''asks'', PList [PDict [(''price'', PNum 102)]])])),
           coinex_ob = (\<lambda>m. Inr (PDict [(''bids'', PList [PList [PNum 1, PNum 5]]),
                                          (''asks'', PList [PList [PNum 3, PNum 5]])])),
           binance_ob = (\<lambda>m. Inl VenueError)\<rparr>,
        c_balance = Inr 1,
        c_fs = [''coinex_pos.json'' \<mapsto> Json (PDict [(''BTCUSDT'', PNum 0)])],
        c_book = Inr (PDict [(''bids'', PList [PDict [(''price'', PNum 100)]]),
             (''asks'', PList [PDict [(''price'', PNum 102)]])]),
        c_order = Inr (PDict [(''order'', PDict [(''id'', PNum 7)])]),
        c_parse = Inr ''success'', c_start = 2, c_ticks = []\<rparr>
      101 (- 20) 20 9 100 102 = (Skipped, [])"
    by (rule spot_orders_within_bounds [THEN conjunct2, THEN conjunct1, rule_format]) simp
  from run bound skip show ?thesis by blast
qed

end
